theory Spec2Isabelle
  imports Main
begin

section \<open>Python values and exceptions\<close>

text \<open>
  The settings module of Robottelo (\<^verbatim>\<open>robottelo/config/settings.py\<close>) stores dynamically
  typed values in its attributes: \<^verbatim>\<open>None\<close>, strings read from the INI file, and whatever a
  cast returns. They are modelled by one type of Python values.
\<close>

datatype pyval =
    PyNone
  | PyBool bool
  | PyInt int
  | PyStr string
  | PyList "pyval list"
  | PyTuple "pyval list"
  | PyDict "(pyval \<times> pyval) list"

text \<open>Python's truth value testing (\<^verbatim>\<open>if x\<close>, \<^verbatim>\<open>not x\<close>, \<^verbatim>\<open>any\<close>, \<^verbatim>\<open>all\<close>).\<close>

fun truthy :: "pyval \<Rightarrow> bool" where
  "truthy PyNone = False"
| "truthy (PyBool b) = b"
| "truthy (PyInt i) = (i \<noteq> 0)"
| "truthy (PyStr s) = (s \<noteq> [])"
| "truthy (PyList xs) = (xs \<noteq> [])"
| "truthy (PyTuple xs) = (xs \<noteq> [])"
| "truthy (PyDict kvs) = (kvs \<noteq> [])"

text \<open>
  The exceptions that can travel through the module. \<open>ImproperlyConfigured\<close> is the
  module's own class and carries its message; \<open>CastError\<close> is the failure of a caster of
  \<^verbatim>\<open>robottelo.config.casts\<close>, with the raw value it rejects; the others are the classes of
  the standard library that the code catches or lets through. \<open>InterpolationError\<close> stands
  for the errors of the parser's interpolation, which are neither a \<^verbatim>\<open>NoSectionError\<close> nor
  a \<^verbatim>\<open>NoOptionError\<close>.
\<close>

datatype exn =
    ImproperlyConfigured string
  | NoSectionError
  | NoOptionError
  | InterpolationError
  | ValueError
  | TypeError
  | AttributeError
  | CastError string
  | OtherError string

subsection \<open>Rendering values: \<^verbatim>\<open>str.format\<close> and \<^verbatim>\<open>str.join\<close>\<close>

definition digit_char :: "nat \<Rightarrow> char" where
  "digit_char d = ''0123456789'' ! d"

fun str_nat :: "nat \<Rightarrow> string" where
  "str_nat n = (if n < 10 then [digit_char n] else str_nat (n div 10) @ [digit_char (n mod 10)])"

declare str_nat.simps [simp del]

definition str_int :: "int \<Rightarrow> string" where
  "str_int i = (if i < 0 then CHR ''-'' # str_nat (nat (- i)) else str_nat (nat i))"

text \<open>\<^verbatim>\<open>sep.join(xs)\<close>\<close>

fun join :: "string \<Rightarrow> string list \<Rightarrow> string" where
  "join sep [] = []"
| "join sep [x] = x"
| "join sep (x # y # ys) = x @ sep @ join sep (y # ys)"

text \<open>
  \<^verbatim>\<open>'{0}'.format(v)\<close> is \<^verbatim>\<open>str(v)\<close>. It is exact here for \<^verbatim>\<open>None\<close>, booleans, integers and
  strings, the values a settings field holds after \<^verbatim>\<open>read\<close>; for containers the elements
  are rendered by \<open>py_repr\<close>, which quotes a string without escaping it.
\<close>

primrec py_repr :: "pyval \<Rightarrow> string" where
  "py_repr PyNone = ''None''"
| "py_repr (PyBool b) = (if b then ''True'' else ''False'')"
| "py_repr (PyInt i) = str_int i"
| "py_repr (PyStr s) = [CHR 0x27] @ s @ [CHR 0x27]"
| "py_repr (PyList xs) = ''['' @ join '', '' (map py_repr xs) @ '']''"
| "py_repr (PyTuple xs) =
     ''('' @ join '', '' (map py_repr xs) @ (if length xs = 1 then '','' else []) @ '')''"
| "py_repr (PyDict kvs) =
     ''{'' @ join '', '' (map (\<lambda>kv. fst kv @ '': '' @ snd kv) (map (map_prod py_repr py_repr) kvs))
       @ ''}''"

definition py_str :: "pyval \<Rightarrow> string" where
  "py_str v = (case v of PyStr s \<Rightarrow> s | _ \<Rightarrow> py_repr v)"

section \<open>Casts\<close>

text \<open>
  A cast handed to \<^verbatim>\<open>INIReader.get\<close> is a Python callable. The reader compares it by
  identity with the builtin types \<^verbatim>\<open>bool\<close>, \<^verbatim>\<open>dict\<close>, \<^verbatim>\<open>list\<close> and \<^verbatim>\<open>tuple\<close>; every other
  callable (\<^verbatim>\<open>int\<close>, a caster object of \<^verbatim>\<open>robottelo.config.casts\<close>, a function of the
  caller) is just called. A call returns a value or raises.
\<close>

type_synonym caster = "string \<Rightarrow> exn + pyval"

datatype callable =
    builtin_bool
  | builtin_dict
  | builtin_list
  | builtin_tuple
  | Callable caster

definition is_space :: "char \<Rightarrow> bool" where
  "is_space c = (c \<in> set [CHR '' '', CHR 0x09, CHR 0x0A, CHR 0x0B, CHR 0x0C, CHR 0x0D])"

definition strip :: "string \<Rightarrow> string" where
  "strip s = rev (dropWhile is_space (rev (dropWhile is_space s)))"

definition is_digit :: "char \<Rightarrow> bool" where
  "is_digit c = ((48::nat) \<le> of_char c \<and> (of_char c :: nat) \<le> 57)"

definition digits_value :: "string \<Rightarrow> nat" where
  "digits_value ds = foldl (\<lambda>acc c. 10 * acc + ((of_char c :: nat) - 48)) 0 ds"

text \<open>
  The builtin \<^verbatim>\<open>int(s)\<close> on a string, base 10: surrounding whitespace is ignored, one sign
  is allowed, and at least one digit must follow. Anything else raises \<^verbatim>\<open>ValueError\<close>.
  (Digit grouping with underscores and non-ASCII digits are not modelled: such strings
  are rejected here.)
\<close>

definition builtin_int :: caster where
  "builtin_int s =
     (let t = strip s;
          neg = (t \<noteq> [] \<and> hd t = CHR ''-'');
          ds = (if t \<noteq> [] \<and> (hd t = CHR ''-'' \<or> hd t = CHR ''+'') then tl t else t)
      in if ds \<noteq> [] \<and> list_all is_digit ds
         then Inr (PyInt (if neg then - int (digits_value ds) else int (digits_value ds)))
         else Inl ValueError)"

text \<open>
  What calling the object on a string does. For the four builtin types this is the
  constructor of the type applied to a string: \<^verbatim>\<open>bool(s)\<close> is the truth value of \<^verbatim>\<open>s\<close>,
  \<^verbatim>\<open>list(s)\<close> and \<^verbatim>\<open>tuple(s)\<close> are its characters, \<^verbatim>\<open>dict(s)\<close> is empty for the empty
  string and a \<^verbatim>\<open>ValueError\<close> otherwise.
\<close>

fun call :: "callable \<Rightarrow> caster" where
  "call builtin_bool s = Inr (PyBool (s \<noteq> []))"
| "call builtin_dict s = (if s = [] then Inr (PyDict []) else Inl ValueError)"
| "call builtin_list s = Inr (PyList (map (\<lambda>c. PyStr [c]) s))"
| "call builtin_tuple s = Inr (PyTuple (map (\<lambda>c. PyStr [c]) s))"
| "call (Callable f) s = f s"

text \<open>
  The helper casters are class attributes of \<^verbatim>\<open>INIReader\<close>, instances of the classes of
  \<^verbatim>\<open>robottelo.config.casts\<close>. That module is not part of the sources at hand, so the six
  casters are parameters of the model: every theorem below holds for all of them.
\<close>

record casters =
  cast_boolean :: caster
  cast_dict :: caster
  cast_list :: caster
  cast_logging_level :: caster
  cast_tuple :: caster
  cast_webdriver_desired_capabilities :: caster

section \<open>\<^verbatim>\<open>INIReader\<close>\<close>

text \<open>
  The parser is an object of the standard library, created and filled by
  \<^verbatim>\<open>INIReader.__init__\<close>. The reader calls two of its methods. \<^verbatim>\<open>get(section, option)\<close>
  returns the value of the option as the parser delivers it: the parser compares option
  names in lower case, lets the options of the \<^verbatim>\<open>[DEFAULT]\<close> section stand in for those a
  section lacks, and interpolates the \<^verbatim>\<open>%\<close>-references of a value before it returns it. It
  raises \<^verbatim>\<open>NoSectionError\<close> for a missing section, \<^verbatim>\<open>NoOptionError\<close> for a missing option,
  and an interpolation error for a value it cannot interpolate. \<^verbatim>\<open>has_section(section)\<close>
  tells whether the file has the section. What the two methods answer is a parameter of
  the model: a parser is the pair of these answers, and every theorem below holds for
  all parsers.
\<close>

record ConfigParser =
  ConfigParser_get :: "string \<Rightarrow> string \<Rightarrow> exn + string"
  ConfigParser_has_section :: "string \<Rightarrow> bool"

record INIReader =
  config_parser :: ConfigParser
  casts :: casters

text \<open>
  \<^verbatim>\<open>INIReader.get\<close>: the lookup and the cast both happen inside the \<^verbatim>\<open>try\<close>; the
  \<^verbatim>\<open>except\<close> clause replaces a \<^verbatim>\<open>NoSectionError\<close> or \<^verbatim>\<open>NoOptionError\<close> raised there by the
  default, and lets every other exception through, those of the parser's interpolation
  included.
\<close>

definition INIReader_get ::
    "INIReader \<Rightarrow> string \<Rightarrow> string \<Rightarrow> pyval \<Rightarrow> callable option \<Rightarrow> exn + pyval" where
  "INIReader_get self section option dflt cast =
     (case (case ConfigParser_get (config_parser self) section option of
              Inl e \<Rightarrow> Inl e
            | Inr v \<Rightarrow>
                (case cast of
                   None \<Rightarrow> Inr (PyStr v)
                 | Some builtin_bool \<Rightarrow> cast_boolean (casts self) v
                 | Some builtin_dict \<Rightarrow> cast_dict (casts self) v
                 | Some builtin_list \<Rightarrow> cast_list (casts self) v
                 | Some builtin_tuple \<Rightarrow> cast_tuple (casts self) v
                 | Some (Callable f) \<Rightarrow> f v)) of
        Inl e \<Rightarrow> (if e = NoSectionError \<or> e = NoOptionError then Inr dflt else Inl e)
      | Inr value \<Rightarrow> Inr value)"

definition INIReader_has_section :: "INIReader \<Rightarrow> string \<Rightarrow> bool" where
  "INIReader_has_section self section = ConfigParser_has_section (config_parser self) section"

section \<open>Statements that may raise\<close>

text \<open>
  A method mutates its object and either returns or raises; the assignments made before
  an exception stay. A statement is therefore a function from the state to the exception
  raised, if any, and the state reached.
\<close>

type_synonym 's cmd = "'s \<Rightarrow> exn option \<times> 's"

text \<open>A sequence of statements stops at the first exception.\<close>

fun block :: "'s cmd list \<Rightarrow> 's cmd" where
  "block [] s = (None, s)"
| "block (c # cs) s = (case c s of (None, s') \<Rightarrow> block cs s' | (Some e, s') \<Rightarrow> (Some e, s'))"

text \<open>\<^verbatim>\<open>self.attr = expr\<close>, where evaluating \<^verbatim>\<open>expr\<close> may raise.\<close>

definition assign :: "(pyval \<Rightarrow> 's \<Rightarrow> 's) \<Rightarrow> exn + pyval \<Rightarrow> 's cmd" where
  "assign store expr s = (case expr of Inl e \<Rightarrow> (Some e, s) | Inr v \<Rightarrow> (None, store v s))"

text \<open>A statement on the object held in an attribute: \<^verbatim>\<open>self.attr.method(...)\<close>.\<close>

definition on_attr :: "('s \<Rightarrow> 'g) \<Rightarrow> ('g \<Rightarrow> 's \<Rightarrow> 's) \<Rightarrow> 'g cmd \<Rightarrow> 's cmd" where
  "on_attr load store c s = (case c (load s) of (r, g) \<Rightarrow> (r, store g s))"

text \<open>
  The exception a sequence of outcomes amounts to: the first one, if any. \<open>first_failure\<close>
  reads it off the values of the expressions assigned by a sequence of assignments,
  \<open>first_raise\<close> off the outcomes of a sequence of statements.
\<close>

fun first_failure :: "(exn + 'a) list \<Rightarrow> exn option" where
  "first_failure [] = None"
| "first_failure (Inl e # xs) = Some e"
| "first_failure (Inr v # xs) = first_failure xs"

fun first_raise :: "exn option list \<Rightarrow> exn option" where
  "first_raise [] = None"
| "first_raise (None # os) = first_raise os"
| "first_raise (Some e # os) = Some e"

text \<open>
  \<open>follows cs as ts s\<close>: started in \<open>s\<close>, the statements \<open>cs\<close> have the outcomes \<open>as\<close> and
  reach the states \<open>ts\<close>, one after the other, as long as none raises.
\<close>

fun follows :: "'s cmd list \<Rightarrow> exn option list \<Rightarrow> 's list \<Rightarrow> 's \<Rightarrow> bool" where
  "follows (c # cs) (a # as) (t # ts) s =
     (fst (c s) = a \<and> (a = None \<longrightarrow> snd (c s) = t \<and> follows cs as ts t))"
| "follows [] [] [] s = True"
| "follows _ _ _ s = False"

section \<open>Feature settings\<close>

subsection \<open>\<^verbatim>\<open>ServerSettings\<close>\<close>

record ServerSettings =
  admin_password :: pyval
  admin_username :: pyval
  hostname :: pyval
  port :: pyval
  scheme :: pyval
  ssh_key :: pyval
  ssh_password :: pyval
  ssh_username :: pyval

definition ServerSettings_init :: ServerSettings where
  "ServerSettings_init =
     \<lparr>admin_password = PyNone, admin_username = PyNone, hostname = PyNone, port = PyNone,
      scheme = PyNone, ssh_key = PyNone, ssh_password = PyNone, ssh_username = PyNone\<rparr>"

definition ServerSettings_read :: "INIReader \<Rightarrow> ServerSettings cmd" where
  "ServerSettings_read reader = block [
     assign (\<lambda>v self. self\<lparr>admin_password := v\<rparr>)
       (INIReader_get reader ''server'' ''admin_password'' (PyStr ''changeme'') None),
     assign (\<lambda>v self. self\<lparr>admin_username := v\<rparr>)
       (INIReader_get reader ''server'' ''admin_username'' (PyStr ''admin'') None),
     assign (\<lambda>v self. self\<lparr>hostname := v\<rparr>)
       (INIReader_get reader ''server'' ''hostname'' PyNone None),
     assign (\<lambda>v self. self\<lparr>port := v\<rparr>)
       (INIReader_get reader ''server'' ''port'' PyNone (Some (Callable builtin_int))),
     assign (\<lambda>v self. self\<lparr>scheme := v\<rparr>)
       (INIReader_get reader ''server'' ''scheme'' (PyStr ''https'') None),
     assign (\<lambda>v self. self\<lparr>ssh_key := v\<rparr>)
       (INIReader_get reader ''server'' ''ssh_key'' PyNone None),
     assign (\<lambda>v self. self\<lparr>ssh_password := v\<rparr>)
       (INIReader_get reader ''server'' ''ssh_password'' PyNone None),
     assign (\<lambda>v self. self\<lparr>ssh_username := v\<rparr>)
       (INIReader_get reader ''server'' ''ssh_username'' (PyStr ''root'') None)]"

definition ServerSettings_validate :: "ServerSettings \<Rightarrow> string list" where
  "ServerSettings_validate self =
     (if hostname self = PyNone then [''[server] hostname must be provided.''] else []) @
     (if ssh_key self = PyNone \<and> ssh_password self = PyNone
      then [''[server] ssh_key or ssh_password must be provided.''] else [])"

definition ServerSettings_get_credentials :: "ServerSettings \<Rightarrow> pyval \<times> pyval" where
  "ServerSettings_get_credentials self = (admin_username self, admin_password self)"

text \<open>
  \<^verbatim>\<open>urlunsplit((scheme, netloc, url, query, fragment))\<close> of the standard library. The first
  two components are what the caller computed, so they are Python values; a component
  that is true and not a string raises (\<^verbatim>\<open>TypeError\<close> from the concatenation in Python 2;
  Python 3 rejects it too). On strings Python 2 and Python 3 agree.
\<close>

definition uses_netloc :: "string list" where
  "uses_netloc = ['''', ''ftp'', ''http'', ''gopher'', ''nntp'', ''telnet'', ''imap'', ''wais'',
     ''file'', ''mms'', ''https'', ''shttp'', ''snews'', ''prospero'', ''rtsp'', ''rtspu'',
     ''rsync'', ''svn'', ''svn+ssh'', ''sftp'', ''nfs'', ''git'', ''git+ssh'', ''ws'', ''wss'']"

definition is_str :: "pyval \<Rightarrow> bool" where
  "is_str v = (case v of PyStr s \<Rightarrow> True | _ \<Rightarrow> False)"

definition str_of :: "pyval \<Rightarrow> string" where
  "str_of v = (case v of PyStr s \<Rightarrow> s | _ \<Rightarrow> [])"

definition urlunsplit :: "pyval \<Rightarrow> pyval \<Rightarrow> string \<Rightarrow> string \<Rightarrow> string \<Rightarrow> exn + string" where
  "urlunsplit scheme0 netloc url query fragment =
     (if (truthy netloc \<and> \<not> is_str netloc) \<or> (truthy scheme0 \<and> \<not> is_str scheme0)
      then Inl TypeError
      else
        let url1 = (if truthy netloc \<or>
                       (truthy scheme0 \<and> str_of scheme0 \<in> set uses_netloc \<and> take 2 url \<noteq> ''//'')
                    then ''//'' @ str_of netloc
                           @ (if url \<noteq> [] \<and> take 1 url \<noteq> ''/'' then ''/'' @ url else url)
                    else url);
            url2 = (if truthy scheme0 then str_of scheme0 @ '':'' @ url1 else url1);
            url3 = (if query \<noteq> [] then url2 @ ''?'' @ query else url2);
            url4 = (if fragment \<noteq> [] then url3 @ ''#'' @ fragment else url3)
        in Inr url4)"

definition ServerSettings_get_url :: "ServerSettings \<Rightarrow> exn + string" where
  "ServerSettings_get_url self =
     (let scheme0 = (if \<not> truthy (scheme self) then PyStr ''https'' else scheme self)
      in if \<not> truthy (port self)
         then urlunsplit scheme0 (hostname self) [] [] []
         else urlunsplit scheme0 (PyStr (py_str (hostname self) @ '':'' @ py_str (port self)))
                [] [] [])"

subsection \<open>\<^verbatim>\<open>ClientsSettings\<close>\<close>

record ClientsSettings =
  image_dir :: pyval
  provisioning_server :: pyval

definition ClientsSettings_init :: ClientsSettings where
  "ClientsSettings_init = \<lparr>image_dir = PyNone, provisioning_server = PyNone\<rparr>"

definition ClientsSettings_read :: "INIReader \<Rightarrow> ClientsSettings cmd" where
  "ClientsSettings_read reader = block [
     assign (\<lambda>v self. self\<lparr>image_dir := v\<rparr>)
       (INIReader_get reader ''clients'' ''image_dir'' (PyStr ''/opt/robottelo/images'') None),
     assign (\<lambda>v self. self\<lparr>provisioning_server := v\<rparr>)
       (INIReader_get reader ''clients'' ''provisioning_server'' PyNone None)]"

definition ClientsSettings_validate :: "ClientsSettings \<Rightarrow> string list" where
  "ClientsSettings_validate self =
     (if provisioning_server self = PyNone
      then [''[clients] provisioning_server option must be provided.''] else [])"

subsection \<open>\<^verbatim>\<open>DockerSettings\<close>\<close>

record DockerSettings =
  unix_socket :: pyval
  external_url :: pyval

definition DockerSettings_init :: DockerSettings where
  "DockerSettings_init = \<lparr>unix_socket = PyNone, external_url = PyNone\<rparr>"

text \<open>\<^verbatim>\<open>vars(self).values()\<close>: the values of the instance attributes.\<close>

definition DockerSettings_vars_values :: "DockerSettings \<Rightarrow> pyval list" where
  "DockerSettings_vars_values self = [unix_socket self, external_url self]"

definition DockerSettings_read :: "INIReader \<Rightarrow> DockerSettings cmd" where
  "DockerSettings_read reader = block [
     assign (\<lambda>v self. self\<lparr>unix_socket := v\<rparr>)
       (INIReader_get reader ''docker'' ''unix_socket'' (PyBool False) (Some builtin_bool)),
     assign (\<lambda>v self. self\<lparr>external_url := v\<rparr>)
       (INIReader_get reader ''docker'' ''external_url'' PyNone None)]"

definition DockerSettings_validate :: "DockerSettings \<Rightarrow> string list" where
  "DockerSettings_validate self =
     (if \<not> list_ex truthy (DockerSettings_vars_values self)
      then [''Either [docker] unix_socket or external_url options must be provided or enabled.'']
      else [])"

definition DockerSettings_get_unix_socket_url :: "DockerSettings \<Rightarrow> pyval" where
  "DockerSettings_get_unix_socket_url self =
     (if truthy (unix_socket self) then PyStr ''unix:///var/run/docker.sock'' else PyNone)"

subsection \<open>\<^verbatim>\<open>FakeManifestSettings\<close>\<close>

record FakeManifestSettings =
  cert_url :: pyval
  key_url :: pyval
  url :: pyval

definition FakeManifestSettings_init :: FakeManifestSettings where
  "FakeManifestSettings_init = \<lparr>cert_url = PyNone, key_url = PyNone, url = PyNone\<rparr>"

definition FakeManifestSettings_vars_values :: "FakeManifestSettings \<Rightarrow> pyval list" where
  "FakeManifestSettings_vars_values self = [cert_url self, key_url self, url self]"

definition FakeManifestSettings_read :: "INIReader \<Rightarrow> FakeManifestSettings cmd" where
  "FakeManifestSettings_read reader = block [
     assign (\<lambda>v self. self\<lparr>cert_url := v\<rparr>)
       (INIReader_get reader ''fake_manifest'' ''cert_url'' PyNone None),
     assign (\<lambda>v self. self\<lparr>key_url := v\<rparr>)
       (INIReader_get reader ''fake_manifest'' ''key_url'' PyNone None),
     assign (\<lambda>v self. self\<lparr>url := v\<rparr>)
       (INIReader_get reader ''fake_manifest'' ''url'' PyNone None)]"

definition FakeManifestSettings_validate :: "FakeManifestSettings \<Rightarrow> string list" where
  "FakeManifestSettings_validate self =
     (if \<not> list_all truthy (FakeManifestSettings_vars_values self)
      then [''All [fake_manifest] cert_url, key_url, url options must be provided.'']
      else [])"

subsection \<open>\<^verbatim>\<open>LDAPSettings\<close>\<close>

text \<open>
  The attribute \<^verbatim>\<open>hostname\<close> of \<^verbatim>\<open>LDAPSettings\<close> is the field \<open>ldap_hostname\<close>: the name
  \<open>hostname\<close> is the field of \<open>ServerSettings\<close>.
\<close>

record LDAPSettings =
  basedn :: pyval
  grpbasedn :: pyval
  ldap_hostname :: pyval
  password :: pyval
  username :: pyval

definition LDAPSettings_init :: LDAPSettings where
  "LDAPSettings_init =
     \<lparr>basedn = PyNone, grpbasedn = PyNone, ldap_hostname = PyNone, password = PyNone,
      username = PyNone\<rparr>"

definition LDAPSettings_vars_values :: "LDAPSettings \<Rightarrow> pyval list" where
  "LDAPSettings_vars_values self =
     [basedn self, grpbasedn self, ldap_hostname self, password self, username self]"

definition LDAPSettings_read :: "INIReader \<Rightarrow> LDAPSettings cmd" where
  "LDAPSettings_read reader = block [
     assign (\<lambda>v self. self\<lparr>basedn := v\<rparr>) (INIReader_get reader ''ldap'' ''basedn'' PyNone None),
     assign (\<lambda>v self. self\<lparr>grpbasedn := v\<rparr>)
       (INIReader_get reader ''ldap'' ''grpbasedn'' PyNone None),
     assign (\<lambda>v self. self\<lparr>ldap_hostname := v\<rparr>)
       (INIReader_get reader ''ldap'' ''hostname'' PyNone None),
     assign (\<lambda>v self. self\<lparr>password := v\<rparr>)
       (INIReader_get reader ''ldap'' ''password'' PyNone None),
     assign (\<lambda>v self. self\<lparr>username := v\<rparr>)
       (INIReader_get reader ''ldap'' ''username'' PyNone None)]"

definition LDAPSettings_validate :: "LDAPSettings \<Rightarrow> string list" where
  "LDAPSettings_validate self =
     (if \<not> list_all truthy (LDAPSettings_vars_values self)
      then [''All [ldap] basedn, grpbasedn, hostname, password, username options must be provided.'']
      else [])"

subsection \<open>\<^verbatim>\<open>LibvirtHostSettings\<close>\<close>

record LibvirtHostSettings =
  libvirt_image_dir :: pyval
  libvirt_hostname :: pyval

definition LibvirtHostSettings_init :: LibvirtHostSettings where
  "LibvirtHostSettings_init = \<lparr>libvirt_image_dir = PyNone, libvirt_hostname = PyNone\<rparr>"

definition LibvirtHostSettings_read :: "INIReader \<Rightarrow> LibvirtHostSettings cmd" where
  "LibvirtHostSettings_read reader = block [
     assign (\<lambda>v self. self\<lparr>libvirt_image_dir := v\<rparr>)
       (INIReader_get reader ''compute_resources'' ''libvirt_image_dir''
          (PyStr ''/var/lib/libvirt/images'') None),
     assign (\<lambda>v self. self\<lparr>libvirt_hostname := v\<rparr>)
       (INIReader_get reader ''compute_resources'' ''libvirt_hostname'' PyNone None)]"

definition LibvirtHostSettings_validate :: "LibvirtHostSettings \<Rightarrow> string list" where
  "LibvirtHostSettings_validate self =
     (if libvirt_hostname self = PyNone
      then [''[compute_resources] libvirt_hostname option must be provided.''] else [])"

subsection \<open>\<^verbatim>\<open>DiscoveryISOSettings\<close>\<close>

record DiscoveryISOSettings =
  discovery_iso :: pyval

definition DiscoveryISOSettings_init :: DiscoveryISOSettings where
  "DiscoveryISOSettings_init = \<lparr>discovery_iso = PyNone\<rparr>"

definition DiscoveryISOSettings_read :: "INIReader \<Rightarrow> DiscoveryISOSettings cmd" where
  "DiscoveryISOSettings_read reader = block [
     assign (\<lambda>v self. self\<lparr>discovery_iso := v\<rparr>)
       (INIReader_get reader ''discovery'' ''discovery_iso'' PyNone None)]"

definition DiscoveryISOSettings_validate :: "DiscoveryISOSettings \<Rightarrow> string list" where
  "DiscoveryISOSettings_validate self =
     (if discovery_iso self = PyNone
      then [''[discovery] discovery iso name must be provided.''] else [])"

subsection \<open>\<^verbatim>\<open>OscapSettings\<close>\<close>

record OscapSettings =
  content_path :: pyval

definition OscapSettings_init :: OscapSettings where
  "OscapSettings_init = \<lparr>content_path = PyNone\<rparr>"

definition OscapSettings_read :: "INIReader \<Rightarrow> OscapSettings cmd" where
  "OscapSettings_read reader = block [
     assign (\<lambda>v self. self\<lparr>content_path := v\<rparr>)
       (INIReader_get reader ''oscap'' ''content_path'' PyNone None)]"

definition OscapSettings_validate :: "OscapSettings \<Rightarrow> string list" where
  "OscapSettings_validate self =
     (if content_path self = PyNone
      then [''[oscap] content_path option must be provided.''] else [])"

subsection \<open>\<^verbatim>\<open>PerformanceSettings\<close>\<close>

record PerformanceSettings =
  time_hammer :: pyval
  cdn_address :: pyval
  virtual_machines :: pyval
  fresh_install_savepoint :: pyval
  enabled_repos_savepoint :: pyval
  csv_buckets_count :: pyval
  sync_count :: pyval
  sync_type :: pyval
  repos :: pyval

definition PerformanceSettings_init :: PerformanceSettings where
  "PerformanceSettings_init =
     \<lparr>time_hammer = PyNone, cdn_address = PyNone, virtual_machines = PyNone,
      fresh_install_savepoint = PyNone, enabled_repos_savepoint = PyNone,
      csv_buckets_count = PyNone, sync_count = PyNone, sync_type = PyNone, repos = PyNone\<rparr>"

definition PerformanceSettings_read :: "INIReader \<Rightarrow> PerformanceSettings cmd" where
  "PerformanceSettings_read reader = block [
     assign (\<lambda>v self. self\<lparr>time_hammer := v\<rparr>)
       (INIReader_get reader ''performance'' ''time_hammer'' (PyBool False) (Some builtin_bool)),
     assign (\<lambda>v self. self\<lparr>cdn_address := v\<rparr>)
       (INIReader_get reader ''performance'' ''cdn_address'' PyNone None),
     assign (\<lambda>v self. self\<lparr>virtual_machines := v\<rparr>)
       (INIReader_get reader ''performance'' ''virtual_machines'' PyNone (Some builtin_list)),
     assign (\<lambda>v self. self\<lparr>fresh_install_savepoint := v\<rparr>)
       (INIReader_get reader ''performance'' ''fresh_install_savepoint'' PyNone None),
     assign (\<lambda>v self. self\<lparr>enabled_repos_savepoint := v\<rparr>)
       (INIReader_get reader ''performance'' ''enabled_repos_savepoint'' PyNone None),
     assign (\<lambda>v self. self\<lparr>csv_buckets_count := v\<rparr>)
       (INIReader_get reader ''performance'' ''csv_buckets_count'' (PyInt 10)
          (Some (Callable builtin_int))),
     assign (\<lambda>v self. self\<lparr>sync_count := v\<rparr>)
       (INIReader_get reader ''performance'' ''sync_count'' (PyInt 3)
          (Some (Callable builtin_int))),
     assign (\<lambda>v self. self\<lparr>sync_type := v\<rparr>)
       (INIReader_get reader ''performance'' ''sync_type'' (PyStr ''sync'') None),
     assign (\<lambda>v self. self\<lparr>repos := v\<rparr>)
       (INIReader_get reader ''performance'' ''repos'' PyNone (Some builtin_list))]"

definition PerformanceSettings_validate :: "PerformanceSettings \<Rightarrow> string list" where
  "PerformanceSettings_validate self =
     (if cdn_address self = PyNone then [''[performance] cdn_address must be provided.''] else []) @
     (if virtual_machines self = PyNone
      then [''[performance] virtual_machines must be provided.''] else []) @
     (if fresh_install_savepoint self = PyNone
      then [''[performance] fresh_install_savepoint must be provided.''] else []) @
     (if enabled_repos_savepoint self = PyNone
      then [''[performance] enabled_repos_savepoint must be provided.''] else [])"

subsection \<open>\<^verbatim>\<open>RHAISettings\<close>\<close>

record RHAISettings =
  insights_client_el6repo :: pyval
  insights_client_el7repo :: pyval

definition RHAISettings_init :: RHAISettings where
  "RHAISettings_init = \<lparr>insights_client_el6repo = PyNone, insights_client_el7repo = PyNone\<rparr>"

definition RHAISettings_read :: "INIReader \<Rightarrow> RHAISettings cmd" where
  "RHAISettings_read reader = block [
     assign (\<lambda>v self. self\<lparr>insights_client_el6repo := v\<rparr>)
       (INIReader_get reader ''rhai'' ''insights_client_el6repo'' PyNone None),
     assign (\<lambda>v self. self\<lparr>insights_client_el7repo := v\<rparr>)
       (INIReader_get reader ''rhai'' ''insights_client_el7repo'' PyNone None)]"

definition RHAISettings_validate :: "RHAISettings \<Rightarrow> string list" where
  "RHAISettings_validate self = []"

subsection \<open>\<^verbatim>\<open>TransitionSettings\<close>\<close>

record TransitionSettings =
  exported_data :: pyval

definition TransitionSettings_init :: TransitionSettings where
  "TransitionSettings_init = \<lparr>exported_data = PyNone\<rparr>"

definition TransitionSettings_read :: "INIReader \<Rightarrow> TransitionSettings cmd" where
  "TransitionSettings_read reader = block [
     assign (\<lambda>v self. self\<lparr>exported_data := v\<rparr>)
       (INIReader_get reader ''transition'' ''exported_data'' PyNone None)]"

definition TransitionSettings_validate :: "TransitionSettings \<Rightarrow> string list" where
  "TransitionSettings_validate self =
     (if exported_data self = PyNone
      then [''[transition] exported_data must be provided.''] else [])"

subsection \<open>\<^verbatim>\<open>VlanNetworkSettings\<close>\<close>

record VlanNetworkSettings =
  subnet :: pyval
  netmask :: pyval
  gateway :: pyval
  bridge :: pyval

definition VlanNetworkSettings_init :: VlanNetworkSettings where
  "VlanNetworkSettings_init =
     \<lparr>subnet = PyNone, netmask = PyNone, gateway = PyNone, bridge = PyNone\<rparr>"

definition VlanNetworkSettings_vars_values :: "VlanNetworkSettings \<Rightarrow> pyval list" where
  "VlanNetworkSettings_vars_values self = [subnet self, netmask self, gateway self, bridge self]"

definition VlanNetworkSettings_read :: "INIReader \<Rightarrow> VlanNetworkSettings cmd" where
  "VlanNetworkSettings_read reader = block [
     assign (\<lambda>v self. self\<lparr>subnet := v\<rparr>)
       (INIReader_get reader ''vlan_networking'' ''subnet'' PyNone None),
     assign (\<lambda>v self. self\<lparr>netmask := v\<rparr>)
       (INIReader_get reader ''vlan_networking'' ''netmask'' PyNone None),
     assign (\<lambda>v self. self\<lparr>gateway := v\<rparr>)
       (INIReader_get reader ''vlan_networking'' ''gateway'' PyNone None),
     assign (\<lambda>v self. self\<lparr>bridge := v\<rparr>)
       (INIReader_get reader ''vlan_networking'' ''bridge'' PyNone None)]"

definition VlanNetworkSettings_validate :: "VlanNetworkSettings \<Rightarrow> string list" where
  "VlanNetworkSettings_validate self =
     (if \<not> list_all truthy (VlanNetworkSettings_vars_values self)
      then [''All [vlan_networking] subnet, netmask, gateway, bridge options must be provided.'']
      else [])"

section \<open>\<^verbatim>\<open>Settings\<close>\<close>

text \<open>
  The attributes of a \<^verbatim>\<open>Settings\<close> instance. The private attributes \<^verbatim>\<open>_all_features\<close>,
  \<^verbatim>\<open>_configured\<close> and \<^verbatim>\<open>_validation_errors\<close> are the fields \<open>x_all_features\<close>,
  \<open>x_configured\<close> and \<open>x_validation_errors\<close>. The attribute \<^verbatim>\<open>window_manager_command\<close> is
  not created by \<^verbatim>\<open>__init__\<close> but by the first read of the global options, so it is
  optional.
\<close>

record Settings =
  x_all_features :: "string list option"
  x_configured :: bool
  x_validation_errors :: "string list"
  browser :: pyval
  "locale" :: pyval
  project :: pyval
  reader :: "INIReader option"
  rhel6_repo :: pyval
  rhel7_repo :: pyval
  screenshots_path :: pyval
  saucelabs_key :: pyval
  saucelabs_user :: pyval
  server :: ServerSettings
  run_one_datapoint :: pyval
  upstream :: pyval
  verbosity :: pyval
  webdriver :: pyval
  webdriver_binary :: pyval
  webdriver_desired_capabilities :: pyval
  clients :: ClientsSettings
  compute_resources :: LibvirtHostSettings
  discovery :: DiscoveryISOSettings
  docker :: DockerSettings
  fake_manifest :: FakeManifestSettings
  ldap :: LDAPSettings
  oscap :: OscapSettings
  performance :: PerformanceSettings
  rhai :: RHAISettings
  transition :: TransitionSettings
  vlan_networking :: VlanNetworkSettings
  window_manager_command :: "pyval option"

definition Settings_init :: Settings where
  "Settings_init =
     \<lparr>x_all_features = None, x_configured = False, x_validation_errors = [],
      browser = PyNone, locale = PyNone, project = PyNone, reader = None,
      rhel6_repo = PyNone, rhel7_repo = PyNone, screenshots_path = PyNone,
      saucelabs_key = PyNone, saucelabs_user = PyNone,
      server = ServerSettings_init,
      run_one_datapoint = PyNone, upstream = PyNone, verbosity = PyNone, webdriver = PyNone,
      webdriver_binary = PyNone, webdriver_desired_capabilities = PyNone,
      clients = ClientsSettings_init,
      compute_resources = LibvirtHostSettings_init,
      discovery = DiscoveryISOSettings_init,
      docker = DockerSettings_init,
      fake_manifest = FakeManifestSettings_init,
      ldap = LDAPSettings_init,
      oscap = OscapSettings_init,
      performance = PerformanceSettings_init,
      rhai = RHAISettings_init,
      transition = TransitionSettings_init,
      vlan_networking = VlanNetworkSettings_init,
      window_manager_command = None\<rparr>"

subsection \<open>The property \<^verbatim>\<open>all_features\<close>\<close>

text \<open>
  The objects an attribute of \<^verbatim>\<open>Settings\<close> can hold: a plain value, the reader, or an
  instance of one of the subclasses of \<^verbatim>\<open>FeatureSettings\<close>.
\<close>

datatype FeatureSettings =
    Server ServerSettings
  | Clients ClientsSettings
  | LibvirtHost LibvirtHostSettings
  | DiscoveryISO DiscoveryISOSettings
  | Docker DockerSettings
  | FakeManifest FakeManifestSettings
  | LDAP LDAPSettings
  | Oscap OscapSettings
  | Performance PerformanceSettings
  | RHAI RHAISettings
  | Transition TransitionSettings
  | VlanNetwork VlanNetworkSettings

datatype pyobj = Value pyval | Reader INIReader | Feature FeatureSettings

definition isinstance_FeatureSettings :: "pyobj \<Rightarrow> bool" where
  "isinstance_FeatureSettings v = (case v of Feature f \<Rightarrow> True | _ \<Rightarrow> False)"

text \<open>\<^verbatim>\<open>vars(self).items()\<close>, in the order in which \<^verbatim>\<open>__init__\<close> creates the attributes.\<close>

definition Settings_vars_items :: "Settings \<Rightarrow> (string \<times> pyobj) list" where
  "Settings_vars_items self =
     [(''_all_features'',
         Value (case x_all_features self of None \<Rightarrow> PyNone | Some ns \<Rightarrow> PyList (map PyStr ns))),
      (''_configured'', Value (PyBool (x_configured self))),
      (''_validation_errors'', Value (PyList (map PyStr (x_validation_errors self)))),
      (''browser'', Value (browser self)),
      (''locale'', Value (locale self)),
      (''project'', Value (project self)),
      (''reader'', (case reader self of None \<Rightarrow> Value PyNone | Some r \<Rightarrow> Reader r)),
      (''rhel6_repo'', Value (rhel6_repo self)),
      (''rhel7_repo'', Value (rhel7_repo self)),
      (''screenshots_path'', Value (screenshots_path self)),
      (''saucelabs_key'', Value (saucelabs_key self)),
      (''saucelabs_user'', Value (saucelabs_user self)),
      (''server'', Feature (Server (server self))),
      (''run_one_datapoint'', Value (run_one_datapoint self)),
      (''upstream'', Value (upstream self)),
      (''verbosity'', Value (verbosity self)),
      (''webdriver'', Value (webdriver self)),
      (''webdriver_binary'', Value (webdriver_binary self)),
      (''webdriver_desired_capabilities'', Value (webdriver_desired_capabilities self)),
      (''clients'', Feature (Clients (clients self))),
      (''compute_resources'', Feature (LibvirtHost (compute_resources self))),
      (''discovery'', Feature (DiscoveryISO (discovery self))),
      (''docker'', Feature (Docker (docker self))),
      (''fake_manifest'', Feature (FakeManifest (fake_manifest self))),
      (''ldap'', Feature (LDAP (ldap self))),
      (''oscap'', Feature (Oscap (oscap self))),
      (''performance'', Feature (Performance (performance self))),
      (''rhai'', Feature (RHAI (rhai self))),
      (''transition'', Feature (Transition (transition self))),
      (''vlan_networking'', Feature (VlanNetwork (vlan_networking self)))]
     @ (case window_manager_command self of
          None \<Rightarrow> []
        | Some v \<Rightarrow> [(''window_manager_command'', Value v)])"

text \<open>The property returns the list and, on first access, stores it.\<close>

definition Settings_all_features :: "Settings \<Rightarrow> string list \<times> Settings" where
  "Settings_all_features self =
     (case x_all_features self of
        None \<Rightarrow>
          (let names = map fst (filter (\<lambda>item. isinstance_FeatureSettings (snd item))
                                   (Settings_vars_items self))
           in (names, self\<lparr>x_all_features := Some names\<rparr>))
      | Some names \<Rightarrow> (names, self))"

definition Settings_configured :: "Settings \<Rightarrow> bool" where
  "Settings_configured self = x_configured self"

subsection \<open>The environment of \<^verbatim>\<open>configure\<close>\<close>

text \<open>
  What \<^verbatim>\<open>configure\<close> reads from outside the instance: the project root computed by
  \<^verbatim>\<open>get_project_root\<close>, the file system (\<^verbatim>\<open>os.path.isfile\<close>), the outcome of opening and
  parsing an INI file in \<^verbatim>\<open>INIReader.__init__\<close> (the filled parser, or the exception of
  \<^verbatim>\<open>open\<close> or of the parser), the outcome of \<^verbatim>\<open>logging.config.fileConfig\<close> on a path, and
  the caster objects bound to the class \<^verbatim>\<open>INIReader\<close>.
\<close>

record env =
  project_root :: string
  isfile :: "string \<Rightarrow> bool"
  read_ini :: "string \<Rightarrow> exn + ConfigParser"
  fileConfig :: "string \<Rightarrow> exn option"
  INIReader_casts :: casters

definition SETTINGS_FILE_NAME :: string where
  "SETTINGS_FILE_NAME = ''robottelo.properties''"

definition get_project_root :: "env \<Rightarrow> string" where
  "get_project_root e = project_root e"

text \<open>\<^verbatim>\<open>os.path.join(a, *p)\<close> on a POSIX system.\<close>

definition os_path_join :: "string \<Rightarrow> string list \<Rightarrow> string" where
  "os_path_join a p =
     foldl (\<lambda>path b. if take 1 b = ''/'' then b
                      else if path = [] \<or> last path = CHR ''/'' then path @ b
                      else path @ ''/'' @ b) a p"

definition INIReader_init :: "env \<Rightarrow> string \<Rightarrow> exn + INIReader" where
  "INIReader_init e path =
     (case read_ini e path of
        Inl ex \<Rightarrow> Inl ex
      | Inr cp \<Rightarrow> Inr \<lparr>config_parser = cp, casts = INIReader_casts e\<rparr>)"

text \<open>
  The process-wide side effects of \<^verbatim>\<open>configure\<close> are calls into the \<^verbatim>\<open>logging\<close> package
  and assignments to globals of the entity library. The world is the list of the effects
  performed so far, oldest first.
\<close>

datatype effect =
    logging_captureWarnings bool
  | Logger_setLevel string int
  | logging_config_fileConfig string
  | logging_basicConfig string
  | set_CREATE_MISSING bool
  | set_DEFAULT_SERVER_CONFIG string "pyval \<times> pyval" bool
  | patch_GPGKey_init string
  | patch_DockerComputeResource_init pyval

type_synonym world = "effect list"

definition perform :: "effect \<Rightarrow> (Settings \<times> world) cmd" where
  "perform eff = (\<lambda>(self, w). (None, (self, w @ [eff])))"

definition on_self :: "Settings cmd \<Rightarrow> (Settings \<times> world) cmd" where
  "on_self c = (\<lambda>(self, w). case c self of (r, self') \<Rightarrow> (r, (self', w)))"

subsection \<open>Reading and validating the global options\<close>

text \<open>
  \<^verbatim>\<open>_read_robottelo_settings\<close>. Every statement goes through \<^verbatim>\<open>self.reader\<close>, which raises
  \<^verbatim>\<open>AttributeError\<close> while the attribute is still \<^verbatim>\<open>None\<close>. The default of \<^verbatim>\<open>verbosity\<close> is
  itself the result of a cast, computed before the option is looked up. The argument
  \<open>C\<close> stands for the casters bound to the class \<^verbatim>\<open>INIReader\<close>.
\<close>

definition Settings_read_robottelo_settings :: "casters \<Rightarrow> Settings cmd" where
  "Settings_read_robottelo_settings C self =
     (case reader self of
        None \<Rightarrow> (Some AttributeError, self)
      | Some r \<Rightarrow> block [
          assign (\<lambda>v self. self\<lparr>browser := v\<rparr>)
            (INIReader_get r ''robottelo'' ''browser'' (PyStr ''selenium'') None),
          assign (\<lambda>v self. self\<lparr>locale := v\<rparr>)
            (INIReader_get r ''robottelo'' ''locale'' (PyStr ''en_US.UTF-8'') None),
          assign (\<lambda>v self. self\<lparr>project := v\<rparr>)
            (INIReader_get r ''robottelo'' ''project'' (PyStr ''sat'') None),
          assign (\<lambda>v self. self\<lparr>rhel6_repo := v\<rparr>)
            (INIReader_get r ''robottelo'' ''rhel6_repo'' PyNone None),
          assign (\<lambda>v self. self\<lparr>rhel7_repo := v\<rparr>)
            (INIReader_get r ''robottelo'' ''rhel7_repo'' PyNone None),
          assign (\<lambda>v self. self\<lparr>screenshots_path := v\<rparr>)
            (INIReader_get r ''robottelo'' ''screenshots_path''
               (PyStr ''/tmp/robottelo/screenshots'') None),
          assign (\<lambda>v self. self\<lparr>run_one_datapoint := v\<rparr>)
            (INIReader_get r ''robottelo'' ''run_one_datapoint'' (PyBool False)
               (Some builtin_bool)),
          assign (\<lambda>v self. self\<lparr>upstream := v\<rparr>)
            (INIReader_get r ''robottelo'' ''upstream'' (PyBool True) (Some builtin_bool)),
          assign (\<lambda>v self. self\<lparr>verbosity := v\<rparr>)
            (case cast_logging_level C ''debug'' of
               Inl e \<Rightarrow> Inl e
             | Inr d \<Rightarrow> INIReader_get r ''robottelo'' ''verbosity'' d
                          (Some (Callable (cast_logging_level C)))),
          assign (\<lambda>v self. self\<lparr>webdriver := v\<rparr>)
            (INIReader_get r ''robottelo'' ''webdriver'' (PyStr ''firefox'') None),
          assign (\<lambda>v self. self\<lparr>saucelabs_user := v\<rparr>)
            (INIReader_get r ''robottelo'' ''saucelabs_user'' PyNone None),
          assign (\<lambda>v self. self\<lparr>saucelabs_key := v\<rparr>)
            (INIReader_get r ''robottelo'' ''saucelabs_key'' PyNone None),
          assign (\<lambda>v self. self\<lparr>webdriver_binary := v\<rparr>)
            (INIReader_get r ''robottelo'' ''webdriver_binary'' PyNone None),
          assign (\<lambda>v self. self\<lparr>webdriver_desired_capabilities := v\<rparr>)
            (INIReader_get r ''robottelo'' ''webdriver_desired_capabilities'' PyNone
               (Some (Callable (cast_webdriver_desired_capabilities C)))),
          assign (\<lambda>v self. self\<lparr>window_manager_command := Some v\<rparr>)
            (INIReader_get r ''robottelo'' ''window_manager_command'' PyNone None)] self)"

definition browsers :: "string list" where
  "browsers = [''selenium'', ''docker'', ''saucelabs'']"

definition webdrivers :: "string list" where
  "webdrivers = [''chrome'', ''firefox'', ''ie'', ''phantomjs'', ''remote'']"

definition Settings_validate_robottelo_settings :: "Settings \<Rightarrow> string list" where
  "Settings_validate_robottelo_settings self =
     (if browser self \<notin> set (map PyStr browsers)
      then [''[robottelo] browser should be one of '' @ join '', '' browsers @ ''.''] else []) @
     (if webdriver self \<notin> set (map PyStr webdrivers)
      then [''[robottelo] webdriver should be one of '' @ join '', '' webdrivers @ ''.'']
      else []) @
     (if browser self = PyStr ''saucelabs''
      then (if saucelabs_user self = PyNone
            then [''[robottelo] saucelabs_user must be provided when browser is saucelabs.'']
            else []) @
           (if saucelabs_key self = PyNone
            then [''[robottelo] saucelabs_key must be provided when browser is saucelabs.'']
            else [])
      else [])"

subsection \<open>Logging and the entity library\<close>

text \<open>
  \<^verbatim>\<open>Logger.setLevel\<close> checks its argument: an integer is taken as it is (a boolean is an
  integer), a string must be a level name, anything else is a \<^verbatim>\<open>TypeError\<close>.
\<close>

definition level_names :: "(string \<times> int) list" where
  "level_names = [(''CRITICAL'', 50), (''ERROR'', 40), (''WARN'', 30), (''WARNING'', 30),
     (''INFO'', 20), (''DEBUG'', 10), (''NOTSET'', 0)]"

definition checkLevel :: "pyval \<Rightarrow> exn + int" where
  "checkLevel level =
     (case level of
        PyInt i \<Rightarrow> Inr i
      | PyBool b \<Rightarrow> Inr (if b then 1 else 0)
      | PyStr s \<Rightarrow> (case map_of level_names s of None \<Rightarrow> Inl ValueError | Some i \<Rightarrow> Inr i)
      | _ \<Rightarrow> Inl TypeError)"

definition Logger_setLevel_of :: "string \<Rightarrow> (Settings \<Rightarrow> pyval) \<Rightarrow> (Settings \<times> world) cmd" where
  "Logger_setLevel_of name level =
     (\<lambda>(self, w). case checkLevel (level self) of
                     Inl e \<Rightarrow> (Some e, (self, w))
                   | Inr i \<Rightarrow> (None, (self, w @ [Logger_setLevel name i])))"

definition Settings_configure_logging :: "env \<Rightarrow> (Settings \<times> world) cmd" where
  "Settings_configure_logging e = block [
     perform (logging_captureWarnings True),
     Logger_setLevel_of ''nailgun'' verbosity,
     Logger_setLevel_of ''robottelo'' verbosity,
     (\<lambda>(self, w).
        let logging_conf_path = os_path_join (get_project_root e) [''logging.conf'']
        in if isfile e logging_conf_path
           then (case fileConfig e logging_conf_path of
                   Some ex \<Rightarrow> (Some ex, (self, w))
                 | None \<Rightarrow> (None, (self, w @ [logging_config_fileConfig logging_conf_path])))
           else perform (logging_basicConfig ''%(levelname)s %(module)s:%(lineno)d: %(message)s'')
                  (self, w))]"

definition Settings_configure_third_party_logging :: "(Settings \<times> world) cmd" where
  "Settings_configure_third_party_logging = block [
     perform (Logger_setLevel ''bugzilla'' 30),
     perform (Logger_setLevel ''easyprocess'' 30),
     perform (Logger_setLevel ''paramiko'' 30),
     perform (Logger_setLevel ''requests.packages.urllib3.connectionpool'' 30),
     perform (Logger_setLevel ''selenium.webdriver.remote.remote_connection'' 30)]"

definition Settings_configure_entities :: "env \<Rightarrow> (Settings \<times> world) cmd" where
  "Settings_configure_entities e = block [
     perform (set_CREATE_MISSING True),
     (\<lambda>(self, w).
        case ServerSettings_get_url (server self) of
          Inl ex \<Rightarrow> (Some ex, (self, w))
        | Inr u \<Rightarrow>
            (None, (self, w @ [set_DEFAULT_SERVER_CONFIG u
                                 (ServerSettings_get_credentials (server self)) False]))),
     perform (patch_GPGKey_init
       (os_path_join (get_project_root e) [''tests'', ''foreman'', ''data'', ''valid_gpg_key.txt''])),
     (\<lambda>(self, w).
        let docker_url = DockerSettings_get_unix_socket_url (docker self);
            docker_url = (if docker_url = PyNone then external_url (docker self) else docker_url)
        in if docker_url \<noteq> PyNone
           then perform (patch_DockerComputeResource_init docker_url) (self, w)
           else (None, (self, w)))]"

subsection \<open>\<^verbatim>\<open>configure\<close>\<close>

text \<open>\<^verbatim>\<open>self.X.read(self.reader)\<close> for the feature settings held in attribute \<open>X\<close>.\<close>

definition feature_read ::
    "(Settings \<Rightarrow> 'g) \<Rightarrow> ('g \<Rightarrow> Settings \<Rightarrow> Settings) \<Rightarrow> (INIReader \<Rightarrow> 'g cmd) \<Rightarrow> Settings cmd" where
  "feature_read load store rd self =
     (case reader self of
        None \<Rightarrow> (Some AttributeError, self)
      | Some r \<Rightarrow> on_attr load store (rd r) self)"

text \<open>\<^verbatim>\<open>self._validation_errors.extend(errors)\<close>\<close>

definition extend_validation_errors :: "(Settings \<Rightarrow> string list) \<Rightarrow> Settings cmd" where
  "extend_validation_errors errors self =
     (None, self\<lparr>x_validation_errors := x_validation_errors self @ errors self\<rparr>)"

text \<open>
  The two statements \<^verbatim>\<open>self.X.read(self.reader)\<close> and
  \<^verbatim>\<open>self._validation_errors.extend(self.X.validate())\<close>, which \<^verbatim>\<open>configure\<close> repeats for
  each group.
\<close>

definition read_and_validate ::
    "(Settings \<Rightarrow> 'g) \<Rightarrow> ('g \<Rightarrow> Settings \<Rightarrow> Settings) \<Rightarrow> (INIReader \<Rightarrow> 'g cmd) \<Rightarrow> ('g \<Rightarrow> string list)
      \<Rightarrow> Settings cmd" where
  "read_and_validate load store rd validate = block [
     feature_read load store rd,
     extend_validation_errors (\<lambda>self. validate (load self))]"

text \<open>\<^verbatim>\<open>if self.reader.has_section(name): ...\<close>\<close>

definition if_has_section :: "string \<Rightarrow> Settings cmd \<Rightarrow> Settings cmd" where
  "if_has_section name body self =
     (case reader self of
        None \<Rightarrow> (Some AttributeError, self)
      | Some r \<Rightarrow> if INIReader_has_section r name then body self else (None, self))"

definition validation_message :: "string list \<Rightarrow> string" where
  "validation_message errors =
     ''Failed to validate the configuration, check the message(s):'' @ [CHR 0x0A]
       @ join [CHR 0x0A] errors"

text \<open>
  The part of \<^verbatim>\<open>configure\<close> that builds the reader and then reads and validates the global
  options, the server settings and the optional groups (from \<^verbatim>\<open>self.reader = ...\<close> to the
  last \<^verbatim>\<open>has_section\<close> block).
\<close>

definition Settings_configure_read :: "env \<Rightarrow> string \<Rightarrow> Settings cmd" where
  "Settings_configure_read e settings_path = block [
     (\<lambda>self. case INIReader_init e settings_path of
               Inl ex \<Rightarrow> (Some ex, self)
             | Inr r \<Rightarrow> (None, self\<lparr>reader := Some r\<rparr>)),
     Settings_read_robottelo_settings (INIReader_casts e),
     extend_validation_errors Settings_validate_robottelo_settings,
     read_and_validate server (\<lambda>g self. self\<lparr>server := g\<rparr>)
       ServerSettings_read ServerSettings_validate,
     if_has_section ''clients''
       (read_and_validate clients (\<lambda>g self. self\<lparr>clients := g\<rparr>)
          ClientsSettings_read ClientsSettings_validate),
     if_has_section ''compute_resources''
       (read_and_validate compute_resources (\<lambda>g self. self\<lparr>compute_resources := g\<rparr>)
          LibvirtHostSettings_read LibvirtHostSettings_validate),
     if_has_section ''discovery''
       (read_and_validate discovery (\<lambda>g self. self\<lparr>discovery := g\<rparr>)
          DiscoveryISOSettings_read DiscoveryISOSettings_validate),
     if_has_section ''docker''
       (read_and_validate docker (\<lambda>g self. self\<lparr>docker := g\<rparr>)
          DockerSettings_read DockerSettings_validate),
     if_has_section ''fake_manifest''
       (read_and_validate fake_manifest (\<lambda>g self. self\<lparr>fake_manifest := g\<rparr>)
          FakeManifestSettings_read FakeManifestSettings_validate),
     if_has_section ''ldap''
       (read_and_validate ldap (\<lambda>g self. self\<lparr>ldap := g\<rparr>)
          LDAPSettings_read LDAPSettings_validate),
     if_has_section ''oscap''
       (read_and_validate oscap (\<lambda>g self. self\<lparr>oscap := g\<rparr>)
          OscapSettings_read OscapSettings_validate),
     if_has_section ''performance''
       (read_and_validate performance (\<lambda>g self. self\<lparr>performance := g\<rparr>)
          PerformanceSettings_read PerformanceSettings_validate),
     if_has_section ''rhai''
       (read_and_validate rhai (\<lambda>g self. self\<lparr>rhai := g\<rparr>)
          RHAISettings_read RHAISettings_validate),
     if_has_section ''transition''
       (read_and_validate transition (\<lambda>g self. self\<lparr>transition := g\<rparr>)
          TransitionSettings_read TransitionSettings_validate),
     if_has_section ''vlan_networking''
       (read_and_validate vlan_networking (\<lambda>g self. self\<lparr>vlan_networking := g\<rparr>)
          VlanNetworkSettings_read VlanNetworkSettings_validate)]"

text \<open>
  \<^verbatim>\<open>Settings.configure\<close>, on the instance and the world. An exception leaves both as they
  are at the moment it is raised.
\<close>

definition Settings_configure :: "env \<Rightarrow> (Settings \<times> world) cmd" where
  "Settings_configure e = (\<lambda>(self, w).
     if Settings_configured self then (None, (self, w))
     else
       let settings_path = os_path_join (get_project_root e) [SETTINGS_FILE_NAME]
       in if \<not> isfile e settings_path
          then (Some (ImproperlyConfigured
                        (''Not able to find settings file at '' @ settings_path)), (self, w))
          else block [
                 on_self (Settings_configure_read e settings_path),
                 (\<lambda>(self, w).
                    if x_validation_errors self \<noteq> []
                    then (Some (ImproperlyConfigured
                                  (validation_message (x_validation_errors self))), (self, w))
                    else (None, (self, w))),
                 Settings_configure_logging e,
                 Settings_configure_third_party_logging,
                 Settings_configure_entities e,
                 on_self (\<lambda>self. (None, self\<lparr>x_configured := True\<rparr>))] (self, w))"

text \<open>The value of the local variable \<^verbatim>\<open>settings_path\<close> of \<^verbatim>\<open>configure\<close>.\<close>

definition configure_settings_path :: "env \<Rightarrow> string" where
  "configure_settings_path e = os_path_join (get_project_root e) [SETTINGS_FILE_NAME]"

section \<open>The casters, as the specification describes them\<close>

text \<open>
  Modelled from the spec: the module \<^verbatim>\<open>robottelo.config.casts\<close> (the classes \<^verbatim>\<open>Boolean\<close>,
  \<^verbatim>\<open>Dict\<close>, \<^verbatim>\<open>List\<close>, \<^verbatim>\<open>LoggingLevel\<close>, \<^verbatim>\<open>Tuple\<close> and \<^verbatim>\<open>WebdriverDesiredCapabilities\<close>) is
  not among the sources. The definitions below follow section 4.1 of the specification.
  They serve to run the model on concrete files; the general theorems quantify over all
  casters. A cast failure is the exception \<open>CastError\<close> with the offending raw value.
\<close>

definition to_lower :: "char \<Rightarrow> char" where
  "to_lower c =
     (if (65::nat) \<le> of_char c \<and> (of_char c :: nat) \<le> 90 then char_of (of_char c + (32::nat))
      else c)"

fun split_on :: "char \<Rightarrow> string \<Rightarrow> string list" where
  "split_on sep [] = [[]]"
| "split_on sep (c # cs) =
     (if c = sep then [] # split_on sep cs
      else (case split_on sep cs of [] \<Rightarrow> [[c]] | w # ws \<Rightarrow> (c # w) # ws))"

text \<open>
  Modelled from the spec: the Boolean caster takes \<^verbatim>\<open>"1"\<close> and \<^verbatim>\<open>"true"\<close> to true, \<^verbatim>\<open>"0"\<close>
  and \<^verbatim>\<open>"false"\<close> to false, without regard to case, and fails on anything else.
\<close>

definition Boolean_cast :: caster where
  "Boolean_cast s =
     (let l = map to_lower s
      in if l = ''1'' \<or> l = ''true'' then Inr (PyBool True)
         else if l = ''0'' \<or> l = ''false'' then Inr (PyBool False)
         else Inl (CastError s))"

text \<open>
  Modelled from the spec: the List caster splits on commas and strips the whitespace
  around each element; the Tuple caster does the same and returns a tuple (\<^verbatim>\<open>INIReader.get\<close>
  supplies no element count).
\<close>

definition List_cast :: caster where
  "List_cast s = Inr (PyList (map (\<lambda>x. PyStr (strip x)) (split_on CHR '','' s)))"

text \<open>
  Modelled from the spec: the Tuple caster of \<^verbatim>\<open>robottelo.config.casts\<close>, which is not among
  the sources; it splits and strips like the List caster and returns a tuple.
\<close>

definition Tuple_cast :: caster where
  "Tuple_cast s = Inr (PyTuple (map (\<lambda>x. PyStr (strip x)) (split_on CHR '','' s)))"

text \<open>
  Modelled from the spec: the Dict caster splits on commas and then each pair on its
  first colon; a pair without a colon is a cast failure. The capability map is a
  key-value structure as well, and is modelled by the same caster.
\<close>

definition split_pair :: "string \<Rightarrow> (string \<times> string) option" where
  "split_pair p =
     (if CHR '':'' \<in> set p
      then Some (strip (takeWhile (\<lambda>c. c \<noteq> CHR '':'') p),
                 strip (tl (dropWhile (\<lambda>c. c \<noteq> CHR '':'') p)))
      else None)"

text \<open>
  Modelled from the spec: the Dict caster of \<^verbatim>\<open>robottelo.config.casts\<close>, which is not among
  the sources (comma-separated pairs, each split on its first colon).
\<close>

definition Dict_cast :: caster where
  "Dict_cast s =
     (let pairs = map split_pair (split_on CHR '','' s)
      in if None \<in> set pairs then Inl (CastError s)
         else Inr (PyDict (map (\<lambda>p. case p of Some (k, v) \<Rightarrow> (PyStr k, PyStr v)
                                       | None \<Rightarrow> (PyNone, PyNone)) pairs)))"

text \<open>
  Modelled from the spec: the LoggingLevel caster maps the names debug, info, warning,
  error and critical, without regard to case, to their numeric levels; any other name is
  an error of the class \<^verbatim>\<open>ImproperlyConfigured\<close>.
\<close>

definition LoggingLevel_cast :: caster where
  "LoggingLevel_cast s =
     (case map_of [(''debug'', 10), (''info'', 20), (''warning'', 30), (''error'', 40),
                   (''critical'', 50)] (map to_lower s) of
        Some i \<Rightarrow> Inr (PyInt i)
      | None \<Rightarrow> Inl (ImproperlyConfigured s))"

text \<open>
  Modelled from the spec: the six caster objects bound to the class \<^verbatim>\<open>INIReader\<close>, which
  are instances of the classes of \<^verbatim>\<open>robottelo.config.casts\<close>.
\<close>

definition spec_casters :: casters where
  "spec_casters =
     \<lparr>cast_boolean = Boolean_cast, cast_dict = Dict_cast, cast_list = List_cast,
      cast_logging_level = LoggingLevel_cast, cast_tuple = Tuple_cast,
      cast_webdriver_desired_capabilities = Dict_cast\<rparr>"

section \<open>Example environments\<close>

text \<open>
  The example files are plain: they have no \<^verbatim>\<open>[DEFAULT]\<close> section, their option names are
  in lower case and their values contain no \<^verbatim>\<open>%\<close>. Such a file is given by its sections,
  each with its options and their values, and the parser that has read it answers with
  the values as they stand in the file.
\<close>

type_synonym config = "string \<rightharpoonup> (string \<rightharpoonup> string)"

definition parser_of :: "config \<Rightarrow> ConfigParser" where
  "parser_of cp =
     \<lparr>ConfigParser_get = (\<lambda>section option.
        case cp section of
          None \<Rightarrow> Inl NoSectionError
        | Some opts \<Rightarrow> (case opts option of None \<Rightarrow> Inl NoOptionError | Some v \<Rightarrow> Inr v)),
      ConfigParser_has_section = (\<lambda>section. cp section \<noteq> None)\<rparr>"

text \<open>
  Concrete inputs on which the model is run: a project rooted at \<^verbatim>\<open>/robottelo\<close> whose
  settings file is the given plain file, without a \<^verbatim>\<open>logging.conf\<close>, and with the casters
  of the previous section.
\<close>

definition example_env :: "config \<Rightarrow> env" where
  "example_env cp =
     \<lparr>project_root = ''/robottelo'',
      isfile = (\<lambda>path. path = ''/robottelo/robottelo.properties''),
      read_ini = (\<lambda>path. Inr (parser_of cp)),
      fileConfig = (\<lambda>path. None),
      INIReader_casts = spec_casters\<rparr>"

definition example_reader :: "config \<Rightarrow> INIReader" where
  "example_reader cp = \<lparr>config_parser = parser_of cp, casts = spec_casters\<rparr>"

text \<open>A file with \<^verbatim>\<open>[server] hostname=foo.example.com\<close> and \<^verbatim>\<open>ssh_password=x\<close> only.\<close>

definition minimal_source :: config where
  "minimal_source =
     [''server'' \<mapsto> [''hostname'' \<mapsto> ''foo.example.com'', ''ssh_password'' \<mapsto> ''x'']]"

text \<open>The same with \<^verbatim>\<open>[docker] unix_socket=true\<close> and an empty \<^verbatim>\<open>[clients]\<close> section.\<close>

definition docker_source :: config where
  "docker_source =
     [''server'' \<mapsto> [''hostname'' \<mapsto> ''foo.example.com'', ''ssh_password'' \<mapsto> ''x''],
      ''docker'' \<mapsto> [''unix_socket'' \<mapsto> ''true''],
      ''clients'' \<mapsto> Map.empty]"

text \<open>A file without any section.\<close>

definition empty_source :: config where
  "empty_source = Map.empty"

text \<open>\<^verbatim>\<open>[robottelo] browser=saucelabs\<close> without credentials, and a valid server section.\<close>

definition saucelabs_source :: config where
  "saucelabs_source =
     [''robottelo'' \<mapsto> [''browser'' \<mapsto> ''saucelabs''],
      ''server'' \<mapsto> [''hostname'' \<mapsto> ''foo.example.com'', ''ssh_password'' \<mapsto> ''x'']]"

text \<open>The same with \<^verbatim>\<open>webdriver=opera\<close>, which is not one of the known webdrivers.\<close>

definition saucelabs_opera_source :: config where
  "saucelabs_opera_source =
     [''robottelo'' \<mapsto> [''browser'' \<mapsto> ''saucelabs'', ''webdriver'' \<mapsto> ''opera''],
      ''server'' \<mapsto> [''hostname'' \<mapsto> ''foo.example.com'', ''ssh_password'' \<mapsto> ''x'']]"

text \<open>A server section whose port is not a number.\<close>

definition bad_port_source :: config where
  "bad_port_source =
     [''server'' \<mapsto> [''hostname'' \<mapsto> ''foo.example.com'', ''port'' \<mapsto> ''80a'',
                     ''ssh_password'' \<mapsto> ''x'']]"

text \<open>The same with \<^verbatim>\<open>[docker] unix_socket=true\<close>.\<close>

definition bad_port_docker_source :: config where
  "bad_port_docker_source =
     [''server'' \<mapsto> [''hostname'' \<mapsto> ''foo.example.com'', ''port'' \<mapsto> ''80a'',
                     ''ssh_password'' \<mapsto> ''x''],
      ''docker'' \<mapsto> [''unix_socket'' \<mapsto> ''true'']]"

text \<open>The project of the examples after its settings file has been removed.\<close>

definition missing_file_env :: env where
  "missing_file_env = (example_env minimal_source)\<lparr>isfile := (\<lambda>path. False)\<rparr>"

text \<open>
  A parser that has read \<^verbatim>\<open>[server] admin_password=50%\<close> and whose interpolation rejects
  the lone \<^verbatim>\<open>%\<close>, as the parser of Python 3 does: looking the option up raises the
  interpolation error.
\<close>

definition percent_parser :: ConfigParser where
  "percent_parser =
     \<lparr>ConfigParser_get = (\<lambda>section option.
        if section = ''server''
        then (if option = ''admin_password'' then Inl InterpolationError else Inl NoOptionError)
        else Inl NoSectionError),
      ConfigParser_has_section = (\<lambda>section. section = ''server'')\<rparr>"

text \<open>
  A cast that fails with \<^verbatim>\<open>NoOptionError\<close> on every string, as a cast does that looks its
  argument up in another parser which lacks it.
\<close>

definition lookup_failing_cast :: caster where
  "lookup_failing_cast s = Inl NoOptionError"

section \<open>Sequences of statements\<close>

lemma block_preserves:
  assumes "\<forall>c\<in>set cs. \<forall>s. f (snd (c s)) = f s"
  shows "f (snd (block cs s)) = f s"
  using assms
proof (induction cs arbitrary: s)
  case Nil
  then show ?case by simp
next
  case (Cons c cs)
  obtain r s1 where cs1: "c s = (r, s1)" by (cases "c s")
  have f1: "f s1 = f s" using Cons.prems cs1 by (metis list.set_intros(1) snd_conv)
  show ?case
  proof (cases r)
    case None
    then show ?thesis using Cons cs1 f1 by simp
  next
    case (Some e)
    then show ?thesis using cs1 f1 by simp
  qed
qed

lemma block_preserves_inv:
  assumes "I s"
    and "\<forall>c\<in>set cs. \<forall>s. I s \<longrightarrow> I (snd (c s)) \<and> f (snd (c s)) = f s"
  shows "f (snd (block cs s)) = f s"
  using assms
proof (induction cs arbitrary: s)
  case Nil
  then show ?case by simp
next
  case (Cons c cs)
  obtain r s1 where cs1: "c s = (r, s1)" by (cases "c s")
  have f1: "I s1 \<and> f s1 = f s" using Cons.prems cs1 by (metis list.set_intros(1) snd_conv)
  show ?case
  proof (cases r)
    case None
    have "f (snd (block cs s1)) = f s1"
      using Cons.prems(2) f1 by (intro Cons.IH) simp_all
    then show ?thesis using None cs1 f1 by simp
  next
    case (Some e)
    then show ?thesis using cs1 f1 by simp
  qed
qed

lemma block_preserves_after_first:
  assumes "c s = (None, s1)"
    and "f s1 = f s"
    and "I s1"
    and "\<forall>c\<in>set cs. \<forall>s. I s \<longrightarrow> I (snd (c s)) \<and> f (snd (c s)) = f s"
  shows "f (snd (block (c # cs) s)) = f s"
  using block_preserves_inv[OF assms(3,4)] assms(1,2) by simp

lemma block_extends:
  assumes "\<forall>c\<in>set cs. \<forall>s. \<exists>n. f (snd (c s)) = f s @ n"
  shows "\<exists>n. f (snd (block cs s)) = f s @ n"
  using assms
proof (induction cs arbitrary: s)
  case Nil
  then show ?case by simp
next
  case (Cons c cs)
  obtain r s1 where cs1: "c s = (r, s1)" by (cases "c s")
  obtain n1 where f1: "f s1 = f s @ n1"
    using Cons.prems cs1 by (metis list.set_intros(1) snd_conv)
  show ?case
  proof (cases r)
    case None
    obtain n2 where "f (snd (block cs s1)) = f s1 @ n2"
      using Cons.IH[of s1] Cons.prems by auto
    then show ?thesis using None cs1 f1 by simp
  next
    case (Some e)
    then show ?thesis using cs1 f1 by simp
  qed
qed

lemma first_raise_skip: "first_raise (a # None # as) = first_raise (a # as)"
  by (cases a) simp_all

lemma follows_block:
  "follows cs as ts s \<Longrightarrow>
   fst (block cs s) = first_raise as \<and>
   (first_raise as = None \<longrightarrow> snd (block cs s) = last (s # ts))"
proof (induction cs as ts s rule: follows.induct)
  case (1 c cs a as t ts s)
  then show ?case by (cases "c s"; cases a) auto
qed auto

section \<open>The reader\<close>

lemma INIReader_get_no_cast:
  "INIReader_get r section option dflt None =
   (case ConfigParser_get (config_parser r) section option of
      Inl e \<Rightarrow> (if e = NoSectionError \<or> e = NoOptionError then Inr dflt else Inl e)
    | Inr v \<Rightarrow> Inr (PyStr v))"
  by (simp add: INIReader_get_def split: sum.splits)

lemma INIReader_get_no_cast_value:
  "INIReader_get r section option dflt None = Inr x \<Longrightarrow>
   x = (case ConfigParser_get (config_parser r) section option of
          Inl e \<Rightarrow> dflt
        | Inr v \<Rightarrow> PyStr v)"
  by (auto simp: INIReader_get_no_cast split: sum.splits if_splits)

section \<open>The reading part of \<^verbatim>\<open>configure\<close>\<close>

lemma read_robottelo_preserves:
  assumes "\<And>v s. f (s\<lparr>browser := v\<rparr>) = f s"
    and "\<And>v s. f (s\<lparr>locale := v\<rparr>) = f s"
    and "\<And>v s. f (s\<lparr>project := v\<rparr>) = f s"
    and "\<And>v s. f (s\<lparr>rhel6_repo := v\<rparr>) = f s"
    and "\<And>v s. f (s\<lparr>rhel7_repo := v\<rparr>) = f s"
    and "\<And>v s. f (s\<lparr>screenshots_path := v\<rparr>) = f s"
    and "\<And>v s. f (s\<lparr>run_one_datapoint := v\<rparr>) = f s"
    and "\<And>v s. f (s\<lparr>upstream := v\<rparr>) = f s"
    and "\<And>v s. f (s\<lparr>verbosity := v\<rparr>) = f s"
    and "\<And>v s. f (s\<lparr>webdriver := v\<rparr>) = f s"
    and "\<And>v s. f (s\<lparr>saucelabs_user := v\<rparr>) = f s"
    and "\<And>v s. f (s\<lparr>saucelabs_key := v\<rparr>) = f s"
    and "\<And>v s. f (s\<lparr>webdriver_binary := v\<rparr>) = f s"
    and "\<And>v s. f (s\<lparr>webdriver_desired_capabilities := v\<rparr>) = f s"
    and "\<And>v s. f (s\<lparr>window_manager_command := v\<rparr>) = f s"
  shows "f (snd (Settings_read_robottelo_settings C s)) = f s"
proof (cases "reader s")
  case None
  then show ?thesis by (simp add: Settings_read_robottelo_settings_def)
next
  case (Some r)
  show ?thesis
    unfolding Settings_read_robottelo_settings_def
    apply (subst Some)
    apply (simp only: option.case)
    apply (rule block_preserves[where f = f])
    apply (simp add: assign_def assms split: sum.splits)
    done
qed

lemma server_step_fst:
  "reader s = Some r \<Longrightarrow>
   fst (read_and_validate server (\<lambda>g self. self\<lparr>server := g\<rparr>)
          ServerSettings_read ServerSettings_validate s) = fst (ServerSettings_read r (server s))"
  by (auto simp: read_and_validate_def feature_read_def on_attr_def
      extend_validation_errors_def split: prod.splits option.splits)

lemma server_step_snd:
  assumes "reader s = Some r"
    and "fst (read_and_validate server (\<lambda>g self. self\<lparr>server := g\<rparr>)
          ServerSettings_read ServerSettings_validate s) = None"
  shows "snd (read_and_validate server (\<lambda>g self. self\<lparr>server := g\<rparr>)
          ServerSettings_read ServerSettings_validate s) =
         s\<lparr>server := snd (ServerSettings_read r (server s)),
           x_validation_errors := x_validation_errors s @
             ServerSettings_validate (snd (ServerSettings_read r (server s)))\<rparr>"
  using assms
  by (auto simp: if_has_section_def read_and_validate_def feature_read_def on_attr_def
      extend_validation_errors_def split: prod.splits option.splits if_splits)

lemma clients_step_fst:
  "reader s = Some r \<Longrightarrow>
   fst (if_has_section ''clients''
       (read_and_validate clients (\<lambda>g self. self\<lparr>clients := g\<rparr>)
          ClientsSettings_read ClientsSettings_validate) s) =
   (if INIReader_has_section r ''clients'' then fst (ClientsSettings_read r (clients s)) else None)"
  by (auto simp: if_has_section_def read_and_validate_def feature_read_def on_attr_def
      extend_validation_errors_def split: prod.splits option.splits)

lemma clients_step_snd:
  assumes "reader s = Some r"
    and "fst (if_has_section ''clients''
       (read_and_validate clients (\<lambda>g self. self\<lparr>clients := g\<rparr>)
          ClientsSettings_read ClientsSettings_validate) s) = None"
  shows "snd (if_has_section ''clients''
       (read_and_validate clients (\<lambda>g self. self\<lparr>clients := g\<rparr>)
          ClientsSettings_read ClientsSettings_validate) s) =
     s\<lparr>clients :=
                 (if INIReader_has_section r ''clients''
                  then snd (ClientsSettings_read r (clients s)) else clients s),
               x_validation_errors := x_validation_errors s @
                 (if INIReader_has_section r ''clients''
                  then ClientsSettings_validate (snd (ClientsSettings_read r (clients s))) else [])\<rparr>"
  using assms
  by (auto simp: if_has_section_def read_and_validate_def feature_read_def on_attr_def
      extend_validation_errors_def split: prod.splits option.splits if_splits)

lemma compute_resources_step_fst:
  "reader s = Some r \<Longrightarrow>
   fst (if_has_section ''compute_resources''
       (read_and_validate compute_resources (\<lambda>g self. self\<lparr>compute_resources := g\<rparr>)
          LibvirtHostSettings_read LibvirtHostSettings_validate) s) =
   (if INIReader_has_section r ''compute_resources'' then fst (LibvirtHostSettings_read r (compute_resources s)) else None)"
  by (auto simp: if_has_section_def read_and_validate_def feature_read_def on_attr_def
      extend_validation_errors_def split: prod.splits option.splits)

lemma compute_resources_step_snd:
  assumes "reader s = Some r"
    and "fst (if_has_section ''compute_resources''
       (read_and_validate compute_resources (\<lambda>g self. self\<lparr>compute_resources := g\<rparr>)
          LibvirtHostSettings_read LibvirtHostSettings_validate) s) = None"
  shows "snd (if_has_section ''compute_resources''
       (read_and_validate compute_resources (\<lambda>g self. self\<lparr>compute_resources := g\<rparr>)
          LibvirtHostSettings_read LibvirtHostSettings_validate) s) =
     s\<lparr>compute_resources :=
                 (if INIReader_has_section r ''compute_resources''
                  then snd (LibvirtHostSettings_read r (compute_resources s)) else compute_resources s),
               x_validation_errors := x_validation_errors s @
                 (if INIReader_has_section r ''compute_resources''
                  then LibvirtHostSettings_validate (snd (LibvirtHostSettings_read r (compute_resources s))) else [])\<rparr>"
  using assms
  by (auto simp: if_has_section_def read_and_validate_def feature_read_def on_attr_def
      extend_validation_errors_def split: prod.splits option.splits if_splits)

lemma discovery_step_fst:
  "reader s = Some r \<Longrightarrow>
   fst (if_has_section ''discovery''
       (read_and_validate discovery (\<lambda>g self. self\<lparr>discovery := g\<rparr>)
          DiscoveryISOSettings_read DiscoveryISOSettings_validate) s) =
   (if INIReader_has_section r ''discovery'' then fst (DiscoveryISOSettings_read r (discovery s)) else None)"
  by (auto simp: if_has_section_def read_and_validate_def feature_read_def on_attr_def
      extend_validation_errors_def split: prod.splits option.splits)

lemma discovery_step_snd:
  assumes "reader s = Some r"
    and "fst (if_has_section ''discovery''
       (read_and_validate discovery (\<lambda>g self. self\<lparr>discovery := g\<rparr>)
          DiscoveryISOSettings_read DiscoveryISOSettings_validate) s) = None"
  shows "snd (if_has_section ''discovery''
       (read_and_validate discovery (\<lambda>g self. self\<lparr>discovery := g\<rparr>)
          DiscoveryISOSettings_read DiscoveryISOSettings_validate) s) =
     s\<lparr>discovery :=
                 (if INIReader_has_section r ''discovery''
                  then snd (DiscoveryISOSettings_read r (discovery s)) else discovery s),
               x_validation_errors := x_validation_errors s @
                 (if INIReader_has_section r ''discovery''
                  then DiscoveryISOSettings_validate (snd (DiscoveryISOSettings_read r (discovery s))) else [])\<rparr>"
  using assms
  by (auto simp: if_has_section_def read_and_validate_def feature_read_def on_attr_def
      extend_validation_errors_def split: prod.splits option.splits if_splits)

lemma docker_step_fst:
  "reader s = Some r \<Longrightarrow>
   fst (if_has_section ''docker''
       (read_and_validate docker (\<lambda>g self. self\<lparr>docker := g\<rparr>)
          DockerSettings_read DockerSettings_validate) s) =
   (if INIReader_has_section r ''docker'' then fst (DockerSettings_read r (docker s)) else None)"
  by (auto simp: if_has_section_def read_and_validate_def feature_read_def on_attr_def
      extend_validation_errors_def split: prod.splits option.splits)

lemma docker_step_snd:
  assumes "reader s = Some r"
    and "fst (if_has_section ''docker''
       (read_and_validate docker (\<lambda>g self. self\<lparr>docker := g\<rparr>)
          DockerSettings_read DockerSettings_validate) s) = None"
  shows "snd (if_has_section ''docker''
       (read_and_validate docker (\<lambda>g self. self\<lparr>docker := g\<rparr>)
          DockerSettings_read DockerSettings_validate) s) =
     s\<lparr>docker :=
                 (if INIReader_has_section r ''docker''
                  then snd (DockerSettings_read r (docker s)) else docker s),
               x_validation_errors := x_validation_errors s @
                 (if INIReader_has_section r ''docker''
                  then DockerSettings_validate (snd (DockerSettings_read r (docker s))) else [])\<rparr>"
  using assms
  by (auto simp: if_has_section_def read_and_validate_def feature_read_def on_attr_def
      extend_validation_errors_def split: prod.splits option.splits if_splits)

lemma fake_manifest_step_fst:
  "reader s = Some r \<Longrightarrow>
   fst (if_has_section ''fake_manifest''
       (read_and_validate fake_manifest (\<lambda>g self. self\<lparr>fake_manifest := g\<rparr>)
          FakeManifestSettings_read FakeManifestSettings_validate) s) =
   (if INIReader_has_section r ''fake_manifest'' then fst (FakeManifestSettings_read r (fake_manifest s)) else None)"
  by (auto simp: if_has_section_def read_and_validate_def feature_read_def on_attr_def
      extend_validation_errors_def split: prod.splits option.splits)

lemma fake_manifest_step_snd:
  assumes "reader s = Some r"
    and "fst (if_has_section ''fake_manifest''
       (read_and_validate fake_manifest (\<lambda>g self. self\<lparr>fake_manifest := g\<rparr>)
          FakeManifestSettings_read FakeManifestSettings_validate) s) = None"
  shows "snd (if_has_section ''fake_manifest''
       (read_and_validate fake_manifest (\<lambda>g self. self\<lparr>fake_manifest := g\<rparr>)
          FakeManifestSettings_read FakeManifestSettings_validate) s) =
     s\<lparr>fake_manifest :=
                 (if INIReader_has_section r ''fake_manifest''
                  then snd (FakeManifestSettings_read r (fake_manifest s)) else fake_manifest s),
               x_validation_errors := x_validation_errors s @
                 (if INIReader_has_section r ''fake_manifest''
                  then FakeManifestSettings_validate (snd (FakeManifestSettings_read r (fake_manifest s))) else [])\<rparr>"
  using assms
  by (auto simp: if_has_section_def read_and_validate_def feature_read_def on_attr_def
      extend_validation_errors_def split: prod.splits option.splits if_splits)

lemma ldap_step_fst:
  "reader s = Some r \<Longrightarrow>
   fst (if_has_section ''ldap''
       (read_and_validate ldap (\<lambda>g self. self\<lparr>ldap := g\<rparr>)
          LDAPSettings_read LDAPSettings_validate) s) =
   (if INIReader_has_section r ''ldap'' then fst (LDAPSettings_read r (ldap s)) else None)"
  by (auto simp: if_has_section_def read_and_validate_def feature_read_def on_attr_def
      extend_validation_errors_def split: prod.splits option.splits)

lemma ldap_step_snd:
  assumes "reader s = Some r"
    and "fst (if_has_section ''ldap''
       (read_and_validate ldap (\<lambda>g self. self\<lparr>ldap := g\<rparr>)
          LDAPSettings_read LDAPSettings_validate) s) = None"
  shows "snd (if_has_section ''ldap''
       (read_and_validate ldap (\<lambda>g self. self\<lparr>ldap := g\<rparr>)
          LDAPSettings_read LDAPSettings_validate) s) =
     s\<lparr>ldap :=
                 (if INIReader_has_section r ''ldap''
                  then snd (LDAPSettings_read r (ldap s)) else ldap s),
               x_validation_errors := x_validation_errors s @
                 (if INIReader_has_section r ''ldap''
                  then LDAPSettings_validate (snd (LDAPSettings_read r (ldap s))) else [])\<rparr>"
  using assms
  by (auto simp: if_has_section_def read_and_validate_def feature_read_def on_attr_def
      extend_validation_errors_def split: prod.splits option.splits if_splits)

lemma oscap_step_fst:
  "reader s = Some r \<Longrightarrow>
   fst (if_has_section ''oscap''
       (read_and_validate oscap (\<lambda>g self. self\<lparr>oscap := g\<rparr>)
          OscapSettings_read OscapSettings_validate) s) =
   (if INIReader_has_section r ''oscap'' then fst (OscapSettings_read r (oscap s)) else None)"
  by (auto simp: if_has_section_def read_and_validate_def feature_read_def on_attr_def
      extend_validation_errors_def split: prod.splits option.splits)

lemma oscap_step_snd:
  assumes "reader s = Some r"
    and "fst (if_has_section ''oscap''
       (read_and_validate oscap (\<lambda>g self. self\<lparr>oscap := g\<rparr>)
          OscapSettings_read OscapSettings_validate) s) = None"
  shows "snd (if_has_section ''oscap''
       (read_and_validate oscap (\<lambda>g self. self\<lparr>oscap := g\<rparr>)
          OscapSettings_read OscapSettings_validate) s) =
     s\<lparr>oscap :=
                 (if INIReader_has_section r ''oscap''
                  then snd (OscapSettings_read r (oscap s)) else oscap s),
               x_validation_errors := x_validation_errors s @
                 (if INIReader_has_section r ''oscap''
                  then OscapSettings_validate (snd (OscapSettings_read r (oscap s))) else [])\<rparr>"
  using assms
  by (auto simp: if_has_section_def read_and_validate_def feature_read_def on_attr_def
      extend_validation_errors_def split: prod.splits option.splits if_splits)

lemma performance_step_fst:
  "reader s = Some r \<Longrightarrow>
   fst (if_has_section ''performance''
       (read_and_validate performance (\<lambda>g self. self\<lparr>performance := g\<rparr>)
          PerformanceSettings_read PerformanceSettings_validate) s) =
   (if INIReader_has_section r ''performance'' then fst (PerformanceSettings_read r (performance s)) else None)"
  by (auto simp: if_has_section_def read_and_validate_def feature_read_def on_attr_def
      extend_validation_errors_def split: prod.splits option.splits)

lemma performance_step_snd:
  assumes "reader s = Some r"
    and "fst (if_has_section ''performance''
       (read_and_validate performance (\<lambda>g self. self\<lparr>performance := g\<rparr>)
          PerformanceSettings_read PerformanceSettings_validate) s) = None"
  shows "snd (if_has_section ''performance''
       (read_and_validate performance (\<lambda>g self. self\<lparr>performance := g\<rparr>)
          PerformanceSettings_read PerformanceSettings_validate) s) =
     s\<lparr>performance :=
                 (if INIReader_has_section r ''performance''
                  then snd (PerformanceSettings_read r (performance s)) else performance s),
               x_validation_errors := x_validation_errors s @
                 (if INIReader_has_section r ''performance''
                  then PerformanceSettings_validate (snd (PerformanceSettings_read r (performance s))) else [])\<rparr>"
  using assms
  by (auto simp: if_has_section_def read_and_validate_def feature_read_def on_attr_def
      extend_validation_errors_def split: prod.splits option.splits if_splits)

lemma rhai_step_fst:
  "reader s = Some r \<Longrightarrow>
   fst (if_has_section ''rhai''
       (read_and_validate rhai (\<lambda>g self. self\<lparr>rhai := g\<rparr>)
          RHAISettings_read RHAISettings_validate) s) =
   (if INIReader_has_section r ''rhai'' then fst (RHAISettings_read r (rhai s)) else None)"
  by (auto simp: if_has_section_def read_and_validate_def feature_read_def on_attr_def
      extend_validation_errors_def split: prod.splits option.splits)

lemma rhai_step_snd:
  assumes "reader s = Some r"
    and "fst (if_has_section ''rhai''
       (read_and_validate rhai (\<lambda>g self. self\<lparr>rhai := g\<rparr>)
          RHAISettings_read RHAISettings_validate) s) = None"
  shows "snd (if_has_section ''rhai''
       (read_and_validate rhai (\<lambda>g self. self\<lparr>rhai := g\<rparr>)
          RHAISettings_read RHAISettings_validate) s) =
     s\<lparr>rhai :=
                 (if INIReader_has_section r ''rhai''
                  then snd (RHAISettings_read r (rhai s)) else rhai s),
               x_validation_errors := x_validation_errors s @
                 (if INIReader_has_section r ''rhai''
                  then RHAISettings_validate (snd (RHAISettings_read r (rhai s))) else [])\<rparr>"
  using assms
  by (auto simp: if_has_section_def read_and_validate_def feature_read_def on_attr_def
      extend_validation_errors_def split: prod.splits option.splits if_splits)

lemma transition_step_fst:
  "reader s = Some r \<Longrightarrow>
   fst (if_has_section ''transition''
       (read_and_validate transition (\<lambda>g self. self\<lparr>transition := g\<rparr>)
          TransitionSettings_read TransitionSettings_validate) s) =
   (if INIReader_has_section r ''transition'' then fst (TransitionSettings_read r (transition s)) else None)"
  by (auto simp: if_has_section_def read_and_validate_def feature_read_def on_attr_def
      extend_validation_errors_def split: prod.splits option.splits)

lemma transition_step_snd:
  assumes "reader s = Some r"
    and "fst (if_has_section ''transition''
       (read_and_validate transition (\<lambda>g self. self\<lparr>transition := g\<rparr>)
          TransitionSettings_read TransitionSettings_validate) s) = None"
  shows "snd (if_has_section ''transition''
       (read_and_validate transition (\<lambda>g self. self\<lparr>transition := g\<rparr>)
          TransitionSettings_read TransitionSettings_validate) s) =
     s\<lparr>transition :=
                 (if INIReader_has_section r ''transition''
                  then snd (TransitionSettings_read r (transition s)) else transition s),
               x_validation_errors := x_validation_errors s @
                 (if INIReader_has_section r ''transition''
                  then TransitionSettings_validate (snd (TransitionSettings_read r (transition s))) else [])\<rparr>"
  using assms
  by (auto simp: if_has_section_def read_and_validate_def feature_read_def on_attr_def
      extend_validation_errors_def split: prod.splits option.splits if_splits)

lemma vlan_networking_step_fst:
  "reader s = Some r \<Longrightarrow>
   fst (if_has_section ''vlan_networking''
       (read_and_validate vlan_networking (\<lambda>g self. self\<lparr>vlan_networking := g\<rparr>)
          VlanNetworkSettings_read VlanNetworkSettings_validate) s) =
   (if INIReader_has_section r ''vlan_networking'' then fst (VlanNetworkSettings_read r (vlan_networking s)) else None)"
  by (auto simp: if_has_section_def read_and_validate_def feature_read_def on_attr_def
      extend_validation_errors_def split: prod.splits option.splits)

lemma vlan_networking_step_snd:
  assumes "reader s = Some r"
    and "fst (if_has_section ''vlan_networking''
       (read_and_validate vlan_networking (\<lambda>g self. self\<lparr>vlan_networking := g\<rparr>)
          VlanNetworkSettings_read VlanNetworkSettings_validate) s) = None"
  shows "snd (if_has_section ''vlan_networking''
       (read_and_validate vlan_networking (\<lambda>g self. self\<lparr>vlan_networking := g\<rparr>)
          VlanNetworkSettings_read VlanNetworkSettings_validate) s) =
     s\<lparr>vlan_networking :=
                 (if INIReader_has_section r ''vlan_networking''
                  then snd (VlanNetworkSettings_read r (vlan_networking s)) else vlan_networking s),
               x_validation_errors := x_validation_errors s @
                 (if INIReader_has_section r ''vlan_networking''
                  then VlanNetworkSettings_validate (snd (VlanNetworkSettings_read r (vlan_networking s))) else [])\<rparr>"
  using assms
  by (auto simp: if_has_section_def read_and_validate_def feature_read_def on_attr_def
      extend_validation_errors_def split: prod.splits option.splits if_splits)

lemma configure_read_follows:
  fixes self :: Settings
  assumes init: "INIReader_init e p = Inr r"
  defines "s2 \<equiv> snd (Settings_read_robottelo_settings (INIReader_casts e) (self\<lparr>reader := Some r\<rparr>))"
  defines "V0 \<equiv> Settings_validate_robottelo_settings s2"
    and "GS \<equiv> snd (ServerSettings_read r (server self))"
    and "VS \<equiv> ServerSettings_validate (snd (ServerSettings_read r (server self)))"
    and "G1 \<equiv> (if INIReader_has_section r ''clients''
                   then snd (ClientsSettings_read r (clients self)) else clients self)"
    and "V1 \<equiv> (if INIReader_has_section r ''clients''
                   then ClientsSettings_validate (snd (ClientsSettings_read r (clients self))) else [])"
    and "G2 \<equiv> (if INIReader_has_section r ''compute_resources''
                   then snd (LibvirtHostSettings_read r (compute_resources self)) else compute_resources self)"
    and "V2 \<equiv> (if INIReader_has_section r ''compute_resources''
                   then LibvirtHostSettings_validate (snd (LibvirtHostSettings_read r (compute_resources self))) else [])"
    and "G3 \<equiv> (if INIReader_has_section r ''discovery''
                   then snd (DiscoveryISOSettings_read r (discovery self)) else discovery self)"
    and "V3 \<equiv> (if INIReader_has_section r ''discovery''
                   then DiscoveryISOSettings_validate (snd (DiscoveryISOSettings_read r (discovery self))) else [])"
    and "G4 \<equiv> (if INIReader_has_section r ''docker''
                   then snd (DockerSettings_read r (docker self)) else docker self)"
    and "V4 \<equiv> (if INIReader_has_section r ''docker''
                   then DockerSettings_validate (snd (DockerSettings_read r (docker self))) else [])"
    and "G5 \<equiv> (if INIReader_has_section r ''fake_manifest''
                   then snd (FakeManifestSettings_read r (fake_manifest self)) else fake_manifest self)"
    and "V5 \<equiv> (if INIReader_has_section r ''fake_manifest''
                   then FakeManifestSettings_validate (snd (FakeManifestSettings_read r (fake_manifest self))) else [])"
    and "G6 \<equiv> (if INIReader_has_section r ''ldap''
                   then snd (LDAPSettings_read r (ldap self)) else ldap self)"
    and "V6 \<equiv> (if INIReader_has_section r ''ldap''
                   then LDAPSettings_validate (snd (LDAPSettings_read r (ldap self))) else [])"
    and "G7 \<equiv> (if INIReader_has_section r ''oscap''
                   then snd (OscapSettings_read r (oscap self)) else oscap self)"
    and "V7 \<equiv> (if INIReader_has_section r ''oscap''
                   then OscapSettings_validate (snd (OscapSettings_read r (oscap self))) else [])"
    and "G8 \<equiv> (if INIReader_has_section r ''performance''
                   then snd (PerformanceSettings_read r (performance self)) else performance self)"
    and "V8 \<equiv> (if INIReader_has_section r ''performance''
                   then PerformanceSettings_validate (snd (PerformanceSettings_read r (performance self))) else [])"
    and "G9 \<equiv> (if INIReader_has_section r ''rhai''
                   then snd (RHAISettings_read r (rhai self)) else rhai self)"
    and "V9 \<equiv> (if INIReader_has_section r ''rhai''
                   then RHAISettings_validate (snd (RHAISettings_read r (rhai self))) else [])"
    and "G10 \<equiv> (if INIReader_has_section r ''transition''
                   then snd (TransitionSettings_read r (transition self)) else transition self)"
    and "V10 \<equiv> (if INIReader_has_section r ''transition''
                   then TransitionSettings_validate (snd (TransitionSettings_read r (transition self))) else [])"
    and "G11 \<equiv> (if INIReader_has_section r ''vlan_networking''
                   then snd (VlanNetworkSettings_read r (vlan_networking self)) else vlan_networking self)"
    and "V11 \<equiv> (if INIReader_has_section r ''vlan_networking''
                   then VlanNetworkSettings_validate (snd (VlanNetworkSettings_read r (vlan_networking self))) else [])"
  shows "fst (Settings_configure_read e p self) = first_raise
     [fst (Settings_read_robottelo_settings (INIReader_casts e) (self\<lparr>reader := Some r\<rparr>)),
      fst (ServerSettings_read r (server self)),
      (if INIReader_has_section r ''clients'' then fst (ClientsSettings_read r (clients self)) else None),
      (if INIReader_has_section r ''compute_resources'' then fst (LibvirtHostSettings_read r (compute_resources self)) else None),
      (if INIReader_has_section r ''discovery'' then fst (DiscoveryISOSettings_read r (discovery self)) else None),
      (if INIReader_has_section r ''docker'' then fst (DockerSettings_read r (docker self)) else None),
      (if INIReader_has_section r ''fake_manifest'' then fst (FakeManifestSettings_read r (fake_manifest self)) else None),
      (if INIReader_has_section r ''ldap'' then fst (LDAPSettings_read r (ldap self)) else None),
      (if INIReader_has_section r ''oscap'' then fst (OscapSettings_read r (oscap self)) else None),
      (if INIReader_has_section r ''performance'' then fst (PerformanceSettings_read r (performance self)) else None),
      (if INIReader_has_section r ''rhai'' then fst (RHAISettings_read r (rhai self)) else None),
      (if INIReader_has_section r ''transition'' then fst (TransitionSettings_read r (transition self)) else None),
      (if INIReader_has_section r ''vlan_networking'' then fst (VlanNetworkSettings_read r (vlan_networking self)) else None)]"
    and "fst (Settings_configure_read e p self) = None \<longrightarrow>
       snd (Settings_configure_read e p self) =
       s2\<lparr>x_validation_errors := x_validation_errors self @ V0 @ VS @ V1 @ V2 @ V3 @ V4 @ V5 @ V6 @ V7 @ V8 @ V9 @ V10 @ V11,
         server := GS, clients := G1, compute_resources := G2, discovery := G3, docker := G4, fake_manifest := G5, ldap := G6, oscap := G7, performance := G8, rhai := G9, transition := G10, vlan_networking := G11\<rparr>"
proof -
  have F: "reader s2 = Some r" "x_validation_errors s2 = x_validation_errors self"
    "server s2 = server self" "clients s2 = clients self" "compute_resources s2 = compute_resources self" "discovery s2 = discovery self" "docker s2 = docker self" "fake_manifest s2 = fake_manifest self" "ldap s2 = ldap self" "oscap s2 = oscap self" "performance s2 = performance self" "rhai s2 = rhai self" "transition s2 = transition self" "vlan_networking s2 = vlan_networking self"
    unfolding s2_def by (subst read_robottelo_preserves; simp)+
  let ?os' = "[None, fst (Settings_read_robottelo_settings (INIReader_casts e) (self\<lparr>reader := Some r\<rparr>)),
      None, fst (ServerSettings_read r (server self)),
      (if INIReader_has_section r ''clients'' then fst (ClientsSettings_read r (clients self)) else None),
      (if INIReader_has_section r ''compute_resources'' then fst (LibvirtHostSettings_read r (compute_resources self)) else None),
      (if INIReader_has_section r ''discovery'' then fst (DiscoveryISOSettings_read r (discovery self)) else None),
      (if INIReader_has_section r ''docker'' then fst (DockerSettings_read r (docker self)) else None),
      (if INIReader_has_section r ''fake_manifest'' then fst (FakeManifestSettings_read r (fake_manifest self)) else None),
      (if INIReader_has_section r ''ldap'' then fst (LDAPSettings_read r (ldap self)) else None),
      (if INIReader_has_section r ''oscap'' then fst (OscapSettings_read r (oscap self)) else None),
      (if INIReader_has_section r ''performance'' then fst (PerformanceSettings_read r (performance self)) else None),
      (if INIReader_has_section r ''rhai'' then fst (RHAISettings_read r (rhai self)) else None),
      (if INIReader_has_section r ''transition'' then fst (TransitionSettings_read r (transition self)) else None),
      (if INIReader_has_section r ''vlan_networking'' then fst (VlanNetworkSettings_read r (vlan_networking self)) else None)]"
  let ?ts = "[self\<lparr>reader := Some r\<rparr>, s2,
      s2\<lparr>x_validation_errors := x_validation_errors self @ V0\<rparr>,
      s2\<lparr>x_validation_errors := x_validation_errors self @ V0 @ VS,
         server := GS\<rparr>,
      s2\<lparr>x_validation_errors := x_validation_errors self @ V0 @ VS @ V1,
         server := GS, clients := G1\<rparr>,
      s2\<lparr>x_validation_errors := x_validation_errors self @ V0 @ VS @ V1 @ V2,
         server := GS, clients := G1, compute_resources := G2\<rparr>,
      s2\<lparr>x_validation_errors := x_validation_errors self @ V0 @ VS @ V1 @ V2 @ V3,
         server := GS, clients := G1, compute_resources := G2, discovery := G3\<rparr>,
      s2\<lparr>x_validation_errors := x_validation_errors self @ V0 @ VS @ V1 @ V2 @ V3 @ V4,
         server := GS, clients := G1, compute_resources := G2, discovery := G3, docker := G4\<rparr>,
      s2\<lparr>x_validation_errors := x_validation_errors self @ V0 @ VS @ V1 @ V2 @ V3 @ V4 @ V5,
         server := GS, clients := G1, compute_resources := G2, discovery := G3, docker := G4, fake_manifest := G5\<rparr>,
      s2\<lparr>x_validation_errors := x_validation_errors self @ V0 @ VS @ V1 @ V2 @ V3 @ V4 @ V5 @ V6,
         server := GS, clients := G1, compute_resources := G2, discovery := G3, docker := G4, fake_manifest := G5, ldap := G6\<rparr>,
      s2\<lparr>x_validation_errors := x_validation_errors self @ V0 @ VS @ V1 @ V2 @ V3 @ V4 @ V5 @ V6 @ V7,
         server := GS, clients := G1, compute_resources := G2, discovery := G3, docker := G4, fake_manifest := G5, ldap := G6, oscap := G7\<rparr>,
      s2\<lparr>x_validation_errors := x_validation_errors self @ V0 @ VS @ V1 @ V2 @ V3 @ V4 @ V5 @ V6 @ V7 @ V8,
         server := GS, clients := G1, compute_resources := G2, discovery := G3, docker := G4, fake_manifest := G5, ldap := G6, oscap := G7, performance := G8\<rparr>,
      s2\<lparr>x_validation_errors := x_validation_errors self @ V0 @ VS @ V1 @ V2 @ V3 @ V4 @ V5 @ V6 @ V7 @ V8 @ V9,
         server := GS, clients := G1, compute_resources := G2, discovery := G3, docker := G4, fake_manifest := G5, ldap := G6, oscap := G7, performance := G8, rhai := G9\<rparr>,
      s2\<lparr>x_validation_errors := x_validation_errors self @ V0 @ VS @ V1 @ V2 @ V3 @ V4 @ V5 @ V6 @ V7 @ V8 @ V9 @ V10,
         server := GS, clients := G1, compute_resources := G2, discovery := G3, docker := G4, fake_manifest := G5, ldap := G6, oscap := G7, performance := G8, rhai := G9, transition := G10\<rparr>,
      s2\<lparr>x_validation_errors := x_validation_errors self @ V0 @ VS @ V1 @ V2 @ V3 @ V4 @ V5 @ V6 @ V7 @ V8 @ V9 @ V10 @ V11,
         server := GS, clients := G1, compute_resources := G2, discovery := G3, docker := G4, fake_manifest := G5, ldap := G6, oscap := G7, performance := G8, rhai := G9, transition := G10, vlan_networking := G11\<rparr>]"
  have "follows
     [\<lambda>self. case INIReader_init e p of
               Inl ex \<Rightarrow> (Some ex, self)
             | Inr r \<Rightarrow> (None, self\<lparr>reader := Some r\<rparr>),
     Settings_read_robottelo_settings (INIReader_casts e),
     extend_validation_errors Settings_validate_robottelo_settings,
     read_and_validate server (\<lambda>g self. self\<lparr>server := g\<rparr>)
       ServerSettings_read ServerSettings_validate,
     if_has_section ''clients''
       (read_and_validate clients (\<lambda>g self. self\<lparr>clients := g\<rparr>)
          ClientsSettings_read ClientsSettings_validate),
     if_has_section ''compute_resources''
       (read_and_validate compute_resources (\<lambda>g self. self\<lparr>compute_resources := g\<rparr>)
          LibvirtHostSettings_read LibvirtHostSettings_validate),
     if_has_section ''discovery''
       (read_and_validate discovery (\<lambda>g self. self\<lparr>discovery := g\<rparr>)
          DiscoveryISOSettings_read DiscoveryISOSettings_validate),
     if_has_section ''docker''
       (read_and_validate docker (\<lambda>g self. self\<lparr>docker := g\<rparr>)
          DockerSettings_read DockerSettings_validate),
     if_has_section ''fake_manifest''
       (read_and_validate fake_manifest (\<lambda>g self. self\<lparr>fake_manifest := g\<rparr>)
          FakeManifestSettings_read FakeManifestSettings_validate),
     if_has_section ''ldap''
       (read_and_validate ldap (\<lambda>g self. self\<lparr>ldap := g\<rparr>)
          LDAPSettings_read LDAPSettings_validate),
     if_has_section ''oscap''
       (read_and_validate oscap (\<lambda>g self. self\<lparr>oscap := g\<rparr>)
          OscapSettings_read OscapSettings_validate),
     if_has_section ''performance''
       (read_and_validate performance (\<lambda>g self. self\<lparr>performance := g\<rparr>)
          PerformanceSettings_read PerformanceSettings_validate),
     if_has_section ''rhai''
       (read_and_validate rhai (\<lambda>g self. self\<lparr>rhai := g\<rparr>)
          RHAISettings_read RHAISettings_validate),
     if_has_section ''transition''
       (read_and_validate transition (\<lambda>g self. self\<lparr>transition := g\<rparr>)
          TransitionSettings_read TransitionSettings_validate),
     if_has_section ''vlan_networking''
       (read_and_validate vlan_networking (\<lambda>g self. self\<lparr>vlan_networking := g\<rparr>)
          VlanNetworkSettings_read VlanNetworkSettings_validate)] ?os' ?ts self"
    unfolding follows.simps
    apply (intro conjI impI)
    apply (simp_all only: init sum.case fst_conv snd_conv)
    apply (simp_all add: s2_def[symmetric] extend_validation_errors_def F server_step_fst clients_step_fst compute_resources_step_fst discovery_step_fst docker_step_fst fake_manifest_step_fst ldap_step_fst oscap_step_fst performance_step_fst rhai_step_fst transition_step_fst vlan_networking_step_fst server_step_snd clients_step_snd compute_resources_step_snd discovery_step_snd docker_step_snd fake_manifest_step_snd ldap_step_snd oscap_step_snd performance_step_snd rhai_step_snd transition_step_snd vlan_networking_step_snd V0_def GS_def VS_def G1_def V1_def G2_def V2_def G3_def V3_def G4_def V4_def G5_def V5_def G6_def V6_def G7_def V7_def G8_def V8_def G9_def V9_def G10_def V10_def G11_def V11_def split del: if_split cong: if_cong)
    done
  then have fb: "fst (Settings_configure_read e p self) = first_raise ?os' \<and>
      (first_raise ?os' = None \<longrightarrow> snd (Settings_configure_read e p self) = last (self # ?ts))"
    unfolding Settings_configure_read_def by (rule follows_block)
  have os: "first_raise ?os' = first_raise
     [fst (Settings_read_robottelo_settings (INIReader_casts e) (self\<lparr>reader := Some r\<rparr>)),
      fst (ServerSettings_read r (server self)),
      (if INIReader_has_section r ''clients'' then fst (ClientsSettings_read r (clients self)) else None),
      (if INIReader_has_section r ''compute_resources'' then fst (LibvirtHostSettings_read r (compute_resources self)) else None),
      (if INIReader_has_section r ''discovery'' then fst (DiscoveryISOSettings_read r (discovery self)) else None),
      (if INIReader_has_section r ''docker'' then fst (DockerSettings_read r (docker self)) else None),
      (if INIReader_has_section r ''fake_manifest'' then fst (FakeManifestSettings_read r (fake_manifest self)) else None),
      (if INIReader_has_section r ''ldap'' then fst (LDAPSettings_read r (ldap self)) else None),
      (if INIReader_has_section r ''oscap'' then fst (OscapSettings_read r (oscap self)) else None),
      (if INIReader_has_section r ''performance'' then fst (PerformanceSettings_read r (performance self)) else None),
      (if INIReader_has_section r ''rhai'' then fst (RHAISettings_read r (rhai self)) else None),
      (if INIReader_has_section r ''transition'' then fst (TransitionSettings_read r (transition self)) else None),
      (if INIReader_has_section r ''vlan_networking'' then fst (VlanNetworkSettings_read r (vlan_networking self)) else None)]"
    by (simp only: first_raise.simps first_raise_skip)
  have ts: "last (self # ?ts) =
       s2\<lparr>x_validation_errors := x_validation_errors self @ V0 @ VS @ V1 @ V2 @ V3 @ V4 @ V5 @ V6 @ V7 @ V8 @ V9 @ V10 @ V11,
         server := GS, clients := G1, compute_resources := G2, discovery := G3, docker := G4, fake_manifest := G5, ldap := G6, oscap := G7, performance := G8, rhai := G9, transition := G10, vlan_networking := G11\<rparr>"
    by (simp only: last.simps list.distinct if_False if_True simp_thms)
  show "fst (Settings_configure_read e p self) = first_raise
     [fst (Settings_read_robottelo_settings (INIReader_casts e) (self\<lparr>reader := Some r\<rparr>)),
      fst (ServerSettings_read r (server self)),
      (if INIReader_has_section r ''clients'' then fst (ClientsSettings_read r (clients self)) else None),
      (if INIReader_has_section r ''compute_resources'' then fst (LibvirtHostSettings_read r (compute_resources self)) else None),
      (if INIReader_has_section r ''discovery'' then fst (DiscoveryISOSettings_read r (discovery self)) else None),
      (if INIReader_has_section r ''docker'' then fst (DockerSettings_read r (docker self)) else None),
      (if INIReader_has_section r ''fake_manifest'' then fst (FakeManifestSettings_read r (fake_manifest self)) else None),
      (if INIReader_has_section r ''ldap'' then fst (LDAPSettings_read r (ldap self)) else None),
      (if INIReader_has_section r ''oscap'' then fst (OscapSettings_read r (oscap self)) else None),
      (if INIReader_has_section r ''performance'' then fst (PerformanceSettings_read r (performance self)) else None),
      (if INIReader_has_section r ''rhai'' then fst (RHAISettings_read r (rhai self)) else None),
      (if INIReader_has_section r ''transition'' then fst (TransitionSettings_read r (transition self)) else None),
      (if INIReader_has_section r ''vlan_networking'' then fst (VlanNetworkSettings_read r (vlan_networking self)) else None)]"
    and "fst (Settings_configure_read e p self) = None \<longrightarrow>
       snd (Settings_configure_read e p self) =
       s2\<lparr>x_validation_errors := x_validation_errors self @ V0 @ VS @ V1 @ V2 @ V3 @ V4 @ V5 @ V6 @ V7 @ V8 @ V9 @ V10 @ V11,
         server := GS, clients := G1, compute_resources := G2, discovery := G3, docker := G4, fake_manifest := G5, ldap := G6, oscap := G7, performance := G8, rhai := G9, transition := G10, vlan_networking := G11\<rparr>"
    using fb unfolding os ts by simp_all
qed


section \<open>\<^verbatim>\<open>configure\<close> as a whole\<close>

lemma configure_cases:
  assumes "\<not> Settings_configured self"
    and "isfile e (configure_settings_path e)"
  shows "Settings_configure e (self, w) =
     (case Settings_configure_read e (configure_settings_path e) self of
        (Some ex, self1) \<Rightarrow> (Some ex, (self1, w))
      | (None, self1) \<Rightarrow>
          if x_validation_errors self1 \<noteq> []
          then (Some (ImproperlyConfigured (validation_message (x_validation_errors self1))),
                (self1, w))
          else block [Settings_configure_logging e, Settings_configure_third_party_logging,
                 Settings_configure_entities e,
                 on_self (\<lambda>self. (None, self\<lparr>x_configured := True\<rparr>))] (self1, w))"
  using assms
  by (simp add: Settings_configure_def configure_settings_path_def on_self_def Let_def
      split: prod.splits option.splits)

lemma configure_logging_instance:
  "fst (snd (Settings_configure_logging e st)) = fst st"
  unfolding Settings_configure_logging_def
  by (rule block_preserves)
     (auto simp: perform_def Logger_setLevel_of_def Let_def split: sum.splits option.splits)

lemma configure_third_party_logging_instance:
  "fst (snd (Settings_configure_third_party_logging st)) = fst st"
  unfolding Settings_configure_third_party_logging_def
  by (rule block_preserves) (auto simp: perform_def)

lemma configure_entities_instance:
  "fst (snd (Settings_configure_entities e st)) = fst st"
  unfolding Settings_configure_entities_def
  by (rule block_preserves) (auto simp: perform_def Let_def split: sum.splits)

lemma configure_finish_instance:
  "fst (snd (block [Settings_configure_logging e, Settings_configure_third_party_logging,
                 Settings_configure_entities e,
                 on_self (\<lambda>self. (None, self\<lparr>x_configured := True\<rparr>))] (s, w))) =
   (if fst (block [Settings_configure_logging e, Settings_configure_third_party_logging,
                 Settings_configure_entities e,
                 on_self (\<lambda>self. (None, self\<lparr>x_configured := True\<rparr>))] (s, w)) = None
    then s\<lparr>x_configured := True\<rparr> else s)"
proof -
  obtain r1 s1 w1 where a: "Settings_configure_logging e (s, w) = (r1, (s1, w1))"
    by (metis prod.collapse)
  obtain r2 s2 w2 where b: "Settings_configure_third_party_logging (s1, w1) = (r2, (s2, w2))"
    by (metis prod.collapse)
  obtain r3 s3 w3 where c: "Settings_configure_entities e (s2, w2) = (r3, (s3, w3))"
    by (metis prod.collapse)
  have "s1 = s" using configure_logging_instance[of e "(s, w)"] a by simp
  moreover have "s2 = s1" using configure_third_party_logging_instance[of "(s1, w1)"] b by simp
  moreover have "s3 = s2" using configure_entities_instance[of e "(s2, w2)"] c by simp
  ultimately show ?thesis
    using a b c by (cases r1; cases r2; cases r3) (simp_all add: on_self_def)
qed

lemma configure_instance:
  assumes "\<not> Settings_configured self"
    and "isfile e (configure_settings_path e)"
    and "Settings_configure_read e (configure_settings_path e) self = (None, self1)"
  shows "fst (snd (Settings_configure e (self, w))) =
         (if fst (Settings_configure e (self, w)) = None then self1\<lparr>x_configured := True\<rparr>
          else self1)"
  using configure_finish_instance[of e self1 w]
  by (simp add: configure_cases[OF assms(1,2)] assms(3))

lemma configure_read_result:
  fixes self :: Settings
  assumes init: "INIReader_init e p = Inr r"
    and run: "Settings_configure_read e p self = (None, st)"
  shows "x_configured st = x_configured self"
    and "x_all_features st = x_all_features self"
    and "reader st = Some r"
    and "server st = snd (ServerSettings_read r (server self))"
    and "clients st =
       (if INIReader_has_section r ''clients''
        then snd (ClientsSettings_read r (clients self)) else clients self)"
    and "compute_resources st =
       (if INIReader_has_section r ''compute_resources''
        then snd (LibvirtHostSettings_read r (compute_resources self)) else compute_resources self)"
    and "discovery st =
       (if INIReader_has_section r ''discovery''
        then snd (DiscoveryISOSettings_read r (discovery self)) else discovery self)"
    and "docker st =
       (if INIReader_has_section r ''docker''
        then snd (DockerSettings_read r (docker self)) else docker self)"
    and "fake_manifest st =
       (if INIReader_has_section r ''fake_manifest''
        then snd (FakeManifestSettings_read r (fake_manifest self)) else fake_manifest self)"
    and "ldap st =
       (if INIReader_has_section r ''ldap''
        then snd (LDAPSettings_read r (ldap self)) else ldap self)"
    and "oscap st =
       (if INIReader_has_section r ''oscap''
        then snd (OscapSettings_read r (oscap self)) else oscap self)"
    and "performance st =
       (if INIReader_has_section r ''performance''
        then snd (PerformanceSettings_read r (performance self)) else performance self)"
    and "rhai st =
       (if INIReader_has_section r ''rhai''
        then snd (RHAISettings_read r (rhai self)) else rhai self)"
    and "transition st =
       (if INIReader_has_section r ''transition''
        then snd (TransitionSettings_read r (transition self)) else transition self)"
    and "vlan_networking st =
       (if INIReader_has_section r ''vlan_networking''
        then snd (VlanNetworkSettings_read r (vlan_networking self)) else vlan_networking self)"
    and "x_validation_errors st =
       x_validation_errors self
       @ Settings_validate_robottelo_settings st
       @ ServerSettings_validate (server st)
       @ (if INIReader_has_section r ''clients'' then ClientsSettings_validate (clients st) else [])
       @ (if INIReader_has_section r ''compute_resources'' then LibvirtHostSettings_validate (compute_resources st) else [])
       @ (if INIReader_has_section r ''discovery'' then DiscoveryISOSettings_validate (discovery st) else [])
       @ (if INIReader_has_section r ''docker'' then DockerSettings_validate (docker st) else [])
       @ (if INIReader_has_section r ''fake_manifest'' then FakeManifestSettings_validate (fake_manifest st) else [])
       @ (if INIReader_has_section r ''ldap'' then LDAPSettings_validate (ldap st) else [])
       @ (if INIReader_has_section r ''oscap'' then OscapSettings_validate (oscap st) else [])
       @ (if INIReader_has_section r ''performance'' then PerformanceSettings_validate (performance st) else [])
       @ (if INIReader_has_section r ''rhai'' then RHAISettings_validate (rhai st) else [])
       @ (if INIReader_has_section r ''transition'' then TransitionSettings_validate (transition st) else [])
       @ (if INIReader_has_section r ''vlan_networking'' then VlanNetworkSettings_validate (vlan_networking st) else [])"
proof -
  define s2 where
    "s2 = snd (Settings_read_robottelo_settings (INIReader_casts e) (self\<lparr>reader := Some r\<rparr>))"
  have F: "reader s2 = Some r" "x_configured s2 = x_configured self"
    "x_all_features s2 = x_all_features self"
    unfolding s2_def by (subst read_robottelo_preserves; simp)+
  have V: "Settings_validate_robottelo_settings (s\<lparr>x_validation_errors := xs\<rparr>) =
           Settings_validate_robottelo_settings s"
    "Settings_validate_robottelo_settings (s\<lparr>server := g0\<rparr>) =
           Settings_validate_robottelo_settings s"
    "Settings_validate_robottelo_settings (s\<lparr>clients := gclients\<rparr>) =
           Settings_validate_robottelo_settings s"
    "Settings_validate_robottelo_settings (s\<lparr>compute_resources := gcompute_resources\<rparr>) =
           Settings_validate_robottelo_settings s"
    "Settings_validate_robottelo_settings (s\<lparr>discovery := gdiscovery\<rparr>) =
           Settings_validate_robottelo_settings s"
    "Settings_validate_robottelo_settings (s\<lparr>docker := gdocker\<rparr>) =
           Settings_validate_robottelo_settings s"
    "Settings_validate_robottelo_settings (s\<lparr>fake_manifest := gfake_manifest\<rparr>) =
           Settings_validate_robottelo_settings s"
    "Settings_validate_robottelo_settings (s\<lparr>ldap := gldap\<rparr>) =
           Settings_validate_robottelo_settings s"
    "Settings_validate_robottelo_settings (s\<lparr>oscap := goscap\<rparr>) =
           Settings_validate_robottelo_settings s"
    "Settings_validate_robottelo_settings (s\<lparr>performance := gperformance\<rparr>) =
           Settings_validate_robottelo_settings s"
    "Settings_validate_robottelo_settings (s\<lparr>rhai := grhai\<rparr>) =
           Settings_validate_robottelo_settings s"
    "Settings_validate_robottelo_settings (s\<lparr>transition := gtransition\<rparr>) =
           Settings_validate_robottelo_settings s"
    "Settings_validate_robottelo_settings (s\<lparr>vlan_networking := gvlan_networking\<rparr>) =
           Settings_validate_robottelo_settings s"
    for s xs g0 gclients gcompute_resources gdiscovery gdocker gfake_manifest gldap goscap gperformance grhai gtransition gvlan_networking
    by (simp_all add: Settings_validate_robottelo_settings_def)
  from run have "fst (Settings_configure_read e p self) = None"
    and st: "st = snd (Settings_configure_read e p self)" by simp_all
  with configure_read_follows(2)[OF init, of self]
  have flat: "st = s2\<lparr>x_validation_errors := x_validation_errors self
         @ Settings_validate_robottelo_settings s2
         @ ServerSettings_validate (snd (ServerSettings_read r (server self)))
         @ (if INIReader_has_section r ''clients''
            then ClientsSettings_validate (snd (ClientsSettings_read r (clients self))) else [])
         @ (if INIReader_has_section r ''compute_resources''
            then LibvirtHostSettings_validate (snd (LibvirtHostSettings_read r (compute_resources self))) else [])
         @ (if INIReader_has_section r ''discovery''
            then DiscoveryISOSettings_validate (snd (DiscoveryISOSettings_read r (discovery self))) else [])
         @ (if INIReader_has_section r ''docker''
            then DockerSettings_validate (snd (DockerSettings_read r (docker self))) else [])
         @ (if INIReader_has_section r ''fake_manifest''
            then FakeManifestSettings_validate (snd (FakeManifestSettings_read r (fake_manifest self))) else [])
         @ (if INIReader_has_section r ''ldap''
            then LDAPSettings_validate (snd (LDAPSettings_read r (ldap self))) else [])
         @ (if INIReader_has_section r ''oscap''
            then OscapSettings_validate (snd (OscapSettings_read r (oscap self))) else [])
         @ (if INIReader_has_section r ''performance''
            then PerformanceSettings_validate (snd (PerformanceSettings_read r (performance self))) else [])
         @ (if INIReader_has_section r ''rhai''
            then RHAISettings_validate (snd (RHAISettings_read r (rhai self))) else [])
         @ (if INIReader_has_section r ''transition''
            then TransitionSettings_validate (snd (TransitionSettings_read r (transition self))) else [])
         @ (if INIReader_has_section r ''vlan_networking''
            then VlanNetworkSettings_validate (snd (VlanNetworkSettings_read r (vlan_networking self))) else []),
       server := snd (ServerSettings_read r (server self)),
       clients := (if INIReader_has_section r ''clients''
                   then snd (ClientsSettings_read r (clients self)) else clients self),
       compute_resources := (if INIReader_has_section r ''compute_resources''
                   then snd (LibvirtHostSettings_read r (compute_resources self)) else compute_resources self),
       discovery := (if INIReader_has_section r ''discovery''
                   then snd (DiscoveryISOSettings_read r (discovery self)) else discovery self),
       docker := (if INIReader_has_section r ''docker''
                   then snd (DockerSettings_read r (docker self)) else docker self),
       fake_manifest := (if INIReader_has_section r ''fake_manifest''
                   then snd (FakeManifestSettings_read r (fake_manifest self)) else fake_manifest self),
       ldap := (if INIReader_has_section r ''ldap''
                   then snd (LDAPSettings_read r (ldap self)) else ldap self),
       oscap := (if INIReader_has_section r ''oscap''
                   then snd (OscapSettings_read r (oscap self)) else oscap self),
       performance := (if INIReader_has_section r ''performance''
                   then snd (PerformanceSettings_read r (performance self)) else performance self),
       rhai := (if INIReader_has_section r ''rhai''
                   then snd (RHAISettings_read r (rhai self)) else rhai self),
       transition := (if INIReader_has_section r ''transition''
                   then snd (TransitionSettings_read r (transition self)) else transition self),
       vlan_networking := (if INIReader_has_section r ''vlan_networking''
                   then snd (VlanNetworkSettings_read r (vlan_networking self)) else vlan_networking self)\<rparr>"
    unfolding s2_def by simp
  show "x_configured st = x_configured self" "x_all_features st = x_all_features self"
    "reader st = Some r"
    unfolding flat by (simp_all add: F)
  show "server st = snd (ServerSettings_read r (server self))"
    unfolding flat by simp
  show "clients st =
       (if INIReader_has_section r ''clients''
        then snd (ClientsSettings_read r (clients self)) else clients self)"
    unfolding flat by simp
  show "compute_resources st =
       (if INIReader_has_section r ''compute_resources''
        then snd (LibvirtHostSettings_read r (compute_resources self)) else compute_resources self)"
    unfolding flat by simp
  show "discovery st =
       (if INIReader_has_section r ''discovery''
        then snd (DiscoveryISOSettings_read r (discovery self)) else discovery self)"
    unfolding flat by simp
  show "docker st =
       (if INIReader_has_section r ''docker''
        then snd (DockerSettings_read r (docker self)) else docker self)"
    unfolding flat by simp
  show "fake_manifest st =
       (if INIReader_has_section r ''fake_manifest''
        then snd (FakeManifestSettings_read r (fake_manifest self)) else fake_manifest self)"
    unfolding flat by simp
  show "ldap st =
       (if INIReader_has_section r ''ldap''
        then snd (LDAPSettings_read r (ldap self)) else ldap self)"
    unfolding flat by simp
  show "oscap st =
       (if INIReader_has_section r ''oscap''
        then snd (OscapSettings_read r (oscap self)) else oscap self)"
    unfolding flat by simp
  show "performance st =
       (if INIReader_has_section r ''performance''
        then snd (PerformanceSettings_read r (performance self)) else performance self)"
    unfolding flat by simp
  show "rhai st =
       (if INIReader_has_section r ''rhai''
        then snd (RHAISettings_read r (rhai self)) else rhai self)"
    unfolding flat by simp
  show "transition st =
       (if INIReader_has_section r ''transition''
        then snd (TransitionSettings_read r (transition self)) else transition self)"
    unfolding flat by simp
  show "vlan_networking st =
       (if INIReader_has_section r ''vlan_networking''
        then snd (VlanNetworkSettings_read r (vlan_networking self)) else vlan_networking self)"
    unfolding flat by simp
  show "x_validation_errors st =
       x_validation_errors self
       @ Settings_validate_robottelo_settings st
       @ ServerSettings_validate (server st)
       @ (if INIReader_has_section r ''clients'' then ClientsSettings_validate (clients st) else [])
       @ (if INIReader_has_section r ''compute_resources'' then LibvirtHostSettings_validate (compute_resources st) else [])
       @ (if INIReader_has_section r ''discovery'' then DiscoveryISOSettings_validate (discovery st) else [])
       @ (if INIReader_has_section r ''docker'' then DockerSettings_validate (docker st) else [])
       @ (if INIReader_has_section r ''fake_manifest'' then FakeManifestSettings_validate (fake_manifest st) else [])
       @ (if INIReader_has_section r ''ldap'' then LDAPSettings_validate (ldap st) else [])
       @ (if INIReader_has_section r ''oscap'' then OscapSettings_validate (oscap st) else [])
       @ (if INIReader_has_section r ''performance'' then PerformanceSettings_validate (performance st) else [])
       @ (if INIReader_has_section r ''rhai'' then RHAISettings_validate (rhai st) else [])
       @ (if INIReader_has_section r ''transition'' then TransitionSettings_validate (transition st) else [])
       @ (if INIReader_has_section r ''vlan_networking'' then VlanNetworkSettings_validate (vlan_networking st) else [])"
    unfolding flat by (simp add: V split del: if_split cong: if_cong)
qed
lemma configure_read_preserves_configured:
  "x_configured (snd (Settings_configure_read e p self)) = x_configured self"
  unfolding Settings_configure_read_def
  by (rule block_preserves)
     (auto simp: read_robottelo_preserves[where f = x_configured, simplified]
        if_has_section_def read_and_validate_def feature_read_def on_attr_def
        extend_validation_errors_def
        split: sum.splits option.splits prod.splits)

lemma configure_read_raises:
  assumes "\<not> Settings_configured self"
    and "isfile e (configure_settings_path e)"
    and "fst (Settings_configure_read e (configure_settings_path e) self) = Some ex"
  shows "Settings_configure e (self, w) =
         (Some ex, (snd (Settings_configure_read e (configure_settings_path e) self), w))"
  using assms(3)
  by (cases "Settings_configure_read e (configure_settings_path e) self")
     (simp add: configure_cases[OF assms(1,2)])

lemma configure_read_no_reader:
  "INIReader_init e p = Inl ex \<Longrightarrow> Settings_configure_read e p self = (Some ex, self)"
  by (simp add: Settings_configure_read_def)

lemma configure_read_extends:
  "\<exists>new. x_validation_errors (snd (Settings_configure_read e p self)) =
     x_validation_errors self @ new"
  unfolding Settings_configure_read_def
  by (rule block_extends)
     (auto simp: read_robottelo_preserves[where f = x_validation_errors, simplified]
        if_has_section_def read_and_validate_def feature_read_def on_attr_def
        extend_validation_errors_def
        split: sum.splits option.splits prod.splits)

lemma configure_read_absent_clients:
  assumes "\<forall>rd. INIReader_init e p = Inr rd \<longrightarrow> \<not> INIReader_has_section rd ''clients''"
  shows "clients (snd (Settings_configure_read e p self)) = clients self"
proof (cases "INIReader_init e p")
  case (Inl ex)
  then show ?thesis by (simp add: configure_read_no_reader)
next
  case (Inr r)
  with assms have no: "\<not> INIReader_has_section r ''clients''" by simp
  show ?thesis
    unfolding Settings_configure_read_def
    apply (rule block_preserves_after_first[where I = "\<lambda>s. reader s = Some r"
          and ?s1.0 = "self\<lparr>reader := Some r\<rparr>"])
       apply (simp add: Inr)
      apply simp
     apply simp
    using no
    apply (auto simp: read_robottelo_preserves[where f = reader, simplified]
        read_robottelo_preserves[where f = clients, simplified]
        if_has_section_def read_and_validate_def feature_read_def on_attr_def
        extend_validation_errors_def
        split: sum.splits option.splits prod.splits)
    done
qed

lemma configure_read_absent_compute_resources:
  assumes "\<forall>rd. INIReader_init e p = Inr rd \<longrightarrow> \<not> INIReader_has_section rd ''compute_resources''"
  shows "compute_resources (snd (Settings_configure_read e p self)) = compute_resources self"
proof (cases "INIReader_init e p")
  case (Inl ex)
  then show ?thesis by (simp add: configure_read_no_reader)
next
  case (Inr r)
  with assms have no: "\<not> INIReader_has_section r ''compute_resources''" by simp
  show ?thesis
    unfolding Settings_configure_read_def
    apply (rule block_preserves_after_first[where I = "\<lambda>s. reader s = Some r"
          and ?s1.0 = "self\<lparr>reader := Some r\<rparr>"])
       apply (simp add: Inr)
      apply simp
     apply simp
    using no
    apply (auto simp: read_robottelo_preserves[where f = reader, simplified]
        read_robottelo_preserves[where f = compute_resources, simplified]
        if_has_section_def read_and_validate_def feature_read_def on_attr_def
        extend_validation_errors_def
        split: sum.splits option.splits prod.splits)
    done
qed

lemma configure_read_absent_discovery:
  assumes "\<forall>rd. INIReader_init e p = Inr rd \<longrightarrow> \<not> INIReader_has_section rd ''discovery''"
  shows "discovery (snd (Settings_configure_read e p self)) = discovery self"
proof (cases "INIReader_init e p")
  case (Inl ex)
  then show ?thesis by (simp add: configure_read_no_reader)
next
  case (Inr r)
  with assms have no: "\<not> INIReader_has_section r ''discovery''" by simp
  show ?thesis
    unfolding Settings_configure_read_def
    apply (rule block_preserves_after_first[where I = "\<lambda>s. reader s = Some r"
          and ?s1.0 = "self\<lparr>reader := Some r\<rparr>"])
       apply (simp add: Inr)
      apply simp
     apply simp
    using no
    apply (auto simp: read_robottelo_preserves[where f = reader, simplified]
        read_robottelo_preserves[where f = discovery, simplified]
        if_has_section_def read_and_validate_def feature_read_def on_attr_def
        extend_validation_errors_def
        split: sum.splits option.splits prod.splits)
    done
qed

lemma configure_read_absent_docker:
  assumes "\<forall>rd. INIReader_init e p = Inr rd \<longrightarrow> \<not> INIReader_has_section rd ''docker''"
  shows "docker (snd (Settings_configure_read e p self)) = docker self"
proof (cases "INIReader_init e p")
  case (Inl ex)
  then show ?thesis by (simp add: configure_read_no_reader)
next
  case (Inr r)
  with assms have no: "\<not> INIReader_has_section r ''docker''" by simp
  show ?thesis
    unfolding Settings_configure_read_def
    apply (rule block_preserves_after_first[where I = "\<lambda>s. reader s = Some r"
          and ?s1.0 = "self\<lparr>reader := Some r\<rparr>"])
       apply (simp add: Inr)
      apply simp
     apply simp
    using no
    apply (auto simp: read_robottelo_preserves[where f = reader, simplified]
        read_robottelo_preserves[where f = docker, simplified]
        if_has_section_def read_and_validate_def feature_read_def on_attr_def
        extend_validation_errors_def
        split: sum.splits option.splits prod.splits)
    done
qed

lemma configure_read_absent_fake_manifest:
  assumes "\<forall>rd. INIReader_init e p = Inr rd \<longrightarrow> \<not> INIReader_has_section rd ''fake_manifest''"
  shows "fake_manifest (snd (Settings_configure_read e p self)) = fake_manifest self"
proof (cases "INIReader_init e p")
  case (Inl ex)
  then show ?thesis by (simp add: configure_read_no_reader)
next
  case (Inr r)
  with assms have no: "\<not> INIReader_has_section r ''fake_manifest''" by simp
  show ?thesis
    unfolding Settings_configure_read_def
    apply (rule block_preserves_after_first[where I = "\<lambda>s. reader s = Some r"
          and ?s1.0 = "self\<lparr>reader := Some r\<rparr>"])
       apply (simp add: Inr)
      apply simp
     apply simp
    using no
    apply (auto simp: read_robottelo_preserves[where f = reader, simplified]
        read_robottelo_preserves[where f = fake_manifest, simplified]
        if_has_section_def read_and_validate_def feature_read_def on_attr_def
        extend_validation_errors_def
        split: sum.splits option.splits prod.splits)
    done
qed

lemma configure_read_absent_ldap:
  assumes "\<forall>rd. INIReader_init e p = Inr rd \<longrightarrow> \<not> INIReader_has_section rd ''ldap''"
  shows "ldap (snd (Settings_configure_read e p self)) = ldap self"
proof (cases "INIReader_init e p")
  case (Inl ex)
  then show ?thesis by (simp add: configure_read_no_reader)
next
  case (Inr r)
  with assms have no: "\<not> INIReader_has_section r ''ldap''" by simp
  show ?thesis
    unfolding Settings_configure_read_def
    apply (rule block_preserves_after_first[where I = "\<lambda>s. reader s = Some r"
          and ?s1.0 = "self\<lparr>reader := Some r\<rparr>"])
       apply (simp add: Inr)
      apply simp
     apply simp
    using no
    apply (auto simp: read_robottelo_preserves[where f = reader, simplified]
        read_robottelo_preserves[where f = ldap, simplified]
        if_has_section_def read_and_validate_def feature_read_def on_attr_def
        extend_validation_errors_def
        split: sum.splits option.splits prod.splits)
    done
qed

lemma configure_read_absent_oscap:
  assumes "\<forall>rd. INIReader_init e p = Inr rd \<longrightarrow> \<not> INIReader_has_section rd ''oscap''"
  shows "oscap (snd (Settings_configure_read e p self)) = oscap self"
proof (cases "INIReader_init e p")
  case (Inl ex)
  then show ?thesis by (simp add: configure_read_no_reader)
next
  case (Inr r)
  with assms have no: "\<not> INIReader_has_section r ''oscap''" by simp
  show ?thesis
    unfolding Settings_configure_read_def
    apply (rule block_preserves_after_first[where I = "\<lambda>s. reader s = Some r"
          and ?s1.0 = "self\<lparr>reader := Some r\<rparr>"])
       apply (simp add: Inr)
      apply simp
     apply simp
    using no
    apply (auto simp: read_robottelo_preserves[where f = reader, simplified]
        read_robottelo_preserves[where f = oscap, simplified]
        if_has_section_def read_and_validate_def feature_read_def on_attr_def
        extend_validation_errors_def
        split: sum.splits option.splits prod.splits)
    done
qed

lemma configure_read_absent_performance:
  assumes "\<forall>rd. INIReader_init e p = Inr rd \<longrightarrow> \<not> INIReader_has_section rd ''performance''"
  shows "performance (snd (Settings_configure_read e p self)) = performance self"
proof (cases "INIReader_init e p")
  case (Inl ex)
  then show ?thesis by (simp add: configure_read_no_reader)
next
  case (Inr r)
  with assms have no: "\<not> INIReader_has_section r ''performance''" by simp
  show ?thesis
    unfolding Settings_configure_read_def
    apply (rule block_preserves_after_first[where I = "\<lambda>s. reader s = Some r"
          and ?s1.0 = "self\<lparr>reader := Some r\<rparr>"])
       apply (simp add: Inr)
      apply simp
     apply simp
    using no
    apply (auto simp: read_robottelo_preserves[where f = reader, simplified]
        read_robottelo_preserves[where f = performance, simplified]
        if_has_section_def read_and_validate_def feature_read_def on_attr_def
        extend_validation_errors_def
        split: sum.splits option.splits prod.splits)
    done
qed

lemma configure_read_absent_rhai:
  assumes "\<forall>rd. INIReader_init e p = Inr rd \<longrightarrow> \<not> INIReader_has_section rd ''rhai''"
  shows "rhai (snd (Settings_configure_read e p self)) = rhai self"
proof (cases "INIReader_init e p")
  case (Inl ex)
  then show ?thesis by (simp add: configure_read_no_reader)
next
  case (Inr r)
  with assms have no: "\<not> INIReader_has_section r ''rhai''" by simp
  show ?thesis
    unfolding Settings_configure_read_def
    apply (rule block_preserves_after_first[where I = "\<lambda>s. reader s = Some r"
          and ?s1.0 = "self\<lparr>reader := Some r\<rparr>"])
       apply (simp add: Inr)
      apply simp
     apply simp
    using no
    apply (auto simp: read_robottelo_preserves[where f = reader, simplified]
        read_robottelo_preserves[where f = rhai, simplified]
        if_has_section_def read_and_validate_def feature_read_def on_attr_def
        extend_validation_errors_def
        split: sum.splits option.splits prod.splits)
    done
qed

lemma configure_read_absent_transition:
  assumes "\<forall>rd. INIReader_init e p = Inr rd \<longrightarrow> \<not> INIReader_has_section rd ''transition''"
  shows "transition (snd (Settings_configure_read e p self)) = transition self"
proof (cases "INIReader_init e p")
  case (Inl ex)
  then show ?thesis by (simp add: configure_read_no_reader)
next
  case (Inr r)
  with assms have no: "\<not> INIReader_has_section r ''transition''" by simp
  show ?thesis
    unfolding Settings_configure_read_def
    apply (rule block_preserves_after_first[where I = "\<lambda>s. reader s = Some r"
          and ?s1.0 = "self\<lparr>reader := Some r\<rparr>"])
       apply (simp add: Inr)
      apply simp
     apply simp
    using no
    apply (auto simp: read_robottelo_preserves[where f = reader, simplified]
        read_robottelo_preserves[where f = transition, simplified]
        if_has_section_def read_and_validate_def feature_read_def on_attr_def
        extend_validation_errors_def
        split: sum.splits option.splits prod.splits)
    done
qed

lemma configure_read_absent_vlan_networking:
  assumes "\<forall>rd. INIReader_init e p = Inr rd \<longrightarrow> \<not> INIReader_has_section rd ''vlan_networking''"
  shows "vlan_networking (snd (Settings_configure_read e p self)) = vlan_networking self"
proof (cases "INIReader_init e p")
  case (Inl ex)
  then show ?thesis by (simp add: configure_read_no_reader)
next
  case (Inr r)
  with assms have no: "\<not> INIReader_has_section r ''vlan_networking''" by simp
  show ?thesis
    unfolding Settings_configure_read_def
    apply (rule block_preserves_after_first[where I = "\<lambda>s. reader s = Some r"
          and ?s1.0 = "self\<lparr>reader := Some r\<rparr>"])
       apply (simp add: Inr)
      apply simp
     apply simp
    using no
    apply (auto simp: read_robottelo_preserves[where f = reader, simplified]
        read_robottelo_preserves[where f = vlan_networking, simplified]
        if_has_section_def read_and_validate_def feature_read_def on_attr_def
        extend_validation_errors_def
        split: sum.splits option.splits prod.splits)
    done
qed

lemma configure_instance_cases:
  "fst (snd (Settings_configure e (self, w))) = self
   \<or> fst (snd (Settings_configure e (self, w))) =
       snd (Settings_configure_read e (configure_settings_path e) self)
   \<or> fst (snd (Settings_configure e (self, w))) =
       (snd (Settings_configure_read e (configure_settings_path e) self))\<lparr>x_configured := True\<rparr>"
proof (cases "\<not> Settings_configured self \<and> isfile e (configure_settings_path e)")
  case False
  then have "Settings_configure e (self, w) = (None, (self, w))
      \<or> Settings_configure e (self, w) =
          (Some (ImproperlyConfigured
             (''Not able to find settings file at '' @ configure_settings_path e)), (self, w))"
    by (auto simp: Settings_configure_def configure_settings_path_def Let_def)
  then show ?thesis by auto
next
  case True
  then have 1: "\<not> Settings_configured self" and 2: "isfile e (configure_settings_path e)"
    by simp_all
  obtain r s1 where R: "Settings_configure_read e (configure_settings_path e) self = (r, s1)"
    by (cases "Settings_configure_read e (configure_settings_path e) self")
  show ?thesis
  proof (cases r)
    case (Some ex)
    then show ?thesis using R by (simp add: configure_cases[OF 1 2])
  next
    case None
    then show ?thesis
      using R configure_finish_instance[of e s1 w] by (simp add: configure_cases[OF 1 2])
  qed
qed

lemma configure_group_untouched:
  assumes "G (snd (Settings_configure_read e (configure_settings_path e) self)) = G self"
    and "\<And>s. G (s\<lparr>x_configured := True\<rparr>) = G s"
  shows "G (fst (snd (Settings_configure e (self, w)))) = G self"
  using configure_instance_cases[of e self w] assms by auto

lemma configure_after_errors:
  assumes "\<not> Settings_configured self"
    and "x_validation_errors self \<noteq> []"
  shows "fst (Settings_configure e (self, w)) \<noteq> None"
    and "\<not> Settings_configured (fst (snd (Settings_configure e (self, w))))"
    and "\<exists>new. x_validation_errors (fst (snd (Settings_configure e (self, w)))) =
           x_validation_errors self @ new"
    and "snd (snd (Settings_configure e (self, w))) = w"
proof -
  have "fst (Settings_configure e (self, w)) \<noteq> None
      \<and> \<not> Settings_configured (fst (snd (Settings_configure e (self, w))))
      \<and> (\<exists>new. x_validation_errors (fst (snd (Settings_configure e (self, w)))) =
           x_validation_errors self @ new)
      \<and> snd (snd (Settings_configure e (self, w))) = w"
  proof (cases "isfile e (configure_settings_path e)")
    case False
    then have "Settings_configure e (self, w) =
          (Some (ImproperlyConfigured
             (''Not able to find settings file at '' @ configure_settings_path e)), (self, w))"
      using assms(1) by (simp add: Settings_configure_def configure_settings_path_def)
    then show ?thesis using assms(1) by simp
  next
    case True
    obtain r s1 where R: "Settings_configure_read e (configure_settings_path e) self = (r, s1)"
      by (cases "Settings_configure_read e (configure_settings_path e) self")
    obtain new where n: "x_validation_errors s1 = x_validation_errors self @ new"
      using configure_read_extends[of e "configure_settings_path e" self] R by auto
    have c: "\<not> Settings_configured s1"
      using configure_read_preserves_configured[of e "configure_settings_path e" self] R assms(1)
      by (simp add: Settings_configured_def)
    have ne: "x_validation_errors s1 \<noteq> []" using n assms(2) by simp
    show ?thesis
      using R n c ne by (cases r) (simp_all add: configure_cases[OF assms(1) True])
  qed
  then show "fst (Settings_configure e (self, w)) \<noteq> None"
    and "\<not> Settings_configured (fst (snd (Settings_configure e (self, w))))"
    and "\<exists>new. x_validation_errors (fst (snd (Settings_configure e (self, w)))) =
           x_validation_errors self @ new"
    and "snd (snd (Settings_configure e (self, w))) = w"
    by simp_all
qed

section \<open>Server and Docker settings\<close>

lemma str_int_8080: "str_int 8080 = ''8080''"
  by (simp add: str_int_def str_nat.simps digit_char_def)

lemma builtin_int_8080: "builtin_int ''8080'' = Inr (PyInt 8080)"
  by (simp add: builtin_int_def strip_def is_space_def is_digit_def digits_value_def)

text \<open>
  Claim C4. For every \<^verbatim>\<open>ServerSettings\<close> whose hostname is set (a string \<open>h\<close>) and whose
  scheme is unset, empty or a string: \<^verbatim>\<open>get_url()\<close> returns a URL that starts with the
  scheme \<^verbatim>\<open>https\<close> when the scheme field is unset or empty and with the configured scheme
  otherwise; its authority is the hostname, followed by \<^verbatim>\<open>:port\<close> exactly when the port is
  set and true. The scheme part does not depend on the port. With hostname \<^verbatim>\<open>h\<close>, port
  \<^verbatim>\<open>8080\<close> and no scheme the result is \<^verbatim>\<open>https://h:8080\<close>. (The \<^verbatim>\<open>//\<close> is left out by
  \<^verbatim>\<open>urlunsplit\<close> only when the authority is empty and the scheme is not one that takes an
  authority.)
\<close>

theorem get_url_scheme_and_port:
  assumes "hostname self = PyStr h"
    and "truthy (scheme self) \<longrightarrow> is_str (scheme self)"
  shows "ServerSettings_get_url self =
           Inr ((if truthy (scheme self) then str_of (scheme self) else ''https'') @ '':'' @
                (if h @ (if truthy (port self) then '':'' @ py_str (port self) else []) \<noteq> [] \<or>
                    (if truthy (scheme self) then str_of (scheme self) else ''https'')
                      \<in> set uses_netloc
                 then ''//'' @ h @ (if truthy (port self) then '':'' @ py_str (port self) else [])
                 else []))
         \<and> ServerSettings_get_url
             (ServerSettings_init\<lparr>hostname := PyStr ''h'', port := PyInt 8080\<rparr>)
             = Inr ''https://h:8080''"
proof -
  have "ServerSettings_get_url
          (ServerSettings_init\<lparr>hostname := PyStr ''h'', port := PyInt 8080\<rparr>)
        = Inr ''https://h:8080''"
    by (simp add: ServerSettings_get_url_def ServerSettings_init_def urlunsplit_def is_str_def
        str_of_def py_str_def str_int_8080 uses_netloc_def)
  moreover have "ServerSettings_get_url self =
           Inr ((if truthy (scheme self) then str_of (scheme self) else ''https'') @ '':'' @
                (if h @ (if truthy (port self) then '':'' @ py_str (port self) else []) \<noteq> [] \<or>
                    (if truthy (scheme self) then str_of (scheme self) else ''https'')
                      \<in> set uses_netloc
                 then ''//'' @ h @ (if truthy (port self) then '':'' @ py_str (port self) else [])
                 else []))"
  proof (cases "truthy (scheme self)")
    case True
    with assms(2) obtain sch where sch: "scheme self = PyStr sch" "sch \<noteq> []"
      by (cases "scheme self") (auto simp: is_str_def)
    show ?thesis
      using assms(1) sch
      by (auto simp: ServerSettings_get_url_def urlunsplit_def is_str_def str_of_def py_str_def
          Let_def)
  next
    case False
    have https: "''https'' \<in> set uses_netloc" by (simp add: uses_netloc_def)
    show ?thesis
      using assms(1) False https
      by (auto simp: ServerSettings_get_url_def urlunsplit_def is_str_def str_of_def py_str_def
          Let_def)
  qed
  ultimately show ?thesis by simp
qed

theorem get_url_scheme_and_port_witness:
  "hostname (snd (ServerSettings_read
       (example_reader [''server'' \<mapsto> [''hostname'' \<mapsto> ''h'', ''port'' \<mapsto> ''8080'']])
       ServerSettings_init)) = PyStr ''h''
   \<and> ServerSettings_get_url (snd (ServerSettings_read
       (example_reader [''server'' \<mapsto> [''hostname'' \<mapsto> ''h'', ''port'' \<mapsto> ''8080'']])
       ServerSettings_init)) = Inr ''https://h:8080''"
proof -
  let ?s = "snd (ServerSettings_read
       (example_reader [''server'' \<mapsto> [''hostname'' \<mapsto> ''h'', ''port'' \<mapsto> ''8080'']])
       ServerSettings_init)"
  have s: "?s = \<lparr>admin_password = PyStr ''changeme'', admin_username = PyStr ''admin'',
      hostname = PyStr ''h'', port = PyInt 8080, scheme = PyStr ''https'', ssh_key = PyNone,
      ssh_password = PyNone, ssh_username = PyStr ''root''\<rparr>"
    by (simp add: ServerSettings_read_def ServerSettings_init_def assign_def INIReader_get_def
        parser_of_def example_reader_def builtin_int_8080)
  have h: "hostname ?s = PyStr ''h''" unfolding s by simp
  have sch: "truthy (scheme ?s) \<longrightarrow> is_str (scheme ?s)" unfolding s by (simp add: is_str_def)
  have https: "''https'' \<in> set uses_netloc" by (simp add: uses_netloc_def)
  have "ServerSettings_get_url ?s = Inr ''https://h:8080''"
    using get_url_scheme_and_port[OF h sch, THEN conjunct1] https unfolding s
    by (simp add: str_of_def py_str_def str_int_8080)
  with h show ?thesis by (rule conjI)
qed

text \<open>
  Claim C7. For every \<^verbatim>\<open>DockerSettings\<close>, hence for one that has been read:
  \<^verbatim>\<open>get_unix_socket_url()\<close> is a function of the field \<^verbatim>\<open>unix_socket\<close> alone and returns the
  fixed string \<^verbatim>\<open>unix:///var/run/docker.sock\<close> when the field is true and \<^verbatim>\<open>None\<close>
  otherwise; \<^verbatim>\<open>validate()\<close> returns a non-empty error list if and only if neither
  \<^verbatim>\<open>unix_socket\<close> nor \<^verbatim>\<open>external_url\<close> is true.
\<close>

theorem docker_unix_socket_url_and_validate:
  "DockerSettings_get_unix_socket_url self =
     (if truthy (unix_socket self) then PyStr ''unix:///var/run/docker.sock'' else PyNone)
   \<and> DockerSettings_get_unix_socket_url (self\<lparr>unix_socket := PyBool b\<rparr>) =
     (if b then PyStr ''unix:///var/run/docker.sock'' else PyNone)
   \<and> (DockerSettings_validate self \<noteq> [] \<longleftrightarrow>
        \<not> truthy (unix_socket self) \<and> \<not> truthy (external_url self))"
  by (simp add: DockerSettings_get_unix_socket_url_def DockerSettings_validate_def
      DockerSettings_vars_values_def)

theorem docker_unix_socket_url_and_validate_witness:
  "DockerSettings_get_unix_socket_url
     (snd (DockerSettings_read (example_reader [''docker'' \<mapsto> [''unix_socket'' \<mapsto> ''true'']])
        DockerSettings_init)) = PyStr ''unix:///var/run/docker.sock''
   \<and> DockerSettings_validate
     (snd (DockerSettings_read (example_reader [''docker'' \<mapsto> [''unix_socket'' \<mapsto> ''false'']])
        DockerSettings_init)) \<noteq> []"
proof -
  let ?t = "snd (DockerSettings_read
      (example_reader [''docker'' \<mapsto> [''unix_socket'' \<mapsto> ''true'']]) DockerSettings_init)"
  let ?f = "snd (DockerSettings_read
      (example_reader [''docker'' \<mapsto> [''unix_socket'' \<mapsto> ''false'']]) DockerSettings_init)"
  have t: "truthy (unix_socket ?t)"
    by (simp add: DockerSettings_read_def DockerSettings_init_def assign_def INIReader_get_def
        parser_of_def example_reader_def spec_casters_def Boolean_cast_def to_lower_def)
  have f: "\<not> truthy (unix_socket ?f) \<and> \<not> truthy (external_url ?f)"
    by (simp add: DockerSettings_read_def DockerSettings_init_def assign_def INIReader_get_def
        parser_of_def example_reader_def spec_casters_def Boolean_cast_def to_lower_def)
  from docker_unix_socket_url_and_validate[of ?t] t
  have "DockerSettings_get_unix_socket_url ?t = PyStr ''unix:///var/run/docker.sock''"
    by simp
  moreover from docker_unix_socket_url_and_validate[of ?f] f
  have "DockerSettings_validate ?f \<noteq> []" by blast
  ultimately show ?thesis by (rule conjI)
qed

section \<open>The settings aggregate\<close>

text \<open>
  Claim C9. On a freshly constructed \<^verbatim>\<open>Settings\<close> the property \<^verbatim>\<open>all_features\<close> returns
  the names of the twelve attributes that hold feature settings: \<^verbatim>\<open>server\<close> and the eleven
  optional groups. The first access stores the list in \<^verbatim>\<open>_all_features\<close>; once the list is
  stored, every access returns it as it is and leaves the instance unchanged.
\<close>

theorem all_features_twelve_and_cached:
  "fst (Settings_all_features Settings_init) =
     [''server'', ''clients'', ''compute_resources'', ''discovery'', ''docker'',
      ''fake_manifest'', ''ldap'', ''oscap'', ''performance'', ''rhai'', ''transition'',
      ''vlan_networking'']
   \<and> length (fst (Settings_all_features Settings_init)) = 12
   \<and> x_all_features (snd (Settings_all_features Settings_init)) =
       Some (fst (Settings_all_features Settings_init))
   \<and> (\<forall>self names. x_all_features self = Some names \<longrightarrow>
         Settings_all_features self = (names, self))"
proof -
  have names: "fst (Settings_all_features Settings_init) =
     [''server'', ''clients'', ''compute_resources'', ''discovery'', ''docker'',
      ''fake_manifest'', ''ldap'', ''oscap'', ''performance'', ''rhai'', ''transition'',
      ''vlan_networking'']"
    by (simp add: Settings_all_features_def Settings_init_def Settings_vars_items_def
        isinstance_FeatureSettings_def Let_def)
  have stored: "x_all_features (snd (Settings_all_features Settings_init)) =
       Some (fst (Settings_all_features Settings_init))"
    by (simp add: Settings_all_features_def Settings_init_def Let_def)
  have cached: "\<forall>self names. x_all_features self = Some names \<longrightarrow>
         Settings_all_features self = (names, self)"
    by (simp add: Settings_all_features_def)
  show ?thesis using names stored cached by simp
qed

theorem all_features_twelve_and_cached_witness:
  "Settings_all_features (snd (Settings_all_features Settings_init)) =
     ([''server'', ''clients'', ''compute_resources'', ''discovery'', ''docker'',
       ''fake_manifest'', ''ldap'', ''oscap'', ''performance'', ''rhai'', ''transition'',
       ''vlan_networking''],
      snd (Settings_all_features Settings_init))"
  using all_features_twelve_and_cached by metis


lemma configure_read_init:
  assumes "Settings_configure_read e p self = (None, st)"
  shows "\<exists>r. INIReader_init e p = Inr r"
  using assms unfolding Settings_configure_read_def
  by (cases "INIReader_init e p") simp_all

lemmas eval_defs = Settings_configure_def Settings_configured_def Settings_init_def
  example_env_def example_reader_def configure_settings_path_def get_project_root_def
  os_path_join_def SETTINGS_FILE_NAME_def on_self_def
  Settings_configure_read_def INIReader_init_def Settings_read_robottelo_settings_def
  assign_def INIReader_get_def parser_of_def spec_casters_def Boolean_cast_def
  LoggingLevel_cast_def to_lower_def extend_validation_errors_def
  Settings_validate_robottelo_settings_def browsers_def webdrivers_def
  read_and_validate_def feature_read_def on_attr_def if_has_section_def
  INIReader_has_section_def
  ServerSettings_read_def ServerSettings_validate_def ServerSettings_init_def
  ClientsSettings_read_def ClientsSettings_validate_def ClientsSettings_init_def
  DockerSettings_read_def DockerSettings_validate_def DockerSettings_init_def
  DockerSettings_vars_values_def LDAPSettings_init_def
  builtin_int_def strip_def is_space_def is_digit_def digits_value_def
  Settings_configure_logging_def Settings_configure_third_party_logging_def
  Settings_configure_entities_def perform_def Logger_setLevel_of_def checkLevel_def
  ServerSettings_get_url_def urlunsplit_def is_str_def str_of_def uses_netloc_def py_str_def
  ServerSettings_get_credentials_def DockerSettings_get_unix_socket_url_def
  validation_message_def Let_def

text \<open>
  Claim C2. On an instance whose configured flag is true, \<^verbatim>\<open>configure()\<close> returns at once:
  whatever the environment (the settings file is not looked for, nothing is read or
  validated), it raises nothing and leaves the instance and the world as they are.
\<close>

theorem configure_when_configured_is_noop:
  "Settings_configured self \<Longrightarrow> Settings_configure e (self, w) = (None, (self, w))"
  by (simp add: Settings_configure_def)

theorem configure_when_configured_is_noop_witness:
  "Settings_configured
     (fst (snd (Settings_configure (example_env minimal_source) (Settings_init, []))))
   \<and> Settings_configure (example_env empty_source)
         (snd (Settings_configure (example_env minimal_source) (Settings_init, []))) =
       (None, snd (Settings_configure (example_env minimal_source) (Settings_init, [])))"
proof -
  have c: "Settings_configured
     (fst (snd (Settings_configure (example_env minimal_source) (Settings_init, []))))"
    by (simp add: eval_defs minimal_source_def)
  from configure_when_configured_is_noop[OF c, of "example_env empty_source"
      "snd (snd (Settings_configure (example_env minimal_source) (Settings_init, [])))"]
  show ?thesis using c by simp
qed

text \<open>
  Claim C1. Suppose \<^verbatim>\<open>configure()\<close> runs on an instance that is not configured, finds the
  settings file, and completes the reading part (the global options, the server section
  and every optional section present in the source are read and validated without an
  exception), reaching the instance \<open>self1\<close>. If the list of validation errors accumulated
  in \<open>self1\<close> is not empty, then \<^verbatim>\<open>configure()\<close> raises \<^verbatim>\<open>ImproperlyConfigured\<close>; the message is
  the heading line followed by all the accumulated error strings, one per line; the
  configured flag is still false; and the world is unchanged, so none of the side
  effects (logging, entity library defaults, constructor patches) has been performed.
  The accumulated list consists of the errors the instance held before, then those of
  the global options, of the server settings, and of the optional groups whose section
  is present, in this order.
\<close>

theorem configure_raises_on_validation_errors:
  assumes "\<not> Settings_configured self"
    and "isfile e (configure_settings_path e)"
    and "INIReader_init e (configure_settings_path e) = Inr r"
    and "Settings_configure_read e (configure_settings_path e) self = (None, self1)"
    and "x_validation_errors self1 \<noteq> []"
  shows "Settings_configure e (self, w) =
           (Some (ImproperlyConfigured
              (''Failed to validate the configuration, check the message(s):'' @ [CHR 0x0A]
                 @ join [CHR 0x0A] (x_validation_errors self1))), (self1, w))
   \<and> \<not> Settings_configured self1
   \<and> x_validation_errors self1 =
         x_validation_errors self
         @ Settings_validate_robottelo_settings self1
         @ ServerSettings_validate (server self1)
         @ (if INIReader_has_section r ''clients'' then ClientsSettings_validate (clients self1) else [])
         @ (if INIReader_has_section r ''compute_resources'' then LibvirtHostSettings_validate (compute_resources self1) else [])
         @ (if INIReader_has_section r ''discovery'' then DiscoveryISOSettings_validate (discovery self1) else [])
         @ (if INIReader_has_section r ''docker'' then DockerSettings_validate (docker self1) else [])
         @ (if INIReader_has_section r ''fake_manifest'' then FakeManifestSettings_validate (fake_manifest self1) else [])
         @ (if INIReader_has_section r ''ldap'' then LDAPSettings_validate (ldap self1) else [])
         @ (if INIReader_has_section r ''oscap'' then OscapSettings_validate (oscap self1) else [])
         @ (if INIReader_has_section r ''performance'' then PerformanceSettings_validate (performance self1) else [])
         @ (if INIReader_has_section r ''rhai'' then RHAISettings_validate (rhai self1) else [])
         @ (if INIReader_has_section r ''transition'' then TransitionSettings_validate (transition self1) else [])
         @ (if INIReader_has_section r ''vlan_networking'' then VlanNetworkSettings_validate (vlan_networking self1) else [])"
proof -
  have "Settings_configure e (self, w) =
           (Some (ImproperlyConfigured
              (''Failed to validate the configuration, check the message(s):'' @ [CHR 0x0A]
                 @ join [CHR 0x0A] (x_validation_errors self1))), (self1, w))"
    using assms(4,5) by (simp add: configure_cases[OF assms(1,2)] validation_message_def)
  moreover have "\<not> Settings_configured self1"
    using configure_read_result(1)[OF assms(3,4)] assms(1) by (simp add: Settings_configured_def)
  moreover note configure_read_result(16)[OF assms(3,4)]
  ultimately show ?thesis by (intro conjI)
qed

theorem configure_raises_on_validation_errors_witness:
  "Settings_configure (example_env empty_source) (Settings_init, []) =
     (Some (ImproperlyConfigured
        (''Failed to validate the configuration, check the message(s):'' @ [CHR 0x0A]
          @ ''[server] hostname must be provided.'' @ [CHR 0x0A]
          @ ''[server] ssh_key or ssh_password must be provided.'')),
      (snd (Settings_configure_read (example_env empty_source)
              (configure_settings_path (example_env empty_source)) Settings_init), []))"
proof -
  let ?e = "example_env empty_source"
  let ?R = "Settings_configure_read ?e (configure_settings_path ?e) Settings_init"
  have 1: "\<not> Settings_configured Settings_init"
    by (simp add: Settings_configured_def Settings_init_def)
  have 2: "isfile ?e (configure_settings_path ?e)" by (simp add: eval_defs)
  have 3: "INIReader_init ?e (configure_settings_path ?e) = Inr (example_reader empty_source)"
    by (simp add: eval_defs)
  have "fst ?R = None" by (simp add: eval_defs empty_source_def)
  then have 4: "?R = (None, snd ?R)" by (metis prod.collapse)
  have errs: "x_validation_errors (snd ?R) =
      [''[server] hostname must be provided.'',
       ''[server] ssh_key or ssh_password must be provided.'']"
    by (simp add: eval_defs empty_source_def)
  then have 5: "x_validation_errors (snd ?R) \<noteq> []" by simp
  from configure_raises_on_validation_errors[OF 1 2 3 4 5, of "[]", THEN conjunct1]
  show ?thesis unfolding errs by simp
qed

text \<open>
  Claim C3, as stated, fails for a run that an exception aborts while reading. With
  \<^verbatim>\<open>[server] port=80a\<close> and a \<^verbatim>\<open>[docker]\<close> section with \<^verbatim>\<open>unix_socket=true\<close>, reading the
  server settings raises \<^verbatim>\<open>ValueError\<close> and \<^verbatim>\<open>configure()\<close> raises it: the docker group is
  neither read nor validated although its section is present (its \<^verbatim>\<open>unix_socket\<close> is still
  the \<^verbatim>\<open>None\<close> of \<^verbatim>\<open>__init__\<close>, where reading it gives \<^verbatim>\<open>True\<close>), and the server settings are
  not validated (no error is recorded, although the server settings as they were left
  have neither \<^verbatim>\<open>ssh_key\<close> nor \<^verbatim>\<open>ssh_password\<close>).
\<close>

theorem aborted_run_skips_present_group_counterexample:
  "INIReader_init (example_env bad_port_docker_source)
       (configure_settings_path (example_env bad_port_docker_source)) =
     Inr (example_reader bad_port_docker_source)
   \<and> INIReader_has_section (example_reader bad_port_docker_source) ''docker''
   \<and> unix_socket (snd (DockerSettings_read (example_reader bad_port_docker_source)
        (docker Settings_init))) = PyBool True
   \<and> fst (Settings_configure (example_env bad_port_docker_source) (Settings_init, [])) =
       Some ValueError
   \<and> docker (fst (snd (Settings_configure (example_env bad_port_docker_source)
        (Settings_init, [])))) = DockerSettings_init
   \<and> unix_socket (docker (fst (snd (Settings_configure (example_env bad_port_docker_source)
        (Settings_init, []))))) = PyNone
   \<and> ServerSettings_validate (server (fst (snd (Settings_configure
        (example_env bad_port_docker_source) (Settings_init, []))))) =
       [''[server] ssh_key or ssh_password must be provided.'']
   \<and> x_validation_errors (fst (snd (Settings_configure (example_env bad_port_docker_source)
        (Settings_init, [])))) = []"
  by (simp add: eval_defs bad_port_docker_source_def)

text \<open>
  Claim C3, amended. Let \<open>self'\<close> be the instance that \<^verbatim>\<open>configure()\<close> leaves behind. When
  \<^verbatim>\<open>configure()\<close> runs on an instance that is not configured, finds the settings file,
  builds the reader \<open>r\<close> from it and completes the reading part without an exception: the
  server settings of \<open>self'\<close> are those read from the source, whether or not the source has
  a server section; each of the eleven optional groups is the group read from the
  source if its section is present and is untouched otherwise (on a fresh instance: it
  still has the values given by \<^verbatim>\<open>__init__\<close>); and the validation errors added are those of
  the global options, of the server settings, and of exactly the optional groups whose
  section is present. And in every run of \<^verbatim>\<open>configure()\<close>, whether it completes, raises or
  returns at once: an optional group whose section is absent from the source is
  untouched.
\<close>

theorem configure_reads_server_and_present_groups:
  assumes "self' = fst (snd (Settings_configure e (self, w)))"
  shows "(\<not> Settings_configured self \<and> isfile e (configure_settings_path e) \<and>
    INIReader_init e (configure_settings_path e) = Inr r \<and>
    fst (Settings_configure_read e (configure_settings_path e) self) = None \<longrightarrow>
      server self' = snd (ServerSettings_read r (server self))
      \<and> clients self' =
          (if INIReader_has_section r ''clients''
           then snd (ClientsSettings_read r (clients self)) else clients self)
      \<and> compute_resources self' =
          (if INIReader_has_section r ''compute_resources''
           then snd (LibvirtHostSettings_read r (compute_resources self)) else compute_resources self)
      \<and> discovery self' =
          (if INIReader_has_section r ''discovery''
           then snd (DiscoveryISOSettings_read r (discovery self)) else discovery self)
      \<and> docker self' =
          (if INIReader_has_section r ''docker''
           then snd (DockerSettings_read r (docker self)) else docker self)
      \<and> fake_manifest self' =
          (if INIReader_has_section r ''fake_manifest''
           then snd (FakeManifestSettings_read r (fake_manifest self)) else fake_manifest self)
      \<and> ldap self' =
          (if INIReader_has_section r ''ldap''
           then snd (LDAPSettings_read r (ldap self)) else ldap self)
      \<and> oscap self' =
          (if INIReader_has_section r ''oscap''
           then snd (OscapSettings_read r (oscap self)) else oscap self)
      \<and> performance self' =
          (if INIReader_has_section r ''performance''
           then snd (PerformanceSettings_read r (performance self)) else performance self)
      \<and> rhai self' =
          (if INIReader_has_section r ''rhai''
           then snd (RHAISettings_read r (rhai self)) else rhai self)
      \<and> transition self' =
          (if INIReader_has_section r ''transition''
           then snd (TransitionSettings_read r (transition self)) else transition self)
      \<and> vlan_networking self' =
          (if INIReader_has_section r ''vlan_networking''
           then snd (VlanNetworkSettings_read r (vlan_networking self)) else vlan_networking self)
      \<and> x_validation_errors self' =
          x_validation_errors self
          @ Settings_validate_robottelo_settings self'
          @ ServerSettings_validate (server self')
          @ (if INIReader_has_section r ''clients'' then ClientsSettings_validate (clients self') else [])
          @ (if INIReader_has_section r ''compute_resources'' then LibvirtHostSettings_validate (compute_resources self') else [])
          @ (if INIReader_has_section r ''discovery'' then DiscoveryISOSettings_validate (discovery self') else [])
          @ (if INIReader_has_section r ''docker'' then DockerSettings_validate (docker self') else [])
          @ (if INIReader_has_section r ''fake_manifest'' then FakeManifestSettings_validate (fake_manifest self') else [])
          @ (if INIReader_has_section r ''ldap'' then LDAPSettings_validate (ldap self') else [])
          @ (if INIReader_has_section r ''oscap'' then OscapSettings_validate (oscap self') else [])
          @ (if INIReader_has_section r ''performance'' then PerformanceSettings_validate (performance self') else [])
          @ (if INIReader_has_section r ''rhai'' then RHAISettings_validate (rhai self') else [])
          @ (if INIReader_has_section r ''transition'' then TransitionSettings_validate (transition self') else [])
          @ (if INIReader_has_section r ''vlan_networking'' then VlanNetworkSettings_validate (vlan_networking self') else []))
   \<and> ((\<forall>rd. INIReader_init e (configure_settings_path e) = Inr rd \<longrightarrow>
            \<not> INIReader_has_section rd ''clients'') \<longrightarrow> clients self' = clients self)
   \<and> ((\<forall>rd. INIReader_init e (configure_settings_path e) = Inr rd \<longrightarrow>
            \<not> INIReader_has_section rd ''compute_resources'') \<longrightarrow> compute_resources self' = compute_resources self)
   \<and> ((\<forall>rd. INIReader_init e (configure_settings_path e) = Inr rd \<longrightarrow>
            \<not> INIReader_has_section rd ''discovery'') \<longrightarrow> discovery self' = discovery self)
   \<and> ((\<forall>rd. INIReader_init e (configure_settings_path e) = Inr rd \<longrightarrow>
            \<not> INIReader_has_section rd ''docker'') \<longrightarrow> docker self' = docker self)
   \<and> ((\<forall>rd. INIReader_init e (configure_settings_path e) = Inr rd \<longrightarrow>
            \<not> INIReader_has_section rd ''fake_manifest'') \<longrightarrow> fake_manifest self' = fake_manifest self)
   \<and> ((\<forall>rd. INIReader_init e (configure_settings_path e) = Inr rd \<longrightarrow>
            \<not> INIReader_has_section rd ''ldap'') \<longrightarrow> ldap self' = ldap self)
   \<and> ((\<forall>rd. INIReader_init e (configure_settings_path e) = Inr rd \<longrightarrow>
            \<not> INIReader_has_section rd ''oscap'') \<longrightarrow> oscap self' = oscap self)
   \<and> ((\<forall>rd. INIReader_init e (configure_settings_path e) = Inr rd \<longrightarrow>
            \<not> INIReader_has_section rd ''performance'') \<longrightarrow> performance self' = performance self)
   \<and> ((\<forall>rd. INIReader_init e (configure_settings_path e) = Inr rd \<longrightarrow>
            \<not> INIReader_has_section rd ''rhai'') \<longrightarrow> rhai self' = rhai self)
   \<and> ((\<forall>rd. INIReader_init e (configure_settings_path e) = Inr rd \<longrightarrow>
            \<not> INIReader_has_section rd ''transition'') \<longrightarrow> transition self' = transition self)
   \<and> ((\<forall>rd. INIReader_init e (configure_settings_path e) = Inr rd \<longrightarrow>
            \<not> INIReader_has_section rd ''vlan_networking'') \<longrightarrow> vlan_networking self' = vlan_networking self)"
proof -
  have completed: "server self' = snd (ServerSettings_read r (server self))
      \<and> clients self' =
          (if INIReader_has_section r ''clients''
           then snd (ClientsSettings_read r (clients self)) else clients self)
      \<and> compute_resources self' =
          (if INIReader_has_section r ''compute_resources''
           then snd (LibvirtHostSettings_read r (compute_resources self)) else compute_resources self)
      \<and> discovery self' =
          (if INIReader_has_section r ''discovery''
           then snd (DiscoveryISOSettings_read r (discovery self)) else discovery self)
      \<and> docker self' =
          (if INIReader_has_section r ''docker''
           then snd (DockerSettings_read r (docker self)) else docker self)
      \<and> fake_manifest self' =
          (if INIReader_has_section r ''fake_manifest''
           then snd (FakeManifestSettings_read r (fake_manifest self)) else fake_manifest self)
      \<and> ldap self' =
          (if INIReader_has_section r ''ldap''
           then snd (LDAPSettings_read r (ldap self)) else ldap self)
      \<and> oscap self' =
          (if INIReader_has_section r ''oscap''
           then snd (OscapSettings_read r (oscap self)) else oscap self)
      \<and> performance self' =
          (if INIReader_has_section r ''performance''
           then snd (PerformanceSettings_read r (performance self)) else performance self)
      \<and> rhai self' =
          (if INIReader_has_section r ''rhai''
           then snd (RHAISettings_read r (rhai self)) else rhai self)
      \<and> transition self' =
          (if INIReader_has_section r ''transition''
           then snd (TransitionSettings_read r (transition self)) else transition self)
      \<and> vlan_networking self' =
          (if INIReader_has_section r ''vlan_networking''
           then snd (VlanNetworkSettings_read r (vlan_networking self)) else vlan_networking self)
      \<and> x_validation_errors self' =
          x_validation_errors self
          @ Settings_validate_robottelo_settings self'
          @ ServerSettings_validate (server self')
          @ (if INIReader_has_section r ''clients'' then ClientsSettings_validate (clients self') else [])
          @ (if INIReader_has_section r ''compute_resources'' then LibvirtHostSettings_validate (compute_resources self') else [])
          @ (if INIReader_has_section r ''discovery'' then DiscoveryISOSettings_validate (discovery self') else [])
          @ (if INIReader_has_section r ''docker'' then DockerSettings_validate (docker self') else [])
          @ (if INIReader_has_section r ''fake_manifest'' then FakeManifestSettings_validate (fake_manifest self') else [])
          @ (if INIReader_has_section r ''ldap'' then LDAPSettings_validate (ldap self') else [])
          @ (if INIReader_has_section r ''oscap'' then OscapSettings_validate (oscap self') else [])
          @ (if INIReader_has_section r ''performance'' then PerformanceSettings_validate (performance self') else [])
          @ (if INIReader_has_section r ''rhai'' then RHAISettings_validate (rhai self') else [])
          @ (if INIReader_has_section r ''transition'' then TransitionSettings_validate (transition self') else [])
          @ (if INIReader_has_section r ''vlan_networking'' then VlanNetworkSettings_validate (vlan_networking self') else [])"
    if 1: "\<not> Settings_configured self" and 2: "isfile e (configure_settings_path e)"
      and 3: "INIReader_init e (configure_settings_path e) = Inr r"
      and 4: "fst (Settings_configure_read e (configure_settings_path e) self) = None"
  proof -
    let ?st = "snd (Settings_configure_read e (configure_settings_path e) self)"
    have run: "Settings_configure_read e (configure_settings_path e) self = (None, ?st)"
      using 4 by (metis prod.collapse)
    note res = configure_read_result[OF 3 run]
    have "self' = ?st \<or> self' = ?st\<lparr>x_configured := True\<rparr>"
      unfolding assms configure_instance[OF 1 2 run] by simp
    then have same: "server self' = server ?st" "clients self' = clients ?st"
      "compute_resources self' = compute_resources ?st" "discovery self' = discovery ?st"
      "docker self' = docker ?st" "fake_manifest self' = fake_manifest ?st"
      "ldap self' = ldap ?st" "oscap self' = oscap ?st" "performance self' = performance ?st"
      "rhai self' = rhai ?st" "transition self' = transition ?st"
      "vlan_networking self' = vlan_networking ?st"
      "x_validation_errors self' = x_validation_errors ?st"
      "Settings_validate_robottelo_settings self' = Settings_validate_robottelo_settings ?st"
      by (auto simp: Settings_validate_robottelo_settings_def)
    show ?thesis
      unfolding same using res(4-16) by (intro conjI)
  qed
  have untouched:
    "(\<forall>rd. INIReader_init e (configure_settings_path e) = Inr rd \<longrightarrow>
         \<not> INIReader_has_section rd ''clients'') \<longrightarrow> clients self' = clients self"
    "(\<forall>rd. INIReader_init e (configure_settings_path e) = Inr rd \<longrightarrow>
         \<not> INIReader_has_section rd ''compute_resources'') \<longrightarrow> compute_resources self' = compute_resources self"
    "(\<forall>rd. INIReader_init e (configure_settings_path e) = Inr rd \<longrightarrow>
         \<not> INIReader_has_section rd ''discovery'') \<longrightarrow> discovery self' = discovery self"
    "(\<forall>rd. INIReader_init e (configure_settings_path e) = Inr rd \<longrightarrow>
         \<not> INIReader_has_section rd ''docker'') \<longrightarrow> docker self' = docker self"
    "(\<forall>rd. INIReader_init e (configure_settings_path e) = Inr rd \<longrightarrow>
         \<not> INIReader_has_section rd ''fake_manifest'') \<longrightarrow> fake_manifest self' = fake_manifest self"
    "(\<forall>rd. INIReader_init e (configure_settings_path e) = Inr rd \<longrightarrow>
         \<not> INIReader_has_section rd ''ldap'') \<longrightarrow> ldap self' = ldap self"
    "(\<forall>rd. INIReader_init e (configure_settings_path e) = Inr rd \<longrightarrow>
         \<not> INIReader_has_section rd ''oscap'') \<longrightarrow> oscap self' = oscap self"
    "(\<forall>rd. INIReader_init e (configure_settings_path e) = Inr rd \<longrightarrow>
         \<not> INIReader_has_section rd ''performance'') \<longrightarrow> performance self' = performance self"
    "(\<forall>rd. INIReader_init e (configure_settings_path e) = Inr rd \<longrightarrow>
         \<not> INIReader_has_section rd ''rhai'') \<longrightarrow> rhai self' = rhai self"
    "(\<forall>rd. INIReader_init e (configure_settings_path e) = Inr rd \<longrightarrow>
         \<not> INIReader_has_section rd ''transition'') \<longrightarrow> transition self' = transition self"
    "(\<forall>rd. INIReader_init e (configure_settings_path e) = Inr rd \<longrightarrow>
         \<not> INIReader_has_section rd ''vlan_networking'') \<longrightarrow> vlan_networking self' = vlan_networking self"
    unfolding assms
    by (auto intro!: configure_group_untouched
        configure_read_absent_clients
        configure_read_absent_compute_resources
        configure_read_absent_discovery
        configure_read_absent_docker
        configure_read_absent_fake_manifest
        configure_read_absent_ldap
        configure_read_absent_oscap
        configure_read_absent_performance
        configure_read_absent_rhai
        configure_read_absent_transition
        configure_read_absent_vlan_networking)
  have first: "\<not> Settings_configured self \<and> isfile e (configure_settings_path e) \<and>
    INIReader_init e (configure_settings_path e) = Inr r \<and>
    fst (Settings_configure_read e (configure_settings_path e) self) = None \<longrightarrow>
      server self' = snd (ServerSettings_read r (server self))
      \<and> clients self' =
          (if INIReader_has_section r ''clients''
           then snd (ClientsSettings_read r (clients self)) else clients self)
      \<and> compute_resources self' =
          (if INIReader_has_section r ''compute_resources''
           then snd (LibvirtHostSettings_read r (compute_resources self)) else compute_resources self)
      \<and> discovery self' =
          (if INIReader_has_section r ''discovery''
           then snd (DiscoveryISOSettings_read r (discovery self)) else discovery self)
      \<and> docker self' =
          (if INIReader_has_section r ''docker''
           then snd (DockerSettings_read r (docker self)) else docker self)
      \<and> fake_manifest self' =
          (if INIReader_has_section r ''fake_manifest''
           then snd (FakeManifestSettings_read r (fake_manifest self)) else fake_manifest self)
      \<and> ldap self' =
          (if INIReader_has_section r ''ldap''
           then snd (LDAPSettings_read r (ldap self)) else ldap self)
      \<and> oscap self' =
          (if INIReader_has_section r ''oscap''
           then snd (OscapSettings_read r (oscap self)) else oscap self)
      \<and> performance self' =
          (if INIReader_has_section r ''performance''
           then snd (PerformanceSettings_read r (performance self)) else performance self)
      \<and> rhai self' =
          (if INIReader_has_section r ''rhai''
           then snd (RHAISettings_read r (rhai self)) else rhai self)
      \<and> transition self' =
          (if INIReader_has_section r ''transition''
           then snd (TransitionSettings_read r (transition self)) else transition self)
      \<and> vlan_networking self' =
          (if INIReader_has_section r ''vlan_networking''
           then snd (VlanNetworkSettings_read r (vlan_networking self)) else vlan_networking self)
      \<and> x_validation_errors self' =
          x_validation_errors self
          @ Settings_validate_robottelo_settings self'
          @ ServerSettings_validate (server self')
          @ (if INIReader_has_section r ''clients'' then ClientsSettings_validate (clients self') else [])
          @ (if INIReader_has_section r ''compute_resources'' then LibvirtHostSettings_validate (compute_resources self') else [])
          @ (if INIReader_has_section r ''discovery'' then DiscoveryISOSettings_validate (discovery self') else [])
          @ (if INIReader_has_section r ''docker'' then DockerSettings_validate (docker self') else [])
          @ (if INIReader_has_section r ''fake_manifest'' then FakeManifestSettings_validate (fake_manifest self') else [])
          @ (if INIReader_has_section r ''ldap'' then LDAPSettings_validate (ldap self') else [])
          @ (if INIReader_has_section r ''oscap'' then OscapSettings_validate (oscap self') else [])
          @ (if INIReader_has_section r ''performance'' then PerformanceSettings_validate (performance self') else [])
          @ (if INIReader_has_section r ''rhai'' then RHAISettings_validate (rhai self') else [])
          @ (if INIReader_has_section r ''transition'' then TransitionSettings_validate (transition self') else [])
          @ (if INIReader_has_section r ''vlan_networking'' then VlanNetworkSettings_validate (vlan_networking self') else [])"
    by (intro impI, elim conjE) (rule completed)
  show ?thesis
    using first untouched by (intro conjI)
qed

theorem configure_reads_server_and_present_groups_witness:
  "docker (fst (snd (Settings_configure (example_env docker_source) (Settings_init, [])))) =
     \<lparr>unix_socket = PyBool True, external_url = PyNone\<rparr>
   \<and> clients (fst (snd (Settings_configure (example_env docker_source) (Settings_init, [])))) =
     \<lparr>image_dir = PyStr ''/opt/robottelo/images'', provisioning_server = PyNone\<rparr>
   \<and> ldap (fst (snd (Settings_configure (example_env docker_source) (Settings_init, [])))) =
     LDAPSettings_init
   \<and> x_validation_errors
       (fst (snd (Settings_configure (example_env docker_source) (Settings_init, [])))) =
     [''[clients] provisioning_server option must be provided.'']"
proof -
  let ?e = "example_env docker_source"
  have 1: "\<not> Settings_configured Settings_init"
    by (simp add: Settings_configured_def Settings_init_def)
  have 2: "isfile ?e (configure_settings_path ?e)" by (simp add: eval_defs)
  have 3: "INIReader_init ?e (configure_settings_path ?e) = Inr (example_reader docker_source)"
    by (simp add: eval_defs)
  have 4: "fst (Settings_configure_read ?e (configure_settings_path ?e) Settings_init) = None"
    by (simp add: eval_defs docker_source_def)
  have has: "INIReader_has_section (example_reader docker_source) ''docker''"
    "INIReader_has_section (example_reader docker_source) ''clients''"
    "\<not> INIReader_has_section (example_reader docker_source) ''ldap''"
    "\<not> INIReader_has_section (example_reader docker_source) ''compute_resources''"
    "\<not> INIReader_has_section (example_reader docker_source) ''discovery''"
    "\<not> INIReader_has_section (example_reader docker_source) ''fake_manifest''"
    "\<not> INIReader_has_section (example_reader docker_source) ''oscap''"
    "\<not> INIReader_has_section (example_reader docker_source) ''performance''"
    "\<not> INIReader_has_section (example_reader docker_source) ''rhai''"
    "\<not> INIReader_has_section (example_reader docker_source) ''transition''"
    "\<not> INIReader_has_section (example_reader docker_source) ''vlan_networking''"
    by (simp_all add: INIReader_has_section_def parser_of_def example_reader_def
        docker_source_def)
  have noldap: "\<forall>rd. INIReader_init ?e (configure_settings_path ?e) = Inr rd \<longrightarrow>
      \<not> INIReader_has_section rd ''ldap''"
    unfolding 3 using has(3) by simp
  have d: "snd (DockerSettings_read (example_reader docker_source) (docker Settings_init)) =
      \<lparr>unix_socket = PyBool True, external_url = PyNone\<rparr>"
    by (simp add: eval_defs docker_source_def)
  have c: "snd (ClientsSettings_read (example_reader docker_source) (clients Settings_init)) =
      \<lparr>image_dir = PyStr ''/opt/robottelo/images'', provisioning_server = PyNone\<rparr>"
    by (simp add: eval_defs docker_source_def)
  have s: "ServerSettings_validate
      (snd (ServerSettings_read (example_reader docker_source) (server Settings_init))) = []"
    by (simp add: eval_defs docker_source_def)
  have l: "ldap Settings_init = LDAPSettings_init" by (simp add: Settings_init_def)
  have g: "Settings_validate_robottelo_settings
      (fst (snd (Settings_configure (example_env docker_source) (Settings_init, [])))) = []"
    by (simp add: eval_defs docker_source_def)
  have x: "x_validation_errors Settings_init = []" by (simp add: Settings_init_def)
  note W = configure_reads_server_and_present_groups[where e = ?e and self = Settings_init
      and w = "[]" and r = "example_reader docker_source", OF refl]
  from W have U: "(\<forall>rd. INIReader_init ?e (configure_settings_path ?e) = Inr rd \<longrightarrow>
         \<not> INIReader_has_section rd ''ldap'') \<longrightarrow>
       ldap (fst (snd (Settings_configure ?e (Settings_init, [])))) = ldap Settings_init"
    by blast
  note T = W[THEN conjunct1, rule_format, OF conjI[OF 1 conjI[OF 2 conjI[OF 3 4]]]]
  have dk: "docker (fst (snd (Settings_configure ?e (Settings_init, [])))) =
     \<lparr>unix_socket = PyBool True, external_url = PyNone\<rparr>"
    using T by (simp add: has d)
  have cl: "clients (fst (snd (Settings_configure ?e (Settings_init, [])))) =
     \<lparr>image_dir = PyStr ''/opt/robottelo/images'', provisioning_server = PyNone\<rparr>"
    using T by (simp add: has c)
  have ld: "ldap (fst (snd (Settings_configure ?e (Settings_init, [])))) = LDAPSettings_init"
    using U noldap l by simp
  have sv: "ServerSettings_validate
      (server (fst (snd (Settings_configure ?e (Settings_init, []))))) = []"
    using T by (simp add: s)
  have "x_validation_errors (fst (snd (Settings_configure ?e (Settings_init, [])))) =
     [''[clients] provisioning_server option must be provided.'']"
    using T unfolding dk cl g sv
    by (simp add: has x ClientsSettings_validate_def DockerSettings_validate_def
        DockerSettings_vars_values_def)
  with dk cl ld show ?thesis by (intro conjI)
qed

text \<open>
  Claim C10, as stated, fails for a later call that does not get as far as the check of
  the error list. After a first call on a file without any section has raised for two
  validation errors, a later call on the same instance with the settings file gone
  raises \<^verbatim>\<open>ImproperlyConfigured\<close> with the message that the file cannot be found, and a
  later call on a file with \<^verbatim>\<open>[server] port=80a\<close> raises \<^verbatim>\<open>ValueError\<close>: neither carries the
  old errors.
\<close>

theorem later_call_other_failure_counterexample:
  "fst (Settings_configure (example_env empty_source) (Settings_init, [])) =
     Some (ImproperlyConfigured
        (''Failed to validate the configuration, check the message(s):'' @ [CHR 0x0A]
          @ ''[server] hostname must be provided.'' @ [CHR 0x0A]
          @ ''[server] ssh_key or ssh_password must be provided.''))
   \<and> fst (Settings_configure missing_file_env
       (snd (Settings_configure (example_env empty_source) (Settings_init, [])))) =
     Some (ImproperlyConfigured
        ''Not able to find settings file at /robottelo/robottelo.properties'')
   \<and> fst (Settings_configure (example_env bad_port_source)
       (snd (Settings_configure (example_env empty_source) (Settings_init, [])))) =
     Some ValueError"
  by (simp add: eval_defs missing_file_env_def empty_source_def minimal_source_def
      bad_port_source_def)

text \<open>
  Claim C10, amended. Suppose a first \<^verbatim>\<open>configure()\<close> call on an unconfigured instance
  completes the reading part and raises because the accumulated list of validation
  errors is not empty. The instance \<open>self1\<close> it leaves behind still holds every accumulated
  error and is not configured. Every later \<^verbatim>\<open>configure()\<close> call on \<open>self1\<close>, in any
  environment and world, raises again: it never succeeds, the instance stays
  unconfigured, the old errors stay at the front of the list, and the world is
  unchanged. If the later call finds the settings file and completes the reading part,
  reaching the instance \<open>self2\<close>, then the list in \<open>self2\<close> is the old list followed by the
  errors of the new source; it is not empty even if the new source is valid, so the call
  raises \<^verbatim>\<open>ImproperlyConfigured\<close> with the old errors in its message. If the later call
  does not find the file, it raises \<^verbatim>\<open>ImproperlyConfigured\<close> with the message that the file
  cannot be found; if an exception aborts its reading part, it raises that exception.
\<close>

theorem validation_errors_kept_across_calls:
  assumes "\<not> Settings_configured self"
    and "isfile e1 (configure_settings_path e1)"
    and "Settings_configure_read e1 (configure_settings_path e1) self = (None, self1)"
    and "x_validation_errors self1 \<noteq> []"
  shows "Settings_configure e1 (self, w) =
           (Some (ImproperlyConfigured (validation_message (x_validation_errors self1))),
            (self1, w))
   \<and> \<not> Settings_configured self1
   \<and> fst (Settings_configure e2 (self1, w2)) \<noteq> None
   \<and> \<not> Settings_configured (fst (snd (Settings_configure e2 (self1, w2))))
   \<and> (\<exists>new. x_validation_errors (fst (snd (Settings_configure e2 (self1, w2)))) =
         x_validation_errors self1 @ new)
   \<and> snd (snd (Settings_configure e2 (self1, w2))) = w2
   \<and> (isfile e2 (configure_settings_path e2) \<and>
      INIReader_init e2 (configure_settings_path e2) = Inr r2 \<and>
      Settings_configure_read e2 (configure_settings_path e2) self1 = (None, self2) \<longrightarrow>
        x_validation_errors self2 =
            x_validation_errors self1
            @ Settings_validate_robottelo_settings self2
            @ ServerSettings_validate (server self2)
            @ (if INIReader_has_section r2 ''clients'' then ClientsSettings_validate (clients self2) else [])
            @ (if INIReader_has_section r2 ''compute_resources'' then LibvirtHostSettings_validate (compute_resources self2) else [])
            @ (if INIReader_has_section r2 ''discovery'' then DiscoveryISOSettings_validate (discovery self2) else [])
            @ (if INIReader_has_section r2 ''docker'' then DockerSettings_validate (docker self2) else [])
            @ (if INIReader_has_section r2 ''fake_manifest'' then FakeManifestSettings_validate (fake_manifest self2) else [])
            @ (if INIReader_has_section r2 ''ldap'' then LDAPSettings_validate (ldap self2) else [])
            @ (if INIReader_has_section r2 ''oscap'' then OscapSettings_validate (oscap self2) else [])
            @ (if INIReader_has_section r2 ''performance'' then PerformanceSettings_validate (performance self2) else [])
            @ (if INIReader_has_section r2 ''rhai'' then RHAISettings_validate (rhai self2) else [])
            @ (if INIReader_has_section r2 ''transition'' then TransitionSettings_validate (transition self2) else [])
            @ (if INIReader_has_section r2 ''vlan_networking'' then VlanNetworkSettings_validate (vlan_networking self2) else [])
      \<and> Settings_configure e2 (self1, w2) =
           (Some (ImproperlyConfigured (validation_message (x_validation_errors self2))),
            (self2, w2))
      \<and> \<not> Settings_configured self2)
   \<and> (\<not> isfile e2 (configure_settings_path e2) \<longrightarrow>
        Settings_configure e2 (self1, w2) =
          (Some (ImproperlyConfigured
             (''Not able to find settings file at '' @ configure_settings_path e2)),
           (self1, w2)))
   \<and> (isfile e2 (configure_settings_path e2) \<and>
      fst (Settings_configure_read e2 (configure_settings_path e2) self1) = Some ex \<longrightarrow>
        fst (Settings_configure e2 (self1, w2)) = Some ex)"
proof -
  obtain r1 where r1: "INIReader_init e1 (configure_settings_path e1) = Inr r1"
    using configure_read_init[OF assms(3)] by blast
  have n1: "\<not> Settings_configured self1"
    using configure_read_result(1)[OF r1 assms(3)] assms(1)
    by (simp add: Settings_configured_def)
  have c1: "Settings_configure e1 (self, w) =
           (Some (ImproperlyConfigured (validation_message (x_validation_errors self1))),
            (self1, w))"
    using assms(3,4) by (simp add: configure_cases[OF assms(1,2)])
  note later = configure_after_errors[OF n1 assms(4), of e2 w2]
  have completes: "isfile e2 (configure_settings_path e2) \<and>
      INIReader_init e2 (configure_settings_path e2) = Inr r2 \<and>
      Settings_configure_read e2 (configure_settings_path e2) self1 = (None, self2) \<longrightarrow>
        x_validation_errors self2 =
            x_validation_errors self1
            @ Settings_validate_robottelo_settings self2
            @ ServerSettings_validate (server self2)
            @ (if INIReader_has_section r2 ''clients'' then ClientsSettings_validate (clients self2) else [])
            @ (if INIReader_has_section r2 ''compute_resources'' then LibvirtHostSettings_validate (compute_resources self2) else [])
            @ (if INIReader_has_section r2 ''discovery'' then DiscoveryISOSettings_validate (discovery self2) else [])
            @ (if INIReader_has_section r2 ''docker'' then DockerSettings_validate (docker self2) else [])
            @ (if INIReader_has_section r2 ''fake_manifest'' then FakeManifestSettings_validate (fake_manifest self2) else [])
            @ (if INIReader_has_section r2 ''ldap'' then LDAPSettings_validate (ldap self2) else [])
            @ (if INIReader_has_section r2 ''oscap'' then OscapSettings_validate (oscap self2) else [])
            @ (if INIReader_has_section r2 ''performance'' then PerformanceSettings_validate (performance self2) else [])
            @ (if INIReader_has_section r2 ''rhai'' then RHAISettings_validate (rhai self2) else [])
            @ (if INIReader_has_section r2 ''transition'' then TransitionSettings_validate (transition self2) else [])
            @ (if INIReader_has_section r2 ''vlan_networking'' then VlanNetworkSettings_validate (vlan_networking self2) else [])
      \<and> Settings_configure e2 (self1, w2) =
           (Some (ImproperlyConfigured (validation_message (x_validation_errors self2))),
            (self2, w2))
      \<and> \<not> Settings_configured self2"
  proof (intro impI, elim conjE)
    assume 5: "isfile e2 (configure_settings_path e2)"
      and 6: "INIReader_init e2 (configure_settings_path e2) = Inr r2"
      and 7: "Settings_configure_read e2 (configure_settings_path e2) self1 = (None, self2)"
    have n2: "\<not> Settings_configured self2"
      using configure_read_result(1)[OF 6 7] n1 by (simp add: Settings_configured_def)
    note acc = configure_read_result(16)[OF 6 7]
    then have ne: "x_validation_errors self2 \<noteq> []" using assms(4) by simp
    have c2: "Settings_configure e2 (self1, w2) =
           (Some (ImproperlyConfigured (validation_message (x_validation_errors self2))),
            (self2, w2))"
      using 7 ne by (simp add: configure_cases[OF n1 5])
    show "x_validation_errors self2 =
            x_validation_errors self1
            @ Settings_validate_robottelo_settings self2
            @ ServerSettings_validate (server self2)
            @ (if INIReader_has_section r2 ''clients'' then ClientsSettings_validate (clients self2) else [])
            @ (if INIReader_has_section r2 ''compute_resources'' then LibvirtHostSettings_validate (compute_resources self2) else [])
            @ (if INIReader_has_section r2 ''discovery'' then DiscoveryISOSettings_validate (discovery self2) else [])
            @ (if INIReader_has_section r2 ''docker'' then DockerSettings_validate (docker self2) else [])
            @ (if INIReader_has_section r2 ''fake_manifest'' then FakeManifestSettings_validate (fake_manifest self2) else [])
            @ (if INIReader_has_section r2 ''ldap'' then LDAPSettings_validate (ldap self2) else [])
            @ (if INIReader_has_section r2 ''oscap'' then OscapSettings_validate (oscap self2) else [])
            @ (if INIReader_has_section r2 ''performance'' then PerformanceSettings_validate (performance self2) else [])
            @ (if INIReader_has_section r2 ''rhai'' then RHAISettings_validate (rhai self2) else [])
            @ (if INIReader_has_section r2 ''transition'' then TransitionSettings_validate (transition self2) else [])
            @ (if INIReader_has_section r2 ''vlan_networking'' then VlanNetworkSettings_validate (vlan_networking self2) else [])
      \<and> Settings_configure e2 (self1, w2) =
           (Some (ImproperlyConfigured (validation_message (x_validation_errors self2))),
            (self2, w2))
      \<and> \<not> Settings_configured self2"
      using acc c2 n2 by (intro conjI)
  qed
  have missing: "\<not> isfile e2 (configure_settings_path e2) \<longrightarrow>
        Settings_configure e2 (self1, w2) =
          (Some (ImproperlyConfigured
             (''Not able to find settings file at '' @ configure_settings_path e2)),
           (self1, w2))"
    using n1 by (simp add: Settings_configure_def configure_settings_path_def)
  have aborted: "isfile e2 (configure_settings_path e2) \<and>
      fst (Settings_configure_read e2 (configure_settings_path e2) self1) = Some ex \<longrightarrow>
        fst (Settings_configure e2 (self1, w2)) = Some ex"
    using configure_read_raises[OF n1, of e2 ex w2] by simp
  show ?thesis
    using c1 n1 later completes missing aborted by (intro conjI)
qed

theorem validation_errors_kept_across_calls_witness:
  "fst (Settings_configure (example_env minimal_source) (Settings_init, [])) = None
   \<and> fst (Settings_configure (example_env minimal_source)
       (snd (Settings_configure (example_env empty_source) (Settings_init, [])))) =
     Some (ImproperlyConfigured
        (''Failed to validate the configuration, check the message(s):'' @ [CHR 0x0A]
          @ ''[server] hostname must be provided.'' @ [CHR 0x0A]
          @ ''[server] ssh_key or ssh_password must be provided.''))"
proof -
  let ?e1 = "example_env empty_source"
  let ?e2 = "example_env minimal_source"
  let ?R1 = "Settings_configure_read ?e1 (configure_settings_path ?e1) Settings_init"
  let ?R2 = "Settings_configure_read ?e2 (configure_settings_path ?e2) (snd ?R1)"
  have 1: "\<not> Settings_configured Settings_init"
    by (simp add: Settings_configured_def Settings_init_def)
  have 2: "isfile ?e1 (configure_settings_path ?e1)" by (simp add: eval_defs)
  have "fst ?R1 = None" by (simp add: eval_defs empty_source_def)
  then have 3: "?R1 = (None, snd ?R1)" by (metis prod.collapse)
  have errs1: "x_validation_errors (snd ?R1) =
      [''[server] hostname must be provided.'',
       ''[server] ssh_key or ssh_password must be provided.'']"
    by (simp add: eval_defs empty_source_def)
  then have 4: "x_validation_errors (snd ?R1) \<noteq> []" by simp
  have 5: "isfile ?e2 (configure_settings_path ?e2)" by (simp add: eval_defs)
  have 6: "INIReader_init ?e2 (configure_settings_path ?e2) = Inr (example_reader minimal_source)"
    by (simp add: eval_defs)
  have "fst ?R2 = None" by (simp add: eval_defs empty_source_def minimal_source_def)
  then have 7: "?R2 = (None, snd ?R2)" by (metis prod.collapse)
  have errs2: "x_validation_errors (snd ?R2) =
      [''[server] hostname must be provided.'',
       ''[server] ssh_key or ssh_password must be provided.'']"
    by (simp add: eval_defs empty_source_def minimal_source_def)
  have ok: "fst (Settings_configure ?e2 (Settings_init, [])) = None"
    by (simp add: eval_defs minimal_source_def)
  from validation_errors_kept_across_calls[OF 1 2 3 4, of "[]" ?e2 "[]"
      "example_reader minimal_source" "snd ?R2"] 5 6 7
  have "Settings_configure ?e1 (Settings_init, []) =
          (Some (ImproperlyConfigured (validation_message (x_validation_errors (snd ?R1)))),
           (snd ?R1, []))"
    and "Settings_configure ?e2 (snd ?R1, []) =
          (Some (ImproperlyConfigured (validation_message (x_validation_errors (snd ?R2)))),
           (snd ?R2, []))"
    by blast+
  then show ?thesis
    using ok unfolding errs1 errs2 by (simp add: validation_message_def)
qed

section \<open>What \<^verbatim>\<open>INIReader.get\<close> returns\<close>

text \<open>
  Claim C5, as stated, fails where the cast is one of the builtin types: for
  \<^verbatim>\<open>cast=bool\<close> the reader does not call \<^verbatim>\<open>bool\<close> on the raw string but its own Boolean
  caster. On the raw string \<^verbatim>\<open>false\<close> the reader returns \<^verbatim>\<open>False\<close>, while \<^verbatim>\<open>bool('false')\<close> is
  \<^verbatim>\<open>True\<close>.
\<close>

theorem get_with_builtin_bool_counterexample:
  "INIReader_get (example_reader [''docker'' \<mapsto> [''unix_socket'' \<mapsto> ''false'']])
     ''docker'' ''unix_socket'' (PyBool False) (Some builtin_bool) = Inr (PyBool False)
   \<and> call builtin_bool ''false'' = Inr (PyBool True)"
  by (simp add: INIReader_get_def parser_of_def example_reader_def spec_casters_def
      Boolean_cast_def to_lower_def)

text \<open>
  Claim C5, amended. For every section, option, default and cast: when the parser reports
  the section or the option as missing (its lookup raises \<^verbatim>\<open>NoSectionError\<close> or
  \<^verbatim>\<open>NoOptionError\<close>), \<^verbatim>\<open>get\<close> returns the default unchanged, whatever the cast is (it is not
  applied). When the parser's lookup returns the string \<open>v\<close> for the option (the value as
  the parser delivers it, after its interpolation), \<^verbatim>\<open>get\<close> returns \<open>v\<close> itself if no cast
  is given; the value of the reader's own Boolean, Dict, List or Tuple caster on \<open>v\<close> if
  the cast is the builtin \<^verbatim>\<open>bool\<close>, \<^verbatim>\<open>dict\<close>, \<^verbatim>\<open>list\<close> or \<^verbatim>\<open>tuple\<close>; and the value of the cast
  applied to \<open>v\<close> for every other cast. When the parser's lookup raises any other
  exception (an interpolation error), \<^verbatim>\<open>get\<close> raises it, whatever the default and the
  cast are.
\<close>

theorem get_returns_default_or_cast_value:
  "(ConfigParser_get (config_parser r) section option = Inl NoSectionError \<or>
    ConfigParser_get (config_parser r) section option = Inl NoOptionError \<longrightarrow>
      INIReader_get r section option dflt cast = Inr dflt)
   \<and> (ConfigParser_get (config_parser r) section option = Inr v \<longrightarrow>
        INIReader_get r section option dflt None = Inr (PyStr v)
      \<and> (cast_boolean (casts r) v = Inr x \<longrightarrow>
           INIReader_get r section option dflt (Some builtin_bool) = Inr x)
      \<and> (cast_dict (casts r) v = Inr x \<longrightarrow>
           INIReader_get r section option dflt (Some builtin_dict) = Inr x)
      \<and> (cast_list (casts r) v = Inr x \<longrightarrow>
           INIReader_get r section option dflt (Some builtin_list) = Inr x)
      \<and> (cast_tuple (casts r) v = Inr x \<longrightarrow>
           INIReader_get r section option dflt (Some builtin_tuple) = Inr x)
      \<and> (f v = Inr x \<longrightarrow>
           INIReader_get r section option dflt (Some (Callable f)) = Inr x))
   \<and> (ConfigParser_get (config_parser r) section option = Inl ex \<and>
      ex \<noteq> NoSectionError \<and> ex \<noteq> NoOptionError \<longrightarrow>
        INIReader_get r section option dflt cast = Inl ex)"
  by (auto simp: INIReader_get_def)

theorem get_returns_default_or_cast_value_witness:
  "INIReader_get (example_reader [''docker'' \<mapsto> [''unix_socket'' \<mapsto> ''true'']])
     ''docker'' ''external_url'' PyNone (Some builtin_bool) = Inr PyNone
   \<and> INIReader_get (example_reader [''docker'' \<mapsto> [''unix_socket'' \<mapsto> ''true'']])
     ''docker'' ''unix_socket'' (PyBool False) (Some builtin_bool) = Inr (PyBool True)
   \<and> INIReader_get (example_reader [''docker'' \<mapsto> [''unix_socket'' \<mapsto> ''true'']])
     ''docker'' ''unix_socket'' PyNone None = Inr (PyStr ''true'')
   \<and> INIReader_get \<lparr>config_parser = percent_parser, casts = spec_casters\<rparr>
     ''server'' ''admin_password'' (PyStr ''changeme'') None = Inl InterpolationError"
proof -
  let ?r = "example_reader [''docker'' \<mapsto> [''unix_socket'' \<mapsto> ''true'']]"
  let ?p = "\<lparr>config_parser = percent_parser, casts = spec_casters\<rparr>"
  have absent: "ConfigParser_get (config_parser ?r) ''docker'' ''external_url'' = Inl NoOptionError"
    by (simp add: example_reader_def parser_of_def)
  have present: "ConfigParser_get (config_parser ?r) ''docker'' ''unix_socket'' = Inr ''true''"
    by (simp add: example_reader_def parser_of_def)
  have cast: "cast_boolean (casts ?r) ''true'' = Inr (PyBool True)"
    by (simp add: example_reader_def spec_casters_def Boolean_cast_def to_lower_def)
  have failing: "ConfigParser_get (config_parser ?p) ''server'' ''admin_password'' =
      Inl InterpolationError
      \<and> InterpolationError \<noteq> NoSectionError \<and> InterpolationError \<noteq> NoOptionError"
    by (simp add: percent_parser_def)
  from get_returns_default_or_cast_value[of ?r "''docker''" "''external_url''"
      PyNone "Some builtin_bool"] absent
  have a: "INIReader_get ?r ''docker'' ''external_url'' PyNone (Some builtin_bool) = Inr PyNone"
    by blast
  from get_returns_default_or_cast_value[of ?r "''docker''" "''unix_socket''"
      "PyBool False" None "''true''" "PyBool True"] present cast
  have b: "INIReader_get ?r ''docker'' ''unix_socket'' (PyBool False) (Some builtin_bool)
      = Inr (PyBool True)"
    by blast
  from get_returns_default_or_cast_value[of ?r "''docker''" "''unix_socket''"
      PyNone None "''true''"] present
  have c: "INIReader_get ?r ''docker'' ''unix_socket'' PyNone None = Inr (PyStr ''true'')"
    by blast
  from get_returns_default_or_cast_value[of ?p "''server''" "''admin_password''"
      "PyStr ''changeme''" None _ _ _ InterpolationError] failing
  have d: "INIReader_get ?p ''server'' ''admin_password'' (PyStr ''changeme'') None
      = Inl InterpolationError"
    by blast
  from a b c d show ?thesis by (intro conjI)
qed

section \<open>The global options\<close>

lemma field_skip:
  "(\<And>s. fst (block cs s) = None \<longrightarrow> f (snd (block cs s)) = x) \<Longrightarrow>
   fst (block (c # cs) s) = None \<longrightarrow> f (snd (block (c # cs) s)) = x"
  by (cases "c s"; cases "fst (c s)") auto

lemma field_hit:
  assumes "\<And>v s. ex = Inr v \<Longrightarrow> f (st v s) = x"
    and "\<forall>c\<in>set cs. \<forall>s. f (snd (c s)) = f s"
  shows "fst (block (assign st ex # cs) s) = None \<longrightarrow>
         f (snd (block (assign st ex # cs) s)) = x"
proof (cases ex)
  case (Inl e)
  then show ?thesis by (simp add: assign_def)
next
  case (Inr v)
  then show ?thesis
    using block_preserves[OF assms(2), of "st v s"] assms(1)[OF Inr] by (simp add: assign_def)
qed

lemma read_robottelo_globals:
  assumes "reader self = Some r"
    and "fst (Settings_read_robottelo_settings C self) = None"
  shows "browser (snd (Settings_read_robottelo_settings C self)) =
           (case ConfigParser_get (config_parser r) ''robottelo'' ''browser'' of
              Inl e \<Rightarrow> PyStr ''selenium'' | Inr v \<Rightarrow> PyStr v)"
    and "webdriver (snd (Settings_read_robottelo_settings C self)) =
           (case ConfigParser_get (config_parser r) ''robottelo'' ''webdriver'' of
              Inl e \<Rightarrow> PyStr ''firefox'' | Inr v \<Rightarrow> PyStr v)"
    and "saucelabs_user (snd (Settings_read_robottelo_settings C self)) =
           (case ConfigParser_get (config_parser r) ''robottelo'' ''saucelabs_user'' of
              Inl e \<Rightarrow> PyNone | Inr v \<Rightarrow> PyStr v)"
    and "saucelabs_key (snd (Settings_read_robottelo_settings C self)) =
           (case ConfigParser_get (config_parser r) ''robottelo'' ''saucelabs_key'' of
              Inl e \<Rightarrow> PyNone | Inr v \<Rightarrow> PyStr v)"
proof -
  note unf = Settings_read_robottelo_settings_def assms(1) option.case
  have "fst (Settings_read_robottelo_settings C self) = None \<longrightarrow>
        browser (snd (Settings_read_robottelo_settings C self)) =
           (case ConfigParser_get (config_parser r) ''robottelo'' ''browser'' of
              Inl e \<Rightarrow> PyStr ''selenium'' | Inr v \<Rightarrow> PyStr v)"
    unfolding unf
    by (rule field_hit) (auto simp: assign_def dest!: INIReader_get_no_cast_value split: sum.splits)
  then show "browser (snd (Settings_read_robottelo_settings C self)) =
           (case ConfigParser_get (config_parser r) ''robottelo'' ''browser'' of
              Inl e \<Rightarrow> PyStr ''selenium'' | Inr v \<Rightarrow> PyStr v)"
    using assms(2) by simp
  have "fst (Settings_read_robottelo_settings C self) = None \<longrightarrow>
        webdriver (snd (Settings_read_robottelo_settings C self)) =
           (case ConfigParser_get (config_parser r) ''robottelo'' ''webdriver'' of
              Inl e \<Rightarrow> PyStr ''firefox'' | Inr v \<Rightarrow> PyStr v)"
    unfolding unf
    by (rule field_skip, rule field_skip, rule field_skip, rule field_skip, rule field_skip,
        rule field_skip, rule field_skip, rule field_skip, rule field_skip, rule field_hit)
       (auto simp: assign_def dest!: INIReader_get_no_cast_value split: sum.splits)
  then show "webdriver (snd (Settings_read_robottelo_settings C self)) =
           (case ConfigParser_get (config_parser r) ''robottelo'' ''webdriver'' of
              Inl e \<Rightarrow> PyStr ''firefox'' | Inr v \<Rightarrow> PyStr v)"
    using assms(2) by simp
  have "fst (Settings_read_robottelo_settings C self) = None \<longrightarrow>
        saucelabs_user (snd (Settings_read_robottelo_settings C self)) =
           (case ConfigParser_get (config_parser r) ''robottelo'' ''saucelabs_user'' of
              Inl e \<Rightarrow> PyNone | Inr v \<Rightarrow> PyStr v)"
    unfolding unf
    by (rule field_skip, rule field_skip, rule field_skip, rule field_skip, rule field_skip,
        rule field_skip, rule field_skip, rule field_skip, rule field_skip, rule field_skip,
        rule field_hit)
       (auto simp: assign_def dest!: INIReader_get_no_cast_value split: sum.splits)
  then show "saucelabs_user (snd (Settings_read_robottelo_settings C self)) =
           (case ConfigParser_get (config_parser r) ''robottelo'' ''saucelabs_user'' of
              Inl e \<Rightarrow> PyNone | Inr v \<Rightarrow> PyStr v)"
    using assms(2) by simp
  have "fst (Settings_read_robottelo_settings C self) = None \<longrightarrow>
        saucelabs_key (snd (Settings_read_robottelo_settings C self)) =
           (case ConfigParser_get (config_parser r) ''robottelo'' ''saucelabs_key'' of
              Inl e \<Rightarrow> PyNone | Inr v \<Rightarrow> PyStr v)"
    unfolding unf
    by (rule field_skip, rule field_skip, rule field_skip, rule field_skip, rule field_skip,
        rule field_skip, rule field_skip, rule field_skip, rule field_skip, rule field_skip,
        rule field_skip, rule field_hit)
       (auto simp: assign_def dest!: INIReader_get_no_cast_value split: sum.splits)
  then show "saucelabs_key (snd (Settings_read_robottelo_settings C self)) =
           (case ConfigParser_get (config_parser r) ''robottelo'' ''saucelabs_key'' of
              Inl e \<Rightarrow> PyNone | Inr v \<Rightarrow> PyStr v)"
    using assms(2) by simp
qed

lemma first_raise_head: "first_raise (a # as) = None \<Longrightarrow> a = None"
  by (cases a) simp_all

lemma configure_read_globals:
  fixes self :: Settings
  assumes init: "INIReader_init e p = Inr r"
    and run: "Settings_configure_read e p self = (None, st)"
  shows "browser st =
           (case ConfigParser_get (config_parser r) ''robottelo'' ''browser'' of
              Inl e \<Rightarrow> PyStr ''selenium'' | Inr v \<Rightarrow> PyStr v)"
    and "webdriver st =
           (case ConfigParser_get (config_parser r) ''robottelo'' ''webdriver'' of
              Inl e \<Rightarrow> PyStr ''firefox'' | Inr v \<Rightarrow> PyStr v)"
    and "saucelabs_user st =
           (case ConfigParser_get (config_parser r) ''robottelo'' ''saucelabs_user'' of
              Inl e \<Rightarrow> PyNone | Inr v \<Rightarrow> PyStr v)"
    and "saucelabs_key st =
           (case ConfigParser_get (config_parser r) ''robottelo'' ''saucelabs_key'' of
              Inl e \<Rightarrow> PyNone | Inr v \<Rightarrow> PyStr v)"
proof -
  let ?s2 = "snd (Settings_read_robottelo_settings (INIReader_casts e) (self\<lparr>reader := Some r\<rparr>))"
  from run have none: "fst (Settings_configure_read e p self) = None"
    and st: "st = snd (Settings_configure_read e p self)" by simp_all
  from none have g: "fst (Settings_read_robottelo_settings (INIReader_casts e)
      (self\<lparr>reader := Some r\<rparr>)) = None"
    unfolding configure_read_follows(1)[OF init] by (rule first_raise_head)
  have rd: "reader (self\<lparr>reader := Some r\<rparr>) = Some r" by simp
  have same: "browser st = browser ?s2" "webdriver st = webdriver ?s2"
    "saucelabs_user st = saucelabs_user ?s2" "saucelabs_key st = saucelabs_key ?s2"
    unfolding st using configure_read_follows(2)[OF init, of self] none by simp_all
  show "browser st =
           (case ConfigParser_get (config_parser r) ''robottelo'' ''browser'' of
              Inl e \<Rightarrow> PyStr ''selenium'' | Inr v \<Rightarrow> PyStr v)"
    unfolding same by (rule read_robottelo_globals(1)[OF rd g])
  show "webdriver st =
           (case ConfigParser_get (config_parser r) ''robottelo'' ''webdriver'' of
              Inl e \<Rightarrow> PyStr ''firefox'' | Inr v \<Rightarrow> PyStr v)"
    unfolding same by (rule read_robottelo_globals(2)[OF rd g])
  show "saucelabs_user st =
           (case ConfigParser_get (config_parser r) ''robottelo'' ''saucelabs_user'' of
              Inl e \<Rightarrow> PyNone | Inr v \<Rightarrow> PyStr v)"
    unfolding same by (rule read_robottelo_globals(3)[OF rd g])
  show "saucelabs_key st =
           (case ConfigParser_get (config_parser r) ''robottelo'' ''saucelabs_key'' of
              Inl e \<Rightarrow> PyNone | Inr v \<Rightarrow> PyStr v)"
    unfolding same by (rule read_robottelo_globals(4)[OF rd g])
qed

text \<open>
  Claim C8, as stated, fails for a source that also sets an unknown webdriver: with
  \<^verbatim>\<open>browser=saucelabs\<close>, \<^verbatim>\<open>webdriver=opera\<close> and no credentials, global validation
  produces three error strings, not two.
\<close>

theorem saucelabs_unknown_webdriver_counterexample:
  "Settings_validate_robottelo_settings
     (snd (Settings_read_robottelo_settings spec_casters
        (Settings_init\<lparr>reader := Some (example_reader saucelabs_opera_source)\<rparr>))) =
     [''[robottelo] webdriver should be one of chrome, firefox, ie, phantomjs, remote.'',
      ''[robottelo] saucelabs_user must be provided when browser is saucelabs.'',
      ''[robottelo] saucelabs_key must be provided when browser is saucelabs.'']"
  by (simp add: eval_defs saucelabs_opera_source_def)

text \<open>
  Claim C8, amended. For every source whose global options set \<^verbatim>\<open>browser\<close> to
  \<^verbatim>\<open>saucelabs\<close> and define neither \<^verbatim>\<open>saucelabs_user\<close> nor \<^verbatim>\<open>saucelabs_key\<close> (the parser
  returns \<^verbatim>\<open>saucelabs\<close> for the first and raises \<^verbatim>\<open>NoOptionError\<close> for the other two), if
  \<^verbatim>\<open>configure()\<close> on an unconfigured instance finds the file and completes the reading part:
  global
  validation produces the two distinct error strings for the missing user and the
  missing key, preceded by the webdriver error when the \<^verbatim>\<open>webdriver\<close> option is set to a
  name outside the five known ones (so exactly these two when the option is absent or
  valid), and \<^verbatim>\<open>configure()\<close> fails with \<^verbatim>\<open>ImproperlyConfigured\<close>, both strings being among
  the lines of its message.
\<close>

theorem saucelabs_credentials_required:
  assumes "\<not> Settings_configured self"
    and "isfile e (configure_settings_path e)"
    and "INIReader_init e (configure_settings_path e) = Inr r"
    and "ConfigParser_get (config_parser r) ''robottelo'' ''browser'' = Inr ''saucelabs''"
    and "ConfigParser_get (config_parser r) ''robottelo'' ''saucelabs_user'' = Inl NoOptionError"
    and "ConfigParser_get (config_parser r) ''robottelo'' ''saucelabs_key'' = Inl NoOptionError"
    and "Settings_configure_read e (configure_settings_path e) self = (None, self1)"
  shows "Settings_validate_robottelo_settings self1 =
           (if webdriver self1 \<in> set (map PyStr webdrivers) then []
            else [''[robottelo] webdriver should be one of chrome, firefox, ie, phantomjs, remote.''])
           @ [''[robottelo] saucelabs_user must be provided when browser is saucelabs.'',
              ''[robottelo] saucelabs_key must be provided when browser is saucelabs.'']
   \<and> ''[robottelo] saucelabs_user must be provided when browser is saucelabs.'' \<noteq>
       ''[robottelo] saucelabs_key must be provided when browser is saucelabs.''
   \<and> webdriver self1 =
       (case ConfigParser_get (config_parser r) ''robottelo'' ''webdriver'' of
          Inl ex \<Rightarrow> PyStr ''firefox'' | Inr v \<Rightarrow> PyStr v)
   \<and> ''[robottelo] saucelabs_user must be provided when browser is saucelabs.''
         \<in> set (x_validation_errors self1)
   \<and> ''[robottelo] saucelabs_key must be provided when browser is saucelabs.''
         \<in> set (x_validation_errors self1)
   \<and> Settings_configure e (self, w) =
         (Some (ImproperlyConfigured
            (''Failed to validate the configuration, check the message(s):'' @ [CHR 0x0A]
               @ join [CHR 0x0A] (x_validation_errors self1))), (self1, w))"
proof -
  note g = configure_read_globals[OF assms(3,7)]
  have b: "browser self1 = PyStr ''saucelabs''"
    and u: "saucelabs_user self1 = PyNone" and k: "saucelabs_key self1 = PyNone"
    and wd: "webdriver self1 =
       (case ConfigParser_get (config_parser r) ''robottelo'' ''webdriver'' of
          Inl ex \<Rightarrow> PyStr ''firefox'' | Inr v \<Rightarrow> PyStr v)"
    unfolding g using assms(4-6) by simp_all
  have v: "Settings_validate_robottelo_settings self1 =
           (if webdriver self1 \<in> set (map PyStr webdrivers) then []
            else [''[robottelo] webdriver should be one of chrome, firefox, ie, phantomjs, remote.''])
           @ [''[robottelo] saucelabs_user must be provided when browser is saucelabs.'',
              ''[robottelo] saucelabs_key must be provided when browser is saucelabs.'']"
    unfolding Settings_validate_robottelo_settings_def b u k
    by (simp add: browsers_def webdrivers_def)
  have sub: "set (Settings_validate_robottelo_settings self1) \<subseteq> set (x_validation_errors self1)"
    apply (subst configure_read_result(16)[OF assms(3,7)])
    apply (simp only: set_append)
    apply (rule subset_trans[OF Un_upper1 Un_upper2])
    done
  have mem: "''[robottelo] saucelabs_user must be provided when browser is saucelabs.''
         \<in> set (x_validation_errors self1)"
    "''[robottelo] saucelabs_key must be provided when browser is saucelabs.''
         \<in> set (x_validation_errors self1)"
    using sub unfolding v by simp_all
  then have ne: "x_validation_errors self1 \<noteq> []" by auto
  have c: "Settings_configure e (self, w) =
         (Some (ImproperlyConfigured
            (''Failed to validate the configuration, check the message(s):'' @ [CHR 0x0A]
               @ join [CHR 0x0A] (x_validation_errors self1))), (self1, w))"
    using assms(7) ne by (simp add: configure_cases[OF assms(1,2)] validation_message_def)
  have d: "''[robottelo] saucelabs_user must be provided when browser is saucelabs.'' \<noteq>
       ''[robottelo] saucelabs_key must be provided when browser is saucelabs.''"
    by simp
  show ?thesis using v d wd mem c by (intro conjI)
qed

theorem saucelabs_credentials_required_witness:
  "Settings_configure (example_env saucelabs_source) (Settings_init, []) =
     (Some (ImproperlyConfigured
        (''Failed to validate the configuration, check the message(s):'' @ [CHR 0x0A]
          @ ''[robottelo] saucelabs_user must be provided when browser is saucelabs.''
          @ [CHR 0x0A]
          @ ''[robottelo] saucelabs_key must be provided when browser is saucelabs.'')),
      (snd (Settings_configure_read (example_env saucelabs_source)
              (configure_settings_path (example_env saucelabs_source)) Settings_init), []))"
proof -
  let ?e = "example_env saucelabs_source"
  let ?R = "Settings_configure_read ?e (configure_settings_path ?e) Settings_init"
  have 1: "\<not> Settings_configured Settings_init"
    by (simp add: Settings_configured_def Settings_init_def)
  have 2: "isfile ?e (configure_settings_path ?e)" by (simp add: eval_defs)
  have 3: "INIReader_init ?e (configure_settings_path ?e) = Inr (example_reader saucelabs_source)"
    by (simp add: eval_defs)
  have 4: "ConfigParser_get (config_parser (example_reader saucelabs_source))
      ''robottelo'' ''browser'' = Inr ''saucelabs''"
    by (simp add: example_reader_def parser_of_def saucelabs_source_def)
  have 5: "ConfigParser_get (config_parser (example_reader saucelabs_source))
      ''robottelo'' ''saucelabs_user'' = Inl NoOptionError"
    by (simp add: example_reader_def parser_of_def saucelabs_source_def)
  have 6: "ConfigParser_get (config_parser (example_reader saucelabs_source))
      ''robottelo'' ''saucelabs_key'' = Inl NoOptionError"
    by (simp add: example_reader_def parser_of_def saucelabs_source_def)
  have "fst ?R = None" by (simp add: eval_defs saucelabs_source_def)
  then have 7: "?R = (None, snd ?R)" by (metis prod.collapse)
  have errs: "x_validation_errors (snd ?R) =
      [''[robottelo] saucelabs_user must be provided when browser is saucelabs.'',
       ''[robottelo] saucelabs_key must be provided when browser is saucelabs.'']"
    by (simp add: eval_defs saucelabs_source_def)
  from saucelabs_credentials_required[OF 1 2 3 4 5 6 7, of "[]"]
  have "Settings_configure ?e (Settings_init, []) =
         (Some (ImproperlyConfigured
            (''Failed to validate the configuration, check the message(s):'' @ [CHR 0x0A]
               @ join [CHR 0x0A] (x_validation_errors (snd ?R)))), (snd ?R, []))"
    by blast
  then show ?thesis unfolding errs by simp
qed

section \<open>Failing casts\<close>

lemma assign_Cons_first_failure:
  "(\<And>s'. fst (block cs s') = first_failure xs) \<Longrightarrow>
   fst (block (assign st ex # cs) s) = first_failure (ex # xs)"
  by (cases ex) (simp_all add: assign_def)

lemma ServerSettings_read_outcome:
  "fst (ServerSettings_read r g) = first_failure
     [INIReader_get r ''server'' ''admin_password'' (PyStr ''changeme'') None,
      INIReader_get r ''server'' ''admin_username'' (PyStr ''admin'') None,
      INIReader_get r ''server'' ''hostname'' PyNone None,
      INIReader_get r ''server'' ''port'' PyNone (Some (Callable builtin_int)),
      INIReader_get r ''server'' ''scheme'' (PyStr ''https'') None,
      INIReader_get r ''server'' ''ssh_key'' PyNone None,
      INIReader_get r ''server'' ''ssh_password'' PyNone None,
      INIReader_get r ''server'' ''ssh_username'' (PyStr ''root'') None]"
  unfolding ServerSettings_read_def by (intro assign_Cons_first_failure) simp

lemma DockerSettings_read_outcome:
  "fst (DockerSettings_read r g) = first_failure
     [INIReader_get r ''docker'' ''unix_socket'' (PyBool False) (Some builtin_bool),
      INIReader_get r ''docker'' ''external_url'' PyNone None]"
  unfolding DockerSettings_read_def by (intro assign_Cons_first_failure) simp

lemma PerformanceSettings_read_outcome:
  "fst (PerformanceSettings_read r g) = first_failure
     [INIReader_get r ''performance'' ''time_hammer'' (PyBool False) (Some builtin_bool),
      INIReader_get r ''performance'' ''cdn_address'' PyNone None,
      INIReader_get r ''performance'' ''virtual_machines'' PyNone (Some builtin_list),
      INIReader_get r ''performance'' ''fresh_install_savepoint'' PyNone None,
      INIReader_get r ''performance'' ''enabled_repos_savepoint'' PyNone None,
      INIReader_get r ''performance'' ''csv_buckets_count'' (PyInt 10) (Some (Callable builtin_int)),
      INIReader_get r ''performance'' ''sync_count'' (PyInt 3) (Some (Callable builtin_int)),
      INIReader_get r ''performance'' ''sync_type'' (PyStr ''sync'') None,
      INIReader_get r ''performance'' ''repos'' PyNone (Some builtin_list)]"
  unfolding PerformanceSettings_read_def by (intro assign_Cons_first_failure) simp

lemma read_robottelo_settings_outcome:
  assumes "reader self = Some r"
  shows "fst (Settings_read_robottelo_settings C self) = first_failure
     [INIReader_get r ''robottelo'' ''browser'' (PyStr ''selenium'') None,
      INIReader_get r ''robottelo'' ''locale'' (PyStr ''en_US.UTF-8'') None,
      INIReader_get r ''robottelo'' ''project'' (PyStr ''sat'') None,
      INIReader_get r ''robottelo'' ''rhel6_repo'' PyNone None,
      INIReader_get r ''robottelo'' ''rhel7_repo'' PyNone None,
      INIReader_get r ''robottelo'' ''screenshots_path'' (PyStr ''/tmp/robottelo/screenshots'') None,
      INIReader_get r ''robottelo'' ''run_one_datapoint'' (PyBool False) (Some builtin_bool),
      INIReader_get r ''robottelo'' ''upstream'' (PyBool True) (Some builtin_bool),
      (case cast_logging_level C ''debug'' of Inl e \<Rightarrow> Inl e | Inr d \<Rightarrow> INIReader_get r ''robottelo'' ''verbosity'' d (Some (Callable (cast_logging_level C)))),
      INIReader_get r ''robottelo'' ''webdriver'' (PyStr ''firefox'') None,
      INIReader_get r ''robottelo'' ''saucelabs_user'' PyNone None,
      INIReader_get r ''robottelo'' ''saucelabs_key'' PyNone None,
      INIReader_get r ''robottelo'' ''webdriver_binary'' PyNone None,
      INIReader_get r ''robottelo'' ''webdriver_desired_capabilities'' PyNone (Some (Callable (cast_webdriver_desired_capabilities C))),
      INIReader_get r ''robottelo'' ''window_manager_command'' PyNone None]"
  unfolding Settings_read_robottelo_settings_def assms option.case
  by (intro assign_Cons_first_failure) simp

text \<open>
  Claim C6, as stated, fails in two ways. The reader does not call a builtin type it is
  given but its own caster: on the present value \<^verbatim>\<open>a:1\<close> the supplied cast \<^verbatim>\<open>dict\<close> fails
  (\<^verbatim>\<open>dict('a:1')\<close> raises \<^verbatim>\<open>ValueError\<close>), while \<^verbatim>\<open>get\<close> returns the dictionary of the Dict
  caster and nothing propagates. And a cast whose failure is a \<^verbatim>\<open>NoOptionError\<close> (or a
  \<^verbatim>\<open>NoSectionError\<close>) does not propagate either: the cast runs inside the \<^verbatim>\<open>try\<close> of
  \<^verbatim>\<open>INIReader.get\<close>, so the \<^verbatim>\<open>except\<close> clause catches that failure and the default is
  returned although the option is present.
\<close>

theorem cast_lookup_failure_counterexample:
  "INIReader_get (example_reader bad_port_source) ''server'' ''port'' PyNone
     (Some (Callable lookup_failing_cast)) = Inr PyNone
   \<and> ConfigParser_get (config_parser (example_reader bad_port_source)) ''server'' ''port'' =
       Inr ''80a''
   \<and> lookup_failing_cast ''80a'' = Inl NoOptionError
   \<and> INIReader_get (example_reader [''performance'' \<mapsto> [''repos'' \<mapsto> ''a:1'']])
       ''performance'' ''repos'' PyNone (Some builtin_dict) =
       Inr (PyDict [(PyStr ''a'', PyStr ''1'')])
   \<and> call builtin_dict ''a:1'' = Inl ValueError"
  by (simp add: INIReader_get_def parser_of_def example_reader_def bad_port_source_def
      lookup_failing_cast_def spec_casters_def Dict_cast_def split_pair_def strip_def
      is_space_def)

text \<open>
  Claim C6, amended. For every present option value (the string \<open>v\<close> that the parser's
  lookup returns) on which the caster that the reader applies (its own Boolean, Dict,
  List or Tuple caster for the builtin types, the given cast otherwise) fails with an
  exception other than \<^verbatim>\<open>NoSectionError\<close> and \<^verbatim>\<open>NoOptionError\<close>, \<^verbatim>\<open>get\<close> raises that
  exception. A group's \<^verbatim>\<open>read()\<close> catches nothing: it
  raises the first failure among its \<^verbatim>\<open>get\<close> calls, in source order (stated for the
  reads that use casts: server, docker, performance and the global options). And
  \<^verbatim>\<open>configure()\<close> catches nothing: on an unconfigured instance with the file found and
  the reader built, when some read raises, \<^verbatim>\<open>configure()\<close> raises the exception of the
  first read that does, in source order; it is the exception itself, not a validation
  message; the world is unchanged and the instance stays unconfigured.
\<close>

theorem cast_failure_propagates:
  "(ConfigParser_get (config_parser r) sec opt = Inr v \<and>
    ex \<noteq> NoSectionError \<and> ex \<noteq> NoOptionError \<longrightarrow>
      (cast_boolean (casts r) v = Inl ex \<longrightarrow>
         INIReader_get r sec opt dflt (Some builtin_bool) = Inl ex)
    \<and> (cast_dict (casts r) v = Inl ex \<longrightarrow>
         INIReader_get r sec opt dflt (Some builtin_dict) = Inl ex)
    \<and> (cast_list (casts r) v = Inl ex \<longrightarrow>
         INIReader_get r sec opt dflt (Some builtin_list) = Inl ex)
    \<and> (cast_tuple (casts r) v = Inl ex \<longrightarrow>
         INIReader_get r sec opt dflt (Some builtin_tuple) = Inl ex)
    \<and> (f v = Inl ex \<longrightarrow>
         INIReader_get r sec opt dflt (Some (Callable f)) = Inl ex))
   \<and> fst (ServerSettings_read r g1) = first_failure
       [INIReader_get r ''server'' ''admin_password'' (PyStr ''changeme'') None,
        INIReader_get r ''server'' ''admin_username'' (PyStr ''admin'') None,
        INIReader_get r ''server'' ''hostname'' PyNone None,
        INIReader_get r ''server'' ''port'' PyNone (Some (Callable builtin_int)),
        INIReader_get r ''server'' ''scheme'' (PyStr ''https'') None,
        INIReader_get r ''server'' ''ssh_key'' PyNone None,
        INIReader_get r ''server'' ''ssh_password'' PyNone None,
        INIReader_get r ''server'' ''ssh_username'' (PyStr ''root'') None]
   \<and> fst (DockerSettings_read r g2) = first_failure
       [INIReader_get r ''docker'' ''unix_socket'' (PyBool False) (Some builtin_bool),
        INIReader_get r ''docker'' ''external_url'' PyNone None]
   \<and> fst (PerformanceSettings_read r g3) = first_failure
       [INIReader_get r ''performance'' ''time_hammer'' (PyBool False) (Some builtin_bool),
        INIReader_get r ''performance'' ''cdn_address'' PyNone None,
        INIReader_get r ''performance'' ''virtual_machines'' PyNone (Some builtin_list),
        INIReader_get r ''performance'' ''fresh_install_savepoint'' PyNone None,
        INIReader_get r ''performance'' ''enabled_repos_savepoint'' PyNone None,
        INIReader_get r ''performance'' ''csv_buckets_count'' (PyInt 10) (Some (Callable builtin_int)),
        INIReader_get r ''performance'' ''sync_count'' (PyInt 3) (Some (Callable builtin_int)),
        INIReader_get r ''performance'' ''sync_type'' (PyStr ''sync'') None,
        INIReader_get r ''performance'' ''repos'' PyNone (Some builtin_list)]
   \<and> (reader self0 = Some r \<longrightarrow>
       fst (Settings_read_robottelo_settings C self0) = first_failure
       [INIReader_get r ''robottelo'' ''browser'' (PyStr ''selenium'') None,
        INIReader_get r ''robottelo'' ''locale'' (PyStr ''en_US.UTF-8'') None,
        INIReader_get r ''robottelo'' ''project'' (PyStr ''sat'') None,
        INIReader_get r ''robottelo'' ''rhel6_repo'' PyNone None,
        INIReader_get r ''robottelo'' ''rhel7_repo'' PyNone None,
        INIReader_get r ''robottelo'' ''screenshots_path'' (PyStr ''/tmp/robottelo/screenshots'') None,
        INIReader_get r ''robottelo'' ''run_one_datapoint'' (PyBool False) (Some builtin_bool),
        INIReader_get r ''robottelo'' ''upstream'' (PyBool True) (Some builtin_bool),
        (case cast_logging_level C ''debug'' of Inl e \<Rightarrow> Inl e | Inr d \<Rightarrow> INIReader_get r ''robottelo'' ''verbosity'' d (Some (Callable (cast_logging_level C)))),
        INIReader_get r ''robottelo'' ''webdriver'' (PyStr ''firefox'') None,
        INIReader_get r ''robottelo'' ''saucelabs_user'' PyNone None,
        INIReader_get r ''robottelo'' ''saucelabs_key'' PyNone None,
        INIReader_get r ''robottelo'' ''webdriver_binary'' PyNone None,
        INIReader_get r ''robottelo'' ''webdriver_desired_capabilities'' PyNone (Some (Callable (cast_webdriver_desired_capabilities C))),
        INIReader_get r ''robottelo'' ''window_manager_command'' PyNone None])
   \<and> (\<not> Settings_configured self \<and> isfile e (configure_settings_path e) \<and>
      INIReader_init e (configure_settings_path e) = Inr r \<and>
      first_raise
       [fst (Settings_read_robottelo_settings (INIReader_casts e) (self\<lparr>reader := Some r\<rparr>)),
        fst (ServerSettings_read r (server self)),
        (if INIReader_has_section r ''clients'' then fst (ClientsSettings_read r (clients self)) else None),
        (if INIReader_has_section r ''compute_resources'' then fst (LibvirtHostSettings_read r (compute_resources self)) else None),
        (if INIReader_has_section r ''discovery'' then fst (DiscoveryISOSettings_read r (discovery self)) else None),
        (if INIReader_has_section r ''docker'' then fst (DockerSettings_read r (docker self)) else None),
        (if INIReader_has_section r ''fake_manifest'' then fst (FakeManifestSettings_read r (fake_manifest self)) else None),
        (if INIReader_has_section r ''ldap'' then fst (LDAPSettings_read r (ldap self)) else None),
        (if INIReader_has_section r ''oscap'' then fst (OscapSettings_read r (oscap self)) else None),
        (if INIReader_has_section r ''performance'' then fst (PerformanceSettings_read r (performance self)) else None),
        (if INIReader_has_section r ''rhai'' then fst (RHAISettings_read r (rhai self)) else None),
        (if INIReader_has_section r ''transition'' then fst (TransitionSettings_read r (transition self)) else None),
        (if INIReader_has_section r ''vlan_networking'' then fst (VlanNetworkSettings_read r (vlan_networking self)) else None)] = Some ex' \<longrightarrow>
        fst (Settings_configure e (self, w)) = Some ex'
      \<and> snd (snd (Settings_configure e (self, w))) = w
      \<and> \<not> Settings_configured (fst (snd (Settings_configure e (self, w)))))"
proof -
  have A: "ConfigParser_get (config_parser r) sec opt = Inr v \<and>
    ex \<noteq> NoSectionError \<and> ex \<noteq> NoOptionError \<longrightarrow>
      (cast_boolean (casts r) v = Inl ex \<longrightarrow>
         INIReader_get r sec opt dflt (Some builtin_bool) = Inl ex)
    \<and> (cast_dict (casts r) v = Inl ex \<longrightarrow>
         INIReader_get r sec opt dflt (Some builtin_dict) = Inl ex)
    \<and> (cast_list (casts r) v = Inl ex \<longrightarrow>
         INIReader_get r sec opt dflt (Some builtin_list) = Inl ex)
    \<and> (cast_tuple (casts r) v = Inl ex \<longrightarrow>
         INIReader_get r sec opt dflt (Some builtin_tuple) = Inl ex)
    \<and> (f v = Inl ex \<longrightarrow>
         INIReader_get r sec opt dflt (Some (Callable f)) = Inl ex)"
    by (auto simp: INIReader_get_def)
  have G: "reader self0 = Some r \<longrightarrow>
       fst (Settings_read_robottelo_settings C self0) = first_failure
       [INIReader_get r ''robottelo'' ''browser'' (PyStr ''selenium'') None,
        INIReader_get r ''robottelo'' ''locale'' (PyStr ''en_US.UTF-8'') None,
        INIReader_get r ''robottelo'' ''project'' (PyStr ''sat'') None,
        INIReader_get r ''robottelo'' ''rhel6_repo'' PyNone None,
        INIReader_get r ''robottelo'' ''rhel7_repo'' PyNone None,
        INIReader_get r ''robottelo'' ''screenshots_path'' (PyStr ''/tmp/robottelo/screenshots'') None,
        INIReader_get r ''robottelo'' ''run_one_datapoint'' (PyBool False) (Some builtin_bool),
        INIReader_get r ''robottelo'' ''upstream'' (PyBool True) (Some builtin_bool),
        (case cast_logging_level C ''debug'' of Inl e \<Rightarrow> Inl e | Inr d \<Rightarrow> INIReader_get r ''robottelo'' ''verbosity'' d (Some (Callable (cast_logging_level C)))),
        INIReader_get r ''robottelo'' ''webdriver'' (PyStr ''firefox'') None,
        INIReader_get r ''robottelo'' ''saucelabs_user'' PyNone None,
        INIReader_get r ''robottelo'' ''saucelabs_key'' PyNone None,
        INIReader_get r ''robottelo'' ''webdriver_binary'' PyNone None,
        INIReader_get r ''robottelo'' ''webdriver_desired_capabilities'' PyNone (Some (Callable (cast_webdriver_desired_capabilities C))),
        INIReader_get r ''robottelo'' ''window_manager_command'' PyNone None]"
    using read_robottelo_settings_outcome by blast
  have C: "\<not> Settings_configured self \<and> isfile e (configure_settings_path e) \<and>
      INIReader_init e (configure_settings_path e) = Inr r \<and>
      first_raise
       [fst (Settings_read_robottelo_settings (INIReader_casts e) (self\<lparr>reader := Some r\<rparr>)),
        fst (ServerSettings_read r (server self)),
        (if INIReader_has_section r ''clients'' then fst (ClientsSettings_read r (clients self)) else None),
        (if INIReader_has_section r ''compute_resources'' then fst (LibvirtHostSettings_read r (compute_resources self)) else None),
        (if INIReader_has_section r ''discovery'' then fst (DiscoveryISOSettings_read r (discovery self)) else None),
        (if INIReader_has_section r ''docker'' then fst (DockerSettings_read r (docker self)) else None),
        (if INIReader_has_section r ''fake_manifest'' then fst (FakeManifestSettings_read r (fake_manifest self)) else None),
        (if INIReader_has_section r ''ldap'' then fst (LDAPSettings_read r (ldap self)) else None),
        (if INIReader_has_section r ''oscap'' then fst (OscapSettings_read r (oscap self)) else None),
        (if INIReader_has_section r ''performance'' then fst (PerformanceSettings_read r (performance self)) else None),
        (if INIReader_has_section r ''rhai'' then fst (RHAISettings_read r (rhai self)) else None),
        (if INIReader_has_section r ''transition'' then fst (TransitionSettings_read r (transition self)) else None),
        (if INIReader_has_section r ''vlan_networking'' then fst (VlanNetworkSettings_read r (vlan_networking self)) else None)] = Some ex' \<longrightarrow>
        fst (Settings_configure e (self, w)) = Some ex'
      \<and> snd (snd (Settings_configure e (self, w))) = w
      \<and> \<not> Settings_configured (fst (snd (Settings_configure e (self, w))))"
  proof (intro impI, elim conjE)
    assume 1: "\<not> Settings_configured self" and 2: "isfile e (configure_settings_path e)"
      and 3: "INIReader_init e (configure_settings_path e) = Inr r"
      and 4: "first_raise
       [fst (Settings_read_robottelo_settings (INIReader_casts e) (self\<lparr>reader := Some r\<rparr>)),
        fst (ServerSettings_read r (server self)),
        (if INIReader_has_section r ''clients'' then fst (ClientsSettings_read r (clients self)) else None),
        (if INIReader_has_section r ''compute_resources'' then fst (LibvirtHostSettings_read r (compute_resources self)) else None),
        (if INIReader_has_section r ''discovery'' then fst (DiscoveryISOSettings_read r (discovery self)) else None),
        (if INIReader_has_section r ''docker'' then fst (DockerSettings_read r (docker self)) else None),
        (if INIReader_has_section r ''fake_manifest'' then fst (FakeManifestSettings_read r (fake_manifest self)) else None),
        (if INIReader_has_section r ''ldap'' then fst (LDAPSettings_read r (ldap self)) else None),
        (if INIReader_has_section r ''oscap'' then fst (OscapSettings_read r (oscap self)) else None),
        (if INIReader_has_section r ''performance'' then fst (PerformanceSettings_read r (performance self)) else None),
        (if INIReader_has_section r ''rhai'' then fst (RHAISettings_read r (rhai self)) else None),
        (if INIReader_has_section r ''transition'' then fst (TransitionSettings_read r (transition self)) else None),
        (if INIReader_has_section r ''vlan_networking'' then fst (VlanNetworkSettings_read r (vlan_networking self)) else None)] = Some ex'"
    have "fst (Settings_configure_read e (configure_settings_path e) self) = Some ex'"
      unfolding configure_read_follows(1)[OF 3] by (rule 4)
    from configure_read_raises[OF 1 2 this, of w] 1
    show "fst (Settings_configure e (self, w)) = Some ex'
      \<and> snd (snd (Settings_configure e (self, w))) = w
      \<and> \<not> Settings_configured (fst (snd (Settings_configure e (self, w))))"
      by (simp add: Settings_configured_def configure_read_preserves_configured)
  qed
  show ?thesis
    using A ServerSettings_read_outcome[of r g1] DockerSettings_read_outcome[of r g2]
      PerformanceSettings_read_outcome[of r g3] G C
    by (intro conjI)
qed

theorem cast_failure_propagates_witness:
  "INIReader_get (example_reader bad_port_source) ''server'' ''port'' PyNone
     (Some (Callable builtin_int)) = Inl ValueError
   \<and> fst (Settings_configure (example_env bad_port_source) (Settings_init, [])) = Some ValueError
   \<and> snd (snd (Settings_configure (example_env bad_port_source) (Settings_init, []))) = []"
proof -
  let ?r = "example_reader bad_port_source"
  let ?e = "example_env bad_port_source"
  note T = cast_failure_propagates[where r = "?r" and sec = "''server''"
      and opt = "''port''" and v = "''80a''" and ex = ValueError and dflt = PyNone
      and f = builtin_int and e = "?e" and self = Settings_init and ex' = ValueError and w = "[]"]
  have p: "ConfigParser_get (config_parser ?r) ''server'' ''port'' = Inr ''80a'' \<and>
      ValueError \<noteq> NoSectionError \<and> ValueError \<noteq> NoOptionError"
    by (simp add: example_reader_def parser_of_def bad_port_source_def)
  have c: "builtin_int ''80a'' = Inl ValueError"
    by (simp add: builtin_int_def strip_def is_space_def is_digit_def digits_value_def)
  have a: "INIReader_get ?r ''server'' ''port'' PyNone (Some (Callable builtin_int))
      = Inl ValueError"
    using T p c by blast
  have 1: "\<not> Settings_configured Settings_init"
    by (simp add: Settings_configured_def Settings_init_def)
  have 2: "isfile ?e (configure_settings_path ?e)" by (simp add: eval_defs)
  have 3: "INIReader_init ?e (configure_settings_path ?e) = Inr ?r"
    by (simp add: eval_defs)
  have g: "fst (Settings_read_robottelo_settings (INIReader_casts ?e)
      (Settings_init\<lparr>reader := Some ?r\<rparr>)) = None"
    by (simp add: eval_defs bad_port_source_def)
  have s: "fst (ServerSettings_read ?r (server Settings_init)) = Some ValueError"
    by (simp add: eval_defs bad_port_source_def)
  have "fst (Settings_configure ?e (Settings_init, [])) = Some ValueError
      \<and> snd (snd (Settings_configure ?e (Settings_init, []))) = []"
    using T 1 2 3 unfolding g s first_raise.simps by blast
  with a show ?thesis by (intro conjI) simp_all
qed
end
